(* ===== verification/Prelude.thy ===== *)
theory Prelude
  imports Main "HOL-Library.Word" "HOL-Library.Sublist" "HOL-Library.AList"
begin

text \<open>
  Shared vocabulary of the httpbin development: the types that name Go values
  (strings as byte lists, \<open>int64\<close> as \<open>int\<close> read through a 64-bit word, Go maps
  as association lists), the collection \<open>model_simps\<close> into which each component
  declares the equations that evaluate it, and generic lemmas on lists and
  association lists that the component proofs share.
\<close>

named_theorems model_simps "equations that evaluate the model on concrete inputs"

type_synonym go_string = string

text \<open>A Go \<open>map[string][]string\<close> (\<open>http.Header\<close>, \<open>url.Values\<close>) is a map from
  keys to value lists; it is kept as an association list, read through \<open>map_of\<close>.\<close>

type_synonym multimap = "(string \<times> string list) list"

text \<open>Go's \<open>int64\<close> and \<open>time.Duration\<close> (nanoseconds in an \<open>int64\<close>) are
  integers kept in the signed 64-bit range; arithmetic that the code performs
  on them wraps around as two's complement, which \<open>int64_wrap\<close> writes out.\<close>

type_synonym int64 = int
type_synonym duration = int

definition int64_min :: int where "int64_min = - (2 ^ 63)"
definition int64_max :: int where "int64_max = 2 ^ 63 - 1"

definition is_int64 :: "int \<Rightarrow> bool" where
  "is_int64 x \<longleftrightarrow> int64_min \<le> x \<and> x \<le> int64_max"

definition int64_wrap :: "int \<Rightarrow> int64" where
  "int64_wrap x = sint (word_of_int x :: 64 word)"

lemma int64_wrap_id:
  assumes "is_int64 x"
  shows "int64_wrap x = x"
proof -
  have "0 \<le> x + 2 ^ 63" "x + 2 ^ 63 < 2 ^ 64"
    using assms by (auto simp: is_int64_def int64_min_def int64_max_def)
  then have "(x + 2 ^ 63) mod 2 ^ 64 = x + 2 ^ 63"
    by (rule mod_pos_pos_trivial)
  then show ?thesis by (simp add: int64_wrap_def int_word_sint)
qed

lemma int64_wrap_is_int64: "is_int64 (int64_wrap x)"
proof -
  have "- (2 ^ 63) \<le> sint (word_of_int x :: 64 word)"
    using sint_ge [of "word_of_int x :: 64 word"] by simp
  moreover have "sint (word_of_int x :: 64 word) < 2 ^ 63"
    using sint_lt [of "word_of_int x :: 64 word"] by simp
  ultimately show ?thesis
    by (simp add: is_int64_def int64_min_def int64_max_def int64_wrap_def)
qed

lemma int64_wrap_overflow:
  assumes "int64_max < x" and "x \<le> int64_max + 2 ^ 63"
  shows "int64_wrap x = x - 2 ^ 64"
proof -
  have "sint (word_of_int x :: 64 word) = (x + 2 ^ 63) mod 2 ^ 64 - 2 ^ 63"
    by (simp add: int_word_sint)
  moreover have "(x + 2 ^ 63) mod (2 ^ 64) = x + 2 ^ 63 - 2 ^ 64"
  proof (rule mod_pos_geq [THEN trans])
    show "0 < (2::int) ^ 64" by simp
    show "(2::int) ^ 64 \<le> x + 2 ^ 63" using assms(1) by (simp add: int64_max_def)
    have "x + 2 ^ 63 - 2 ^ 64 < (2::int) ^ 64" using assms(2) by (simp add: int64_max_def)
    moreover have "0 \<le> x + 2 ^ 63 - (2::int) ^ 64" using assms(1) by (simp add: int64_max_def)
    ultimately show "(x + 2 ^ 63 - 2 ^ 64) mod 2 ^ 64 = x + 2 ^ 63 - (2::int) ^ 64"
      by (rule mod_pos_pos_trivial[rotated])
  qed
  ultimately show ?thesis by (simp add: int64_wrap_def)
qed

subsection \<open>Association lists\<close>

lemma map_of_update_same [simp]:
  "map_of (AList.update k v xs) k = Some v"
  by (simp add: update_conv')

lemma map_of_update_other [simp]:
  "k' \<noteq> k \<Longrightarrow> map_of (AList.update k v xs) k' = map_of xs k'"
  by (simp add: update_conv')

subsection \<open>Lists\<close>

lemma takeWhile_not_mem:
  "x \<notin> set (takeWhile (\<lambda>c. c \<noteq> x) xs)"
  by (auto dest: set_takeWhileD)

lemma takeWhile_prefix: "prefix (takeWhile P xs) xs"
  by (induction xs) auto

end
