(* ===== verification/GoLib.thy ===== *)
theory GoLib
  imports Prelude
begin

text \<open>
  The functions of Go's standard library that the sources call and whose
  behaviour the properties depend on: \<open>textproto.CanonicalMIMEHeaderKey\<close>,
  \<open>http.Header.Get\<close> and \<open>Set\<close>, \<open>strings.TrimSpace\<close> and \<open>strings.SplitN\<close>.
  Go strings are byte sequences; \<open>string\<close> is a list of 8-bit \<open>char\<close>s, so a
  multi-byte UTF-8 rune is several \<open>char\<close>s here, as it is several bytes there.
\<close>

subsection \<open>Header keys\<close>

text \<open>\<open>validHeaderFieldByte\<close>: the token characters of RFC 7230.\<close>

definition valid_header_field_byte :: "char \<Rightarrow> bool" where
  "valid_header_field_byte c \<longleftrightarrow>
     (let n = of_char c :: nat in
        (48 \<le> n \<and> n \<le> 57) \<or> (65 \<le> n \<and> n \<le> 90) \<or> (97 \<le> n \<and> n \<le> 122) \<or>
        n \<in> set [33, 35, 36, 37, 38, 39, 42, 43, 45, 46, 94, 95, 96, 124, 126])"

definition upper_byte :: "char \<Rightarrow> char" where
  "upper_byte c = (let n = of_char c :: nat in
     if 97 \<le> n \<and> n \<le> 122 then char_of (n - 32) else c)"

definition lower_byte :: "char \<Rightarrow> char" where
  "lower_byte c = (let n = of_char c :: nat in
     if 65 \<le> n \<and> n \<le> 90 then char_of (n + 32) else c)"

text \<open>The loop of \<open>canonicalMIMEHeaderKey\<close>: the first byte and every byte after
  a hyphen are upper-cased, all others lower-cased; \<open>upper\<close> is recomputed from
  the byte just read (\<open>upper = c == '-'\<close>).\<close>

fun canon_loop :: "bool \<Rightarrow> string \<Rightarrow> string" where
  "canon_loop upper [] = []"
| "canon_loop upper (c # cs) =
     (if upper then upper_byte c else lower_byte c) # canon_loop (c = CHR ''-'') cs"

text \<open>A key with a byte outside the token set is returned unchanged.\<close>

definition canonical_mime_header_key :: "string \<Rightarrow> string" where
  "canonical_mime_header_key s =
     (if list_all valid_header_field_byte s then canon_loop True s else s)"

subsection \<open>http.Header\<close>

type_synonym header = multimap

text \<open>\<open>Header.Get\<close>: the first value stored under the canonical form of the
  key, or the empty string.\<close>

definition header_get :: "header \<Rightarrow> string \<Rightarrow> string" where
  "header_get h k =
     (case map_of h (canonical_mime_header_key k) of
        None \<Rightarrow> ''''
      | Some vs \<Rightarrow> (case vs of [] \<Rightarrow> '''' | v # _ \<Rightarrow> v))"

text \<open>\<open>Header.Set\<close>: replaces the values under the canonical key by one value.\<close>

definition header_set :: "header \<Rightarrow> string \<Rightarrow> string \<Rightarrow> header" where
  "header_set h k v = AList.update (canonical_mime_header_key k) [v] h"

subsection \<open>strings.TrimSpace\<close>

text \<open>
  \<open>TrimSpace\<close> removes leading and trailing white space as \<open>unicode.IsSpace\<close>
  defines it: the ASCII spaces \<open>\t \n \v \f \r\<close> and blank, and the runes
  U+0085, U+00A0, U+1680, U+2000 to U+200A, U+2028, U+2029, U+202F, U+205F and
  U+3000, here by their UTF-8 byte sequences.
\<close>

definition space_seqs :: "string list" where
  "space_seqs =
     [[CHR 0x09], [CHR 0x0A], [CHR 0x0B], [CHR 0x0C], [CHR 0x0D], [CHR 0x20],
      [CHR 0xC2, CHR 0x85], [CHR 0xC2, CHR 0xA0], [CHR 0xE1, CHR 0x9A, CHR 0x80]] @
     map (\<lambda>b. [CHR 0xE2, CHR 0x80, b])
       [CHR 0x80, CHR 0x81, CHR 0x82, CHR 0x83, CHR 0x84, CHR 0x85, CHR 0x86,
        CHR 0x87, CHR 0x88, CHR 0x89, CHR 0x8A, CHR 0xA8, CHR 0xA9, CHR 0xAF] @
     [[CHR 0xE2, CHR 0x81, CHR 0x9F], [CHR 0xE3, CHR 0x80, CHR 0x80]]"

definition space_prefix_len :: "string \<Rightarrow> nat" where
  "space_prefix_len s =
     (case find (\<lambda>p. prefix p s) space_seqs of None \<Rightarrow> 0 | Some p \<Rightarrow> length p)"

definition space_suffix_len :: "string \<Rightarrow> nat" where
  "space_suffix_len s =
     (case find (\<lambda>p. suffix p s) space_seqs of None \<Rightarrow> 0 | Some p \<Rightarrow> length p)"

lemma space_prefix_len_le: "space_prefix_len s \<le> length s"
  by (auto simp: space_prefix_len_def dest!: find_Some_iff [THEN iffD1] prefix_length_le
           split: option.splits)

lemma space_suffix_len_le: "space_suffix_len s \<le> length s"
  by (auto simp: space_suffix_len_def dest!: find_Some_iff [THEN iffD1] suffix_length_le
           split: option.splits)

lemma space_prefix_len_shrinks:
  "0 < space_prefix_len s \<Longrightarrow> length s - space_prefix_len s < length s"
  using space_prefix_len_le [of s] by linarith

lemma space_suffix_len_shrinks:
  "0 < space_suffix_len s \<Longrightarrow> length s - space_suffix_len s < length s"
  using space_suffix_len_le [of s] by linarith

text \<open>The two loops of \<open>TrimSpace\<close>: drop a white-space rune at the front while
  there is one, then at the back.\<close>

function trim_left :: "string \<Rightarrow> string" where
  "trim_left s = (if space_prefix_len s = 0 then s else trim_left (drop (space_prefix_len s) s))"
  by pat_completeness auto
termination
  by (relation "measure length") (auto simp: space_prefix_len_shrinks)

function trim_right :: "string \<Rightarrow> string" where
  "trim_right s = (if space_suffix_len s = 0 then s
                   else trim_right (take (length s - space_suffix_len s) s))"
  by pat_completeness auto
termination
  by (relation "measure length") (auto simp: space_suffix_len_shrinks)

definition trim_space :: "string \<Rightarrow> string" where
  "trim_space s = trim_right (trim_left s)"

subsection \<open>strings.SplitN\<close>

text \<open>\<open>strings.SplitN(s, sep, 2)[0]\<close> for a one-byte separator: the text before
  the first separator, or all of \<open>s\<close> when there is none (\<open>SplitN\<close> with
  \<open>n > 0\<close> always returns at least one element).\<close>

definition split_n_first :: "char \<Rightarrow> string \<Rightarrow> string" where
  "split_n_first sep s = takeWhile (\<lambda>c. c \<noteq> sep) s"

subsection \<open>strings.Split\<close>

text \<open>\<open>strings.Split(s, sep)\<close> for a one-byte separator.\<close>

fun split_on :: "char \<Rightarrow> string \<Rightarrow> string list" where
  "split_on c [] = [[]]"
| "split_on c (x # xs) =
     (if x = c then [] # split_on c xs
      else (case split_on c xs of w # ws \<Rightarrow> (x # w) # ws | [] \<Rightarrow> [[x]]))"

subsection \<open>Byte case mapping\<close>

lemma of_char_lt_256: "(of_char c :: nat) < 256"
proof -
  have "(of_char c :: nat) mod 256 < 256" by simp
  then show ?thesis by simp
qed

lemma of_char_lower_byte:
  "(of_char (lower_byte c) :: nat) =
     (if 65 \<le> (of_char c :: nat) \<and> (of_char c :: nat) \<le> 90 then of_char c + 32 else of_char c)"
  by (simp add: lower_byte_def Let_def)

lemma of_char_upper_byte:
  "(of_char (upper_byte c) :: nat) =
     (if 97 \<le> (of_char c :: nat) \<and> (of_char c :: nat) \<le> 122 then of_char c - 32 else of_char c)"
proof -
  have "(of_char c :: nat) - 32 < 256" using of_char_lt_256 [of c] by linarith
  then show ?thesis by (simp add: upper_byte_def Let_def)
qed

lemma char_eq_via_nat: "(c = d) = ((of_char c :: nat) = of_char d)"
  by simp

lemma hyph: "(of_char (CHR ''-'') :: nat) = 45" by simp

lemma lower_byte_hyphen [simp]: "(lower_byte c = CHR ''-'') = (c = CHR ''-'')"
  unfolding char_eq_via_nat [of _ "CHR ''-''"] hyph of_char_lower_byte by auto
lemma upper_byte_hyphen [simp]: "(upper_byte c = CHR ''-'') = (c = CHR ''-'')"
  unfolding char_eq_via_nat [of _ "CHR ''-''"] hyph of_char_upper_byte by auto
lemma upper_lower_byte [simp]: "upper_byte (lower_byte c) = upper_byte c"
  unfolding char_eq_via_nat [of "upper_byte _"] of_char_lower_byte of_char_upper_byte by auto
lemma lower_lower_byte [simp]: "lower_byte (lower_byte c) = lower_byte c"
  unfolding char_eq_via_nat [of "lower_byte _"] of_char_lower_byte by auto
lemma upper_upper_byte [simp]: "upper_byte (upper_byte c) = upper_byte c"
  unfolding char_eq_via_nat [of "upper_byte _"] of_char_upper_byte by auto
lemma lower_upper_byte [simp]: "lower_byte (upper_byte c) = lower_byte c"
  unfolding char_eq_via_nat [of "lower_byte _"] of_char_lower_byte of_char_upper_byte by auto
lemma valid_lower_byte [simp]: "valid_header_field_byte (lower_byte c) = valid_header_field_byte c"
  unfolding valid_header_field_byte_def Let_def of_char_lower_byte by auto
lemma valid_upper_byte [simp]: "valid_header_field_byte (upper_byte c) = valid_header_field_byte c"
proof (cases "97 \<le> (of_char c :: nat) \<and> (of_char c :: nat) \<le> 122")
  case True
  then have "65 \<le> (of_char c :: nat) - 32 \<and> (of_char c :: nat) - 32 \<le> 90" by linarith
  with True show ?thesis by (simp add: valid_header_field_byte_def of_char_upper_byte Let_def)
next
  case False
  then have "upper_byte c = c" by (auto simp: upper_byte_def Let_def)
  then show ?thesis by simp
qed

subsection \<open>Canonical header keys and Header.Get/Set\<close>

text \<open>Canonicalisation is idempotent, and for keys of token bytes it ignores case:
  this is why \<open>Header.Get\<close> finds a header whatever the case of the key it is
  given. A key with a non-token byte is left as it is, and its lookup is
  case-sensitive.\<close>

lemma canon_loop_lower: "canon_loop u (map lower_byte s) = canon_loop u s"
  by (induction s arbitrary: u) auto

lemma canon_loop_idem: "canon_loop u (canon_loop u s) = canon_loop u s"
  by (induction s arbitrary: u) auto

lemma canon_loop_valid: "list_all valid_header_field_byte (canon_loop u s) = list_all valid_header_field_byte s"
  by (induction s arbitrary: u) auto

lemma canonical_key_idem: "canonical_mime_header_key (canonical_mime_header_key s) = canonical_mime_header_key s"
  by (simp add: canonical_mime_header_key_def canon_loop_idem canon_loop_valid)

lemma canonical_key_case_insensitive:
  "list_all valid_header_field_byte s \<Longrightarrow>
   canonical_mime_header_key (map lower_byte s) = canonical_mime_header_key s"
  by (simp add: canonical_mime_header_key_def canon_loop_lower list.pred_map comp_def)

lemma header_get_set:
  "canonical_mime_header_key k' = canonical_mime_header_key k \<Longrightarrow>
   header_get (header_set h k v) k' = v"
  by (simp add: header_get_def header_set_def)


subsection \<open>TrimSpace\<close>

declare trim_left.simps [simp del] trim_right.simps [simp del]

lemma space_seqs_nonempty: "p \<in> set space_seqs \<Longrightarrow> p \<noteq> []"
  by (auto simp: space_seqs_def)

lemma space_prefix_len_0_iff:
  "space_prefix_len s = 0 \<longleftrightarrow> (\<forall>p \<in> set space_seqs. \<not> prefix p s)"
  by (auto simp: space_prefix_len_def find_None_iff dest: space_seqs_nonempty [OF nth_mem]
           split: option.splits dest!: find_Some_iff [THEN iffD1])

lemma space_suffix_len_0_iff:
  "space_suffix_len s = 0 \<longleftrightarrow> (\<forall>p \<in> set space_seqs. \<not> suffix p s)"
  by (auto simp: space_suffix_len_def find_None_iff dest: space_seqs_nonempty [OF nth_mem]
           split: option.splits dest!: find_Some_iff [THEN iffD1])

lemma trim_left_suffix: "suffix (trim_left s) s"
proof (induction s rule: trim_left.induct)
  case (1 s)
  then show ?case
    by (cases "space_prefix_len s = 0")
       (auto simp: trim_left.simps [of s] intro: suffix_order.trans suffix_drop)
qed

lemma trim_left_no_space: "space_prefix_len (trim_left s) = 0"
proof (induction s rule: trim_left.induct)
  case (1 s)
  then show ?case by (cases "space_prefix_len s = 0") (auto simp: trim_left.simps [of s])
qed

lemma trim_right_prefix: "prefix (trim_right s) s"
proof (induction s rule: trim_right.induct)
  case (1 s)
  then show ?case
    by (cases "space_suffix_len s = 0")
       (auto simp: trim_right.simps [of s] intro: prefix_order.trans take_is_prefix)
qed

lemma trim_right_no_space: "space_suffix_len (trim_right s) = 0"
proof (induction s rule: trim_right.induct)
  case (1 s)
  then show ?case by (cases "space_suffix_len s = 0") (auto simp: trim_right.simps [of s])
qed

lemma prefix_take_prefix: "prefix p (take k s) \<Longrightarrow> prefix p s"
  using prefix_order.trans take_is_prefix by blast

lemma space_prefix_len_prefix:
  "space_prefix_len s = 0 \<Longrightarrow> prefix t s \<Longrightarrow> space_prefix_len t = 0"
  by (auto simp: space_prefix_len_0_iff intro: prefix_order.trans)

theorem trim_space_infix: "\<exists>a b. s = a @ trim_space s @ b"
proof -
  obtain b where b: "trim_left s = trim_space s @ b"
    using trim_right_prefix [of "trim_left s"] by (auto simp: trim_space_def prefix_def)
  obtain a where "s = a @ trim_left s"
    using trim_left_suffix [of s] by (auto simp: suffix_def)
  with b show ?thesis by auto
qed

theorem trim_space_no_space:
  "space_prefix_len (trim_space s) = 0 \<and> space_suffix_len (trim_space s) = 0"
  using space_prefix_len_prefix [OF trim_left_no_space trim_right_prefix]
  by (simp add: trim_space_def trim_right_no_space)

lemma space_prefix_len_ascii:
  "c \<in> {CHR 0x09, CHR 0x0A, CHR 0x0B, CHR 0x0C, CHR 0x0D, CHR 0x20} \<Longrightarrow> space_prefix_len (c # rest) = 1"
  by (elim insertE emptyE) (simp_all add: space_prefix_len_def space_seqs_def)

lemma trim_left_ascii_blank:
  "set e \<subseteq> {CHR 0x09, CHR 0x0A, CHR 0x0B, CHR 0x0C, CHR 0x0D, CHR 0x20} \<Longrightarrow> trim_left e = []"
proof (induction e)
  case Nil
  then show ?case by (subst trim_left.simps) (simp add: space_prefix_len_def space_seqs_def)
next
  case (Cons c rest)
  then have "space_prefix_len (c # rest) = 1" by (intro space_prefix_len_ascii) simp
  then show ?case using Cons by (subst trim_left.simps) simp
qed

lemma trim_right_Nil: "trim_right [] = []"
  by (subst trim_right.simps) (simp add: space_suffix_len_def space_seqs_def)

lemma trim_space_id:
  "space_prefix_len s = 0 \<Longrightarrow> space_suffix_len s = 0 \<Longrightarrow> trim_space s = s"
  by (simp add: trim_space_def trim_left.simps [of s] trim_right.simps [of s])

lemma split_on_no_sep: "c \<notin> set xs \<Longrightarrow> split_on c xs = [xs]"
  by (induction xs) auto

lemma split_on_append_sep:
  "c \<notin> set xs \<Longrightarrow> split_on c (xs @ c # ys) = xs # split_on c ys"
proof (induction xs)
  case Nil
  then show ?case by simp
next
  case (Cons x xs)
  then show ?case by (cases "split_on c (xs @ c # ys)") auto
qed

text \<open>Lines each ended by the separator and free of it split back into the
  lines and a last empty piece.\<close>

lemma split_on_lines:
  "\<forall>x \<in> set xs. c \<notin> set x \<Longrightarrow> split_on c (concat (map (\<lambda>x. x @ [c]) xs)) = xs @ [[]]"
  by (induction xs) (simp_all add: split_on_append_sep)

end
