(* ===== verification/Strconv.thy ===== *)
theory Strconv
  imports GoLib
begin

text \<open>
  Go's \<open>strconv\<close> as the sources use it: \<open>Itoa\<close> for decimal output,
  \<open>ParseInt(s, 10, 64)\<close> for \<open>MAX_BODY_SIZE\<close> and \<open>Atoi\<close> for \<open>PORT\<close> in
  \<open>main.go\<close> and for the numeric path segments of the handlers. Errors are
  \<open>ErrSyntax\<close> and \<open>ErrRange\<close>, the two kinds \<open>NumError\<close> carries.
\<close>

subsection \<open>Itoa\<close>

fun nat_to_string :: "nat \<Rightarrow> string" where
  "nat_to_string n =
     (if n < 10 then [char_of (48 + n)] else nat_to_string (n div 10) @ [char_of (48 + n mod 10)])"

definition itoa :: "int \<Rightarrow> string" where
  "itoa i = (if i < 0 then CHR ''-'' # nat_to_string (nat (- i)) else nat_to_string (nat i))"

subsection \<open>ParseUint, ParseInt and Atoi\<close>

datatype num_error = ErrSyntax | ErrRange

definition is_digit :: "char \<Rightarrow> bool" where
  "is_digit c \<longleftrightarrow> 48 \<le> (of_char c :: nat) \<and> (of_char c :: nat) \<le> 57"

definition digit_val :: "char \<Rightarrow> nat" where
  "digit_val c = of_char c - 48"

text \<open>The loop of \<open>ParseUint(s, 10, 64)\<close>: a non-digit is a syntax error, a
  value beyond \<open>2^64 - 1\<close> a range error, whichever comes first.\<close>

fun parse_uint_loop :: "nat \<Rightarrow> string \<Rightarrow> num_error + nat" where
  "parse_uint_loop n [] = Inr n"
| "parse_uint_loop n (c # cs) =
     (if \<not> is_digit c then Inl ErrSyntax
      else if 2 ^ 64 \<le> n * 10 + digit_val c then Inl ErrRange
      else parse_uint_loop (n * 10 + digit_val c) cs)"

definition parse_uint :: "string \<Rightarrow> num_error + nat" where
  "parse_uint s = (if s = [] then Inl ErrSyntax else parse_uint_loop 0 s)"

text \<open>\<open>ParseInt(s, 10, 64)\<close>.\<close>

definition parse_int :: "string \<Rightarrow> num_error + int64" where
  "parse_int s =
     (if s = [] then Inl ErrSyntax
      else let neg = (hd s = CHR ''-'');
               digits = (if hd s = CHR ''+'' \<or> hd s = CHR ''-'' then tl s else s)
           in case parse_uint digits of
                Inl e \<Rightarrow> Inl e
              | Inr un \<Rightarrow>
                  if \<not> neg \<and> 2 ^ 63 \<le> un then Inl ErrRange
                  else if neg \<and> 2 ^ 63 < un then Inl ErrRange
                  else Inr (if neg then - int un else int un))"

text \<open>\<open>Atoi\<close>'s fast path for strings of 1 to 18 bytes.\<close>

fun atoi_fast_loop :: "int \<Rightarrow> string \<Rightarrow> num_error + int" where
  "atoi_fast_loop n [] = Inr n"
| "atoi_fast_loop n (c # cs) =
     (if \<not> is_digit c then Inl ErrSyntax else atoi_fast_loop (n * 10 + int (digit_val c)) cs)"

definition atoi :: "string \<Rightarrow> num_error + int" where
  "atoi s =
     (if 0 < length s \<and> length s < 19 then
        (let s' = (if hd s = CHR ''-'' \<or> hd s = CHR ''+'' then tl s else s) in
         if s' = [] then Inl ErrSyntax
         else case atoi_fast_loop 0 s' of
                Inl e \<Rightarrow> Inl e
              | Inr n \<Rightarrow> Inr (if hd s = CHR ''-'' then - n else n))
      else parse_int s)"

definition digits_val :: "nat \<Rightarrow> string \<Rightarrow> nat" where
  "digits_val acc ds = foldl (\<lambda>n c. n * 10 + digit_val c) acc ds"

text \<open>The equations by which \<open>simp\<close> evaluates the parsers on literals.\<close>

lemmas strconv_eval [model_simps] = parse_int_def parse_uint_def atoi_def is_digit_def digit_val_def

subsection \<open>Properties\<close>

lemma digits_val_ge: "acc \<le> digits_val acc ds"
proof (induction ds arbitrary: acc)
  case Nil
  then show ?case by (simp add: digits_val_def)
next
  case (Cons c cs)
  have "acc \<le> acc * 10 + digit_val c" by simp
  also have "\<dots> \<le> digits_val (acc * 10 + digit_val c) cs" by (rule Cons.IH)
  finally show ?case by (simp add: digits_val_def)
qed

lemma parse_uint_loop_digits:
  "list_all is_digit ds \<Longrightarrow> acc < 2 ^ 64 \<Longrightarrow>
   parse_uint_loop acc ds = (if digits_val acc ds < 2 ^ 64 then Inr (digits_val acc ds) else Inl ErrRange)"
proof (induction ds arbitrary: acc)
  case Nil
  then show ?case by (simp add: digits_val_def)
next
  case (Cons c cs)
  have dv: "digits_val acc (c # cs) = digits_val (acc * 10 + digit_val c) cs"
    by (simp add: digits_val_def)
  show ?case
  proof (cases "2 ^ 64 \<le> acc * 10 + digit_val c")
    case True
    moreover have "acc * 10 + digit_val c \<le> digits_val (acc * 10 + digit_val c) cs"
      by (rule digits_val_ge)
    ultimately show ?thesis using Cons.prems dv by auto
  next
    case False
    with Cons show ?thesis by (simp add: dv)
  qed
qed

lemma of_char_digit: "(k::nat) < 10 \<Longrightarrow> (of_char (char_of (48 + k)) :: nat) = 48 + k"
  by simp

lemma is_digit_char: "(k::nat) < 10 \<Longrightarrow> is_digit (char_of (48 + k))"
  by (simp add: is_digit_def)

lemma digit_val_char: "(k::nat) < 10 \<Longrightarrow> digit_val (char_of (48 + k)) = k"
  by (simp add: digit_val_def)

declare nat_to_string.simps [simp del]

lemma nat_to_string_digits: "list_all is_digit (nat_to_string n)"
proof (induction n rule: nat_to_string.induct)
  case (1 n)
  then show ?case by (subst nat_to_string.simps) (auto simp: is_digit_char)
qed

lemma nat_to_string_val: "digits_val 0 (nat_to_string n) = n"
proof (induction n rule: nat_to_string.induct)
  case (1 n)
  show ?case
  proof (cases "n < 10")
    case True
    then show ?thesis by (subst nat_to_string.simps) (simp add: digits_val_def digit_val_char)
  next
    case False
    with "1.IH" have "digits_val 0 (nat_to_string (n div 10)) = n div 10" by simp
    with False show ?thesis
      by (subst nat_to_string.simps) (simp add: digits_val_def digit_val_char)
  qed
qed

lemma nat_to_string_nonempty: "nat_to_string n \<noteq> []"
  by (subst nat_to_string.simps) simp

lemma parse_uint_nat_to_string: "n < 2 ^ 64 \<Longrightarrow> parse_uint (nat_to_string n) = Inr n"
  by (simp add: parse_uint_def nat_to_string_nonempty parse_uint_loop_digits nat_to_string_digits
      nat_to_string_val)

lemma hd_nat_to_string: "is_digit (hd (nat_to_string n))"
  using nat_to_string_digits [of n] nat_to_string_nonempty [of n]
  by (cases "nat_to_string n") auto

lemma is_digit_not_sign: "is_digit c \<Longrightarrow> c \<noteq> CHR ''-'' \<and> c \<noteq> CHR ''+''"
  by (auto simp: is_digit_def)

lemma parse_int_itoa_id:
  assumes "is_int64 i"
  shows "parse_int (itoa i) = Inr i"
proof (cases "i < 0")
  case True
  then have m: "nat (- i) \<le> 2 ^ 63"
    using assms by (simp add: is_int64_def int64_min_def nat_le_iff)
  then have "parse_uint (nat_to_string (nat (- i))) = Inr (nat (- i))"
    by (intro parse_uint_nat_to_string) simp
  with True m show ?thesis by (simp add: itoa_def parse_int_def)
next
  case False
  then have m: "nat i < 2 ^ 63"
    using assms by (simp add: is_int64_def int64_max_def nat_less_iff)
  then have "parse_uint (nat_to_string (nat i)) = Inr (nat i)"
    by (intro parse_uint_nat_to_string) simp
  with False m is_digit_not_sign [OF hd_nat_to_string [of "nat i"]] show ?thesis
    by (simp add: itoa_def parse_int_def nat_to_string_nonempty)
qed


lemma digit_val_le: "is_digit c \<Longrightarrow> digit_val c \<le> 9"
  unfolding is_digit_def digit_val_def by linarith

lemma parse_uint_loop_bound:
  "parse_uint_loop acc ds = Inr n \<Longrightarrow> n < (acc + 1) * 10 ^ length ds"
proof (induction ds arbitrary: acc)
  case Nil
  then show ?case by simp
next
  case (Cons c cs)
  then have d: "is_digit c" and r: "parse_uint_loop (acc * 10 + digit_val c) cs = Inr n"
    by (auto split: if_splits)
  from Cons.IH [OF r] have "n < (acc * 10 + digit_val c + 1) * 10 ^ length cs" .
  also have "\<dots> \<le> (acc + 1) * 10 * 10 ^ length cs"
    using digit_val_le [OF d] by (intro mult_right_mono) simp_all
  finally show ?case by (simp add: algebra_simps)
qed

lemma atoi_fast_loop_agrees:
  "(acc + 1) * 10 ^ length ds \<le> 2 ^ 64 \<Longrightarrow>
   atoi_fast_loop (int acc) ds =
     (case parse_uint_loop acc ds of Inl e \<Rightarrow> Inl e | Inr n \<Rightarrow> Inr (int n))"
proof (induction ds arbitrary: acc)
  case Nil
  then show ?case by simp
next
  case (Cons c cs)
  show ?case
  proof (cases "is_digit c")
    case False
    then show ?thesis by simp
  next
    case True
    let ?a = "acc * 10 + digit_val c"
    have "?a + 1 \<le> (acc + 1) * 10" using digit_val_le [OF True] by simp
    then have "(?a + 1) * 10 ^ length cs \<le> (acc + 1) * 10 * 10 ^ length cs"
      by (rule mult_right_mono) simp
    also have "\<dots> \<le> 2 ^ 64" using Cons.prems by (simp add: algebra_simps)
    finally have le: "(?a + 1) * 10 ^ length cs \<le> 2 ^ 64" .
    moreover have "?a < 2 ^ 64"
    proof -
      have "(?a + 1) * 1 \<le> (?a + 1) * 10 ^ length cs" by (rule mult_le_mono2) simp
      then have "?a + 1 \<le> (?a + 1) * 10 ^ length cs" by (simp only: mult_1_right)
      then have "?a + 1 \<le> 2 ^ 64" using le by (rule order_trans)
      then show ?thesis by simp
    qed
    ultimately show ?thesis
      using True Cons.IH [of ?a] by (simp add: algebra_simps)
  qed
qed


lemma atoi_short:
  assumes len: "0 < length s" "length s < 19"
  shows "atoi s = parse_int s"
proof -
  define d where "d = (if hd s = CHR ''-'' \<or> hd s = CHR ''+'' then tl s else s)"
  have d': "(if hd s = CHR ''+'' \<or> hd s = CHR ''-'' then tl s else s) = d"
    by (auto simp: d_def)
  have s: "s \<noteq> []" using len by auto
  show ?thesis
  proof (cases "d = []")
    case True
    then show ?thesis using len s d' by (simp add: atoi_def parse_int_def parse_uint_def d_def [symmetric] Let_def)
  next
    case False
    have "length d \<le> 18" using len by (auto simp: d_def)
    then have "(10::nat) ^ length d \<le> 10 ^ 18" by (rule power_increasing) simp
    then have "(0 + 1) * 10 ^ length d \<le> (10::nat) ^ 18" by simp
    also have "\<dots> \<le> 2 ^ 64" by simp
    finally have fast: "atoi_fast_loop (int 0) d =
        (case parse_uint_loop 0 d of Inl e \<Rightarrow> Inl e | Inr n \<Rightarrow> Inr (int n))"
      by (rule atoi_fast_loop_agrees)
    show ?thesis
    proof (cases "parse_uint_loop 0 d")
      case (Inl e)
      with fast False len s d' show ?thesis
        by (simp add: atoi_def parse_int_def parse_uint_def d_def [symmetric] Let_def)
    next
      case (Inr n)
      have "n < (0 + 1) * 10 ^ length d" using Inr by (rule parse_uint_loop_bound)
      also have "\<dots> \<le> 10 ^ 18"
        using power_increasing [OF \<open>length d \<le> 18\<close>, of "10::nat"] by simp
      finally have "n < 2 ^ 63" by simp
      with Inr fast False len s d' show ?thesis
        by (simp add: atoi_def parse_int_def parse_uint_def d_def [symmetric] Let_def)
    qed
  qed
qed

text \<open>C12: printing an \<open>int64\<close> in decimal and parsing it back with
  \<open>ParseInt(s, 10, 64)\<close> gives the number again.\<close>

theorem parse_int_itoa:
  assumes "is_int64 i"
  shows "parse_int (itoa i) = Inr i"
  using assms by (rule parse_int_itoa_id)

theorem parse_int_itoa_witness: "parse_int (itoa (-9223372036854775808)) = Inr (-9223372036854775808)"
proof -
  have "is_int64 (-9223372036854775808)" by (simp add: is_int64_def int64_min_def int64_max_def)
  then show ?thesis by (rule parse_int_itoa)
qed

lemma atoi_parse_int: "atoi s = parse_int s"
proof (cases "0 < length s \<and> length s < 19")
  case True
  then show ?thesis by (simp add: atoi_short)
next
  case False
  then show ?thesis unfolding atoi_def by (rule if_not_P)
qed

text \<open>C13: \<open>Atoi\<close>'s fast path for strings shorter than 19 bytes (digit loop
  without overflow checks) gives the same result, value or kind of error, as the
  general \<open>ParseInt\<close> path, so \<open>Atoi\<close> is \<open>ParseInt\<close> on every input.\<close>

theorem atoi_eq_parse_int: "atoi s = parse_int s"
  by (rule atoi_parse_int)


lemma parse_int_range:
  assumes "parse_int s = Inr i"
  shows "is_int64 i"
proof -
  obtain un where u: "parse_uint (if hd s = CHR ''+'' \<or> hd s = CHR ''-'' then tl s else s) = Inr un"
    and s: "s \<noteq> []"
    using assms by (auto simp: parse_int_def Let_def split: if_splits sum.splits)
  show ?thesis
  proof (cases "hd s = CHR ''-''")
    case True
    with assms s u have "un \<le> 2 ^ 63" and "i = - int un"
      by (auto simp: parse_int_def Let_def split: if_splits)
    then show ?thesis by (simp add: is_int64_def int64_min_def int64_max_def)
  next
    case False
    with assms s u have "un < 2 ^ 63" and "i = int un"
      by (auto simp: parse_int_def Let_def split: if_splits)
    then show ?thesis by (simp add: is_int64_def int64_min_def int64_max_def)
  qed
qed

text \<open>C36: what \<open>ParseInt(s, 10, 64)\<close> and \<open>Atoi\<close> return is always a 64-bit
  integer: the range checks leave nothing outside \<open>[-2^63, 2^63 - 1]\<close>.\<close>

theorem parse_int_int64:
  "(parse_int s = Inr i \<longrightarrow> is_int64 i) \<and> (atoi s = Inr i \<longrightarrow> is_int64 i)"
  using parse_int_range by (simp add: atoi_parse_int)

theorem parse_int_int64_witness: "parse_int ''-42'' = Inr (-42) \<and> is_int64 (-42)"
proof -
  have p: "parse_int ''-42'' = Inr (-42)" by (simp add: strconv_eval)
  with parse_int_int64 [of "''-42''" "-42"] show ?thesis by simp
qed

end
