(* ===== verification/Http.thy ===== *)
theory Http
  imports Strconv
begin

text \<open>
  The parts of Go's \<open>net/http\<close> that the handlers see: the request a handler
  receives, the response it writes, and the helpers \<open>http.Error\<close>,
  \<open>http.NotFound\<close> and \<open>http.Redirect\<close> the route table installs. A response
  is the status written, the header map, and the body as the list of writes,
  each stamped with the time (nanoseconds from the start of the handler) at
  which it was flushed, so that timing and streaming behaviour is observable.
\<close>

record request =
  req_method :: string
  req_path :: string
  req_query :: multimap
  req_raw_query :: string
  req_header :: header
  req_body :: string
  req_remote_addr :: string
  req_host :: string
  req_cancel_at :: "duration option"

record response =
  resp_status :: nat
  resp_header :: header
  resp_writes :: "(duration \<times> string) list"
  resp_elapsed :: duration

type_synonym handler = "request \<Rightarrow> response"

definition resp_body :: "response \<Rightarrow> string" where
  "resp_body r = concat (map snd (resp_writes r))"

subsection \<open>Status texts and the error helpers\<close>

text \<open>\<open>http.StatusText\<close> for the codes the model writes.\<close>

definition status_text :: "nat \<Rightarrow> string" where
  "status_text c =
     (if c = 200 then ''OK''
      else if c = 301 then ''Moved Permanently''
      else if c = 302 then ''Found''
      else if c = 304 then ''Not Modified''
      else if c = 400 then ''Bad Request''
      else if c = 401 then ''Unauthorized''
      else if c = 404 then ''Not Found''
      else if c = 405 then ''Method Not Allowed''
      else if c = 413 then ''Request Entity Too Large''
      else if c = 501 then ''Not Implemented''
      else '''')"

definition empty_response :: response where
  "empty_response = \<lparr>resp_status = 200, resp_header = [], resp_writes = [], resp_elapsed = 0\<rparr>"

text \<open>\<open>http.Error(w, msg, code)\<close>: plain-text headers, the status, the message
  and a newline.\<close>

definition http_error :: "string \<Rightarrow> nat \<Rightarrow> response" where
  "http_error msg code =
     \<lparr>resp_status = code,
      resp_header = [(''Content-Type'', [''text/plain; charset=utf-8'']),
                     (''X-Content-Type-Options'', [''nosniff''])],
      resp_writes = [(0, msg @ ''\<newline>'')],
      resp_elapsed = 0\<rparr>"

definition not_found :: handler where
  "not_found r = http_error ''404 page not found'' 404"

text \<open>\<open>http.Redirect(w, r, url, code)\<close> for a path target: the \<open>Location\<close>
  header and the status; the short HTML body written for GET is left out.\<close>

definition redirect_response :: "string \<Rightarrow> nat \<Rightarrow> response" where
  "redirect_response loc code =
     \<lparr>resp_status = code, resp_header = [(''Location'', [loc])], resp_writes = [], resp_elapsed = 0\<rparr>"

end
