(* ===== verification/ClientIP.thy ===== *)
theory ClientIP
  imports Http
begin

text \<open>
  \<open>src/app/utils/ip/ip.go\<close>. \<open>GetClientIP\<close> derives the origin string that
  every echo envelope reports, from the \<open>Fly-Client-IP\<close> header, the first
  entry of \<open>X-Forwarded-For\<close>, or the connection's remote address, in that
  order. \<open>GetLocalIp\<close> picks the first non-loopback IPv4 address of the host's
  interfaces for the start-up banner.
\<close>

subsection \<open>GetClientIP\<close>

definition get_client_ip :: "request \<Rightarrow> string" where
  "get_client_ip req =
     (let clientIP = header_get (req_header req) ''Fly-Client-IP'' in
      if clientIP \<noteq> '''' then clientIP
      else let forwardedFor = header_get (req_header req) ''X-Forwarded-For'' in
           if forwardedFor \<noteq> '''' then trim_space (split_n_first CHR '','' forwardedFor)
           else req_remote_addr req)"

subsection \<open>GetLocalIp\<close>

text \<open>A \<open>net.Addr\<close> returned by \<open>net.InterfaceAddrs\<close>: an \<open>*net.IPNet\<close> with its
  IP as 4 or 16 bytes, or an address of another dynamic type, which the type
  assertion \<open>address.(*net.IPNet)\<close> rejects.\<close>

datatype net_addr = IPNet "8 word list" | OtherAddr

text \<open>\<open>net.IP.To4\<close>: a 4-byte IP, or the last four bytes of an IPv4-mapped
  16-byte IP (ten zero bytes, then \<open>0xff 0xff\<close>); \<open>nil\<close> otherwise.\<close>

definition ip_to4 :: "8 word list \<Rightarrow> 8 word list option" where
  "ip_to4 ip =
     (if length ip = 4 then Some ip
      else if length ip = 16 \<and> take 10 ip = replicate 10 0 \<and> ip ! 10 = 0xff \<and> ip ! 11 = 0xff
      then Some (drop 12 ip)
      else None)"

definition ipv6_loopback :: "8 word list" where
  "ipv6_loopback = replicate 15 0 @ [1]"

text \<open>\<open>net.IP.IsLoopback\<close>: \<open>127.0.0.0/8\<close> for IPv4 (also IPv4-mapped), \<open>::1\<close>
  for IPv6 (\<open>IP.Equal\<close> compares the 16-byte forms).\<close>

definition ip_is_loopback :: "8 word list \<Rightarrow> bool" where
  "ip_is_loopback ip =
     (case ip_to4 ip of Some ip4 \<Rightarrow> ip4 ! 0 = 127 | None \<Rightarrow> ip = ipv6_loopback)"

text \<open>\<open>net.IP.String\<close> of an IP whose \<open>To4\<close> is \<open>ip4\<close>: dotted decimal.\<close>

definition ipv4_string :: "8 word list \<Rightarrow> string" where
  "ipv4_string ip4 =
     nat_to_string (unat (ip4 ! 0)) @ ''.'' @ nat_to_string (unat (ip4 ! 1)) @ ''.'' @
     nat_to_string (unat (ip4 ! 2)) @ ''.'' @ nat_to_string (unat (ip4 ! 3))"

text \<open>The \<open>for\<close> loop over the addresses: the first \<open>*net.IPNet\<close> that is not
  a loopback address and has an IPv4 form.\<close>

fun local_ip_loop :: "net_addr list \<Rightarrow> string" where
  "local_ip_loop [] = ''''"
| "local_ip_loop (IPNet ip # addrs) =
     (if \<not> ip_is_loopback ip then
        (case ip_to4 ip of Some ip4 \<Rightarrow> ipv4_string ip4 | None \<Rightarrow> local_ip_loop addrs)
      else local_ip_loop addrs)"
| "local_ip_loop (OtherAddr # addrs) = local_ip_loop addrs"

text \<open>\<open>net.InterfaceAddrs\<close> returns an error (\<open>Inl\<close>) or the addresses.\<close>

definition get_local_ip :: "string + net_addr list \<Rightarrow> string" where
  "get_local_ip r = (case r of Inl err \<Rightarrow> '''' | Inr addrs \<Rightarrow> local_ip_loop addrs)"

subsection \<open>Properties of GetClientIP\<close>

lemma set_trim_space: "set (trim_space s) \<subseteq> set s"
  using trim_space_infix [of s] by (metis Un_iff set_append subsetI)

lemma comma_not_in_split: "CHR '','' \<notin> set (split_n_first CHR '','' s)"
  by (simp add: split_n_first_def takeWhile_not_mem)

definition test_req :: "header \<Rightarrow> request" where
  "test_req h = \<lparr>req_method = ''GET'', req_path = ''/'', req_query = [], req_raw_query = '''', req_header = h,
     req_body = '''', req_remote_addr = ''0.0.0.0'', req_host = '''', req_cancel_at = None\<rparr>"

text \<open>C1: the platform header wins. Whatever the spelling of the key under which a
  client or proxy sets \<open>Fly-Client-IP\<close> (any key with the same canonical form),
  a non-empty value of it is the origin, whatever else the request carries.\<close>

theorem get_client_ip_fly:
  assumes "canonical_mime_header_key k = canonical_mime_header_key ''Fly-Client-IP''"
    and "v \<noteq> ''''"
  shows "get_client_ip (r\<lparr>req_header := header_set h k v\<rparr>) = v"
proof -
  have "header_get (header_set h k v) ''Fly-Client-IP'' = v"
    using assms(1) by (simp add: header_get_set)
  with assms(2) show ?thesis by (simp add: get_client_ip_def)
qed

theorem get_client_ip_fly_witness:
  "get_client_ip ((test_req (header_set [] ''X-Forwarded-For'' ''1.1.1.1''))
       \<lparr>req_header := header_set (header_set [] ''X-Forwarded-For'' ''1.1.1.1'') ''fly-client-ip'' ''9.9.9.9''\<rparr>)
   = ''9.9.9.9''"
  by (rule get_client_ip_fly) code_simp+

text \<open>C2: without the platform header, a non-empty \<open>X-Forwarded-For\<close> gives the
  text before its first comma with surrounding white space trimmed, so that the
  origin holds no comma and neither begins nor ends with white space; with
  neither header the origin is the connection's remote address.\<close>

theorem get_client_ip_forwarded:
  assumes "header_get (req_header r) ''Fly-Client-IP'' = ''''"
  shows "(header_get (req_header r) ''X-Forwarded-For'' \<noteq> '''' \<longrightarrow>
            get_client_ip r = trim_space (split_n_first CHR '','' (header_get (req_header r) ''X-Forwarded-For''))
          \<and> CHR '','' \<notin> set (get_client_ip r)
          \<and> space_prefix_len (get_client_ip r) = 0 \<and> space_suffix_len (get_client_ip r) = 0)
    \<and> (header_get (req_header r) ''X-Forwarded-For'' = '''' \<longrightarrow> get_client_ip r = req_remote_addr r)"
  using assms set_trim_space comma_not_in_split trim_space_no_space
  by (auto simp: get_client_ip_def Let_def)

theorem get_client_ip_forwarded_witness:
  "get_client_ip (test_req (header_set [] ''X-Forwarded-For'' '' 1.1.1.1 , 2.2.2.2'')) = ''1.1.1.1''
   \<and> CHR '','' \<notin> set (get_client_ip (test_req (header_set [] ''X-Forwarded-For'' '' 1.1.1.1 , 2.2.2.2'')))
   \<and> get_client_ip (test_req []) = ''0.0.0.0''"
proof -
  have "header_get (req_header (test_req (header_set [] ''X-Forwarded-For'' '' 1.1.1.1 , 2.2.2.2'')))
          ''Fly-Client-IP'' = ''''" by code_simp
  moreover have "header_get (req_header (test_req (header_set [] ''X-Forwarded-For'' '' 1.1.1.1 , 2.2.2.2'')))
          ''X-Forwarded-For'' = '' 1.1.1.1 , 2.2.2.2''" by code_simp
  moreover have "trim_space (split_n_first CHR '','' '' 1.1.1.1 , 2.2.2.2'') = ''1.1.1.1''" by code_simp
  moreover have "header_get (req_header (test_req [])) ''Fly-Client-IP'' = ''''" by code_simp
  moreover have "header_get (req_header (test_req [])) ''X-Forwarded-For'' = ''''" by code_simp
  ultimately show ?thesis
    using get_client_ip_forwarded [of "test_req (header_set [] ''X-Forwarded-For'' '' 1.1.1.1 , 2.2.2.2'')"]
      get_client_ip_forwarded [of "test_req []"]
    by (simp add: test_req_def)
qed

text \<open>The three cases of \<open>ip_test.go\<close>, with the headers built as the test
  builds them (\<open>Header.Set\<close>): the platform header takes precedence, the
  forwarded-for list is parsed, the remote address is the fall-back.\<close>

theorem get_client_ip_test_cases:
  "get_client_ip (test_req (header_set (header_set [] ''Fly-Client-IP'' ''9.9.9.9'')
      ''X-Forwarded-For'' ''1.1.1.1,2.2.2.2,3.3.3.3'')) = ''9.9.9.9''
   \<and> get_client_ip (test_req (header_set [] ''X-Forwarded-For'' ''1.1.1.1,2.2.2.2,3.3.3.3'')) = ''1.1.1.1''
   \<and> get_client_ip (test_req []) = ''0.0.0.0''"
  by code_simp

text \<open>C5: the origin is empty although the remote address need not be: without
  the platform header, a forwarded-for header whose first entry is blank (only
  ASCII white space, or nothing, before the first comma) gives the empty origin,
  since the code tests the header, not the entry, for emptiness.\<close>

theorem get_client_ip_blank_entry:
  assumes "header_get (req_header r) ''Fly-Client-IP'' = ''''"
    and "header_get (req_header r) ''X-Forwarded-For'' = e @ CHR '','' # rest"
    and "set e \<subseteq> {CHR 0x09, CHR 0x0A, CHR 0x0B, CHR 0x0C, CHR 0x0D, CHR 0x20}"
  shows "get_client_ip r = ''''"
proof -
  have "CHR '','' \<notin> set e" using assms(3) by auto
  then have "split_n_first CHR '','' (e @ CHR '','' # rest) = e"
    by (induction e) (auto simp: split_n_first_def)
  moreover have "trim_space e = []"
    using trim_left_ascii_blank [OF assms(3)] by (simp add: trim_space_def trim_right_Nil)
  ultimately show ?thesis using assms(1,2) by (simp add: get_client_ip_def Let_def)
qed

theorem get_client_ip_blank_entry_witness:
  "req_remote_addr (test_req (header_set [] ''X-Forwarded-For'' '', 1.1.1.1'')) = ''0.0.0.0''
   \<and> get_client_ip (test_req (header_set [] ''X-Forwarded-For'' '', 1.1.1.1'')) = ''''"
proof -
  have "header_get (req_header (test_req (header_set [] ''X-Forwarded-For'' '', 1.1.1.1''))) ''Fly-Client-IP'' = ''''"
    by code_simp
  moreover have "header_get (req_header (test_req (header_set [] ''X-Forwarded-For'' '', 1.1.1.1'')))
      ''X-Forwarded-For'' = [] @ CHR '','' # '' 1.1.1.1''" by code_simp
  ultimately show ?thesis
    using get_client_ip_blank_entry [of "test_req (header_set [] ''X-Forwarded-For'' '', 1.1.1.1'')" "[]"]
    by (simp add: test_req_def)
qed

subsection \<open>Properties of GetLocalIp\<close>

lemma local_ip_loop_found:
  "local_ip_loop addrs \<noteq> '''' \<Longrightarrow>
   \<exists>ip ip4. IPNet ip \<in> set addrs \<and> \<not> ip_is_loopback ip \<and> ip_to4 ip = Some ip4
            \<and> local_ip_loop addrs = ipv4_string ip4"
  by (induction addrs rule: local_ip_loop.induct) (auto split: option.splits if_splits)

lemma ip_to4_not_loopback:
  "ip_to4 ip = Some ip4 \<Longrightarrow> \<not> ip_is_loopback ip \<Longrightarrow> ip4 ! 0 \<noteq> 127"
  by (simp add: ip_is_loopback_def)

text \<open>C6: a non-empty \<open>GetLocalIp\<close> is the dotted form of the IPv4 address of one
  of the listed \<open>IPNet\<close>s, and that address is not in \<open>127.0.0.0/8\<close>.\<close>

theorem get_local_ip_non_loopback:
  assumes "get_local_ip r = s" and "s \<noteq> ''''"
  shows "\<exists>addrs ip ip4. r = Inr addrs \<and> IPNet ip \<in> set addrs \<and> ip_to4 ip = Some ip4
           \<and> ip4 ! 0 \<noteq> 127 \<and> s = ipv4_string ip4"
proof (cases r)
  case (Inl e)
  with assms show ?thesis by (simp add: get_local_ip_def)
next
  case (Inr addrs)
  with assms have "local_ip_loop addrs = s" by (simp add: get_local_ip_def)
  with assms(2) local_ip_loop_found [of addrs] ip_to4_not_loopback Inr show ?thesis
    by metis
qed

theorem get_local_ip_non_loopback_witness:
  "\<exists>addrs ip ip4. Inr [IPNet [127, 0, 0, 1], OtherAddr, IPNet (replicate 10 0 @ [0xff, 0xff, 10, 0, 0, 7])]
        = (Inr addrs :: string + net_addr list)
     \<and> IPNet ip \<in> set addrs \<and> ip_to4 ip = Some ip4 \<and> ip4 ! 0 \<noteq> 127 \<and> ''10.0.0.7'' = ipv4_string ip4"
proof -
  have "get_local_ip (Inr [IPNet [127, 0, 0, 1], OtherAddr,
          IPNet (replicate 10 0 @ [0xff, 0xff, 10, 0, 0, 7])]) = ''10.0.0.7''" by code_simp
  then show ?thesis using get_local_ip_non_loopback by blast
qed

end
