(* ===== verification/Config.thy ===== *)
theory Config
  imports Prelude
begin

text \<open>
  \<open>src/app/app.go\<close>, lines 10-128 and 232-283: the default constants, the
  \<open>HTTPBin\<close> configuration struct with its \<open>DefaultParams\<close>, and \<open>New\<close> with
  the functional options. Each \<open>OptionFunc\<close> the package offers is a constructor
  of \<open>option_func\<close>, and \<open>apply_option\<close> is the closure it returns; \<open>New\<close>
  applies the options to the defaults in order.
\<close>

text \<open>The \<open>Observer\<close> callback is named by the logger it writes to; its only
  effect the model records is that it is called (see the middleware theory).\<close>

datatype observer = StdLogObserver string

record default_params =
  DripDuration :: duration
  DripDelay :: duration
  DripNumBytes :: int64

record httpbin =
  MaxBodySize :: int64
  MaxDuration :: duration
  Observer :: "observer option"
  DefaultParams :: default_params
  hostname :: string

definition second :: duration where "second = 1000000000"

definition default_max_body_size :: int64 where "default_max_body_size = 1024 * 1024"
definition default_max_duration :: duration where "default_max_duration = 10 * second"
definition default_hostname :: string where "default_hostname = ''httpbin''"

definition default_default_params :: default_params where
  "default_default_params = \<lparr>DripDuration = 2 * second, DripDelay = 2 * second, DripNumBytes = 10\<rparr>"

datatype option_func =
    WithDefaultParams default_params
  | WithMaxBodySize int64
  | WithMaxDuration duration
  | WithHostname string
  | WithObserver observer

primrec apply_option :: "option_func \<Rightarrow> httpbin \<Rightarrow> httpbin" where
  "apply_option (WithDefaultParams p) h = h\<lparr>DefaultParams := p\<rparr>"
| "apply_option (WithMaxBodySize m) h = h\<lparr>MaxBodySize := m\<rparr>"
| "apply_option (WithMaxDuration d) h = h\<lparr>MaxDuration := d\<rparr>"
| "apply_option (WithHostname s) h = h\<lparr>hostname := s\<rparr>"
| "apply_option (WithObserver obs) h = h\<lparr>Observer := Some obs\<rparr>"

definition new_defaults :: httpbin where
  "new_defaults = \<lparr>MaxBodySize = default_max_body_size, MaxDuration = default_max_duration,
     Observer = None, DefaultParams = default_default_params, hostname = default_hostname\<rparr>"

text \<open>\<open>New(opts...)\<close>: \<open>for _, opt := range opts { opt(h) }\<close>.\<close>

definition new_httpbin :: "option_func list \<Rightarrow> httpbin" where
  "new_httpbin opts = fold apply_option opts new_defaults"

subsection \<open>Properties of New\<close>

lemma fold_apply_option_fields:
  "MaxBodySize (fold apply_option opts h) = last (MaxBodySize h # [m. WithMaxBodySize m \<leftarrow> opts])
   \<and> MaxDuration (fold apply_option opts h) = last (MaxDuration h # [d. WithMaxDuration d \<leftarrow> opts])
   \<and> Observer (fold apply_option opts h) = last (Observer h # [Some obs. WithObserver obs \<leftarrow> opts])
   \<and> DefaultParams (fold apply_option opts h) = last (DefaultParams h # [p. WithDefaultParams p \<leftarrow> opts])
   \<and> hostname (fold apply_option opts h) = last (hostname h # [s. WithHostname s \<leftarrow> opts])"
proof (induction opts arbitrary: h)
  case Nil
  then show ?case by simp
next
  case (Cons opt opts)
  then show ?case by (cases opt) auto
qed

text \<open>C7: \<open>New\<close> applies its options in order. Each field of the result is the
  value given by the last option that sets it, and the default (1 MiB body
  limit, 10 s duration limit, no observer, drip defaults 2 s, 2 s and 10 bytes,
  hostname \<open>httpbin\<close>) when no option sets it; options on different fields do
  not interfere.\<close>

theorem new_httpbin_last_option_wins:
  "MaxBodySize (new_httpbin opts) = last (1048576 # [m. WithMaxBodySize m \<leftarrow> opts])
   \<and> MaxDuration (new_httpbin opts) = last (10000000000 # [d. WithMaxDuration d \<leftarrow> opts])
   \<and> Observer (new_httpbin opts) = last (None # [Some obs. WithObserver obs \<leftarrow> opts])
   \<and> DefaultParams (new_httpbin opts) =
       last (\<lparr>DripDuration = 2000000000, DripDelay = 2000000000, DripNumBytes = 10\<rparr>
             # [p. WithDefaultParams p \<leftarrow> opts])
   \<and> hostname (new_httpbin opts) = last (''httpbin'' # [s. WithHostname s \<leftarrow> opts])"
  using fold_apply_option_fields [of opts new_defaults]
  by (simp add: new_httpbin_def new_defaults_def default_max_body_size_def
      default_max_duration_def second_def default_default_params_def default_hostname_def)

end
