(* ===== verification/Routing.thy ===== *)
theory Routing
  imports Http
begin

text \<open>
  The route table of \<open>HTTPBin.Handler\<close> (\<open>src/app/app.go\<close>, lines 131-217) and
  the \<open>http.ServeMux\<close> it is registered in. The mux is modelled as Go's
  implementation keeps it (Go up to 1.21, and 1.22 and later under
  \<open>GODEBUG=httpmuxgo121=1\<close>; for the host-less, wildcard-free patterns of this
  table the newer mux dispatches the same way): a map \<open>m\<close> from pattern to
  entry, and the list \<open>es\<close> of the patterns that end in a slash, sorted by
  decreasing length. \<open>Handle\<close> panics on an empty or a repeated pattern, which is
  \<open>None\<close> here. A request path is dispatched by an exact lookup in \<open>m\<close>, then by
  the first entry of \<open>es\<close> that is a prefix of the path; a path \<open>/tree\<close> whose
  only registration is \<open>/tree/\<close> is redirected there. Path cleaning
  (\<open>cleanPath\<close>) is not modelled: paths are taken to be clean.
\<close>

text \<open>The handler methods of \<open>HTTPBin\<close> that the table names, one constructor
  each (\<open>Range\<close> and \<open>Image\<close> are suffixed: HOL has constants of those names).\<close>

datatype endpoint =
    Index | FormsPost | UTF8 | RequestWithBody | Get | IP | UserAgent | Headers
  | ResponseHeaders | Hostname | Status | Unstable | Redirect | RelativeRedirect
  | AbsoluteRedirect | RedirectTo | Cookies | SetCookies | DeleteCookies | BasicAuth
  | HiddenBasicAuth | DigestAuth | Bearer | Deflate | Gzip | Stream | Delay | Drip
  | RangeH | Bytes | StreamBytes | HTML | Robots | Deny | Cache | CacheControl | ETag
  | Links | ImageAccept | ImageH | XML | JSON | UUID | Base64

text \<open>What a pattern is registered with: a handler method, a handler method behind
  the \<open>methods\<close> wrapper with its allowed methods, \<open>http.NotFound\<close>, or
  \<open>notImplementedHandler\<close>.\<close>

datatype target =
    Handle endpoint
  | Methods endpoint "string list"
  | NotFoundH
  | NotImplemented

definition route_table :: "(string \<times> target) list" where
  "route_table =
    [(''/'', Methods Index [''GET'']),
     (''/forms/post'', Methods FormsPost [''GET'']),
     (''/encoding/utf8'', Methods UTF8 [''GET'']),
     (''/delete'', Methods RequestWithBody [''DELETE'']),
     (''/get'', Methods Get [''GET'']),
     (''/head'', Methods Get [''HEAD'']),
     (''/patch'', Methods RequestWithBody [''PATCH'']),
     (''/post'', Methods RequestWithBody [''POST'']),
     (''/put'', Methods RequestWithBody [''PUT'']),
     (''/ip'', Handle IP),
     (''/user-agent'', Handle UserAgent),
     (''/headers'', Handle Headers),
     (''/response-headers'', Handle ResponseHeaders),
     (''/hostname'', Handle Hostname),
     (''/status/'', Handle Status),
     (''/unstable'', Handle Unstable),
     (''/redirect/'', Handle Redirect),
     (''/relative-redirect/'', Handle RelativeRedirect),
     (''/absolute-redirect/'', Handle AbsoluteRedirect),
     (''/redirect-to'', Handle RedirectTo),
     (''/anything/'', Handle RequestWithBody),
     (''/anything'', Handle RequestWithBody),
     (''/cookies'', Handle Cookies),
     (''/cookies/set'', Handle SetCookies),
     (''/cookies/delete'', Handle DeleteCookies),
     (''/basic-auth/'', Handle BasicAuth),
     (''/hidden-basic-auth/'', Handle HiddenBasicAuth),
     (''/digest-auth/'', Handle DigestAuth),
     (''/bearer'', Handle Bearer),
     (''/deflate'', Handle Deflate),
     (''/gzip'', Handle Gzip),
     (''/stream/'', Handle Stream),
     (''/delay/'', Handle Delay),
     (''/drip'', Handle Drip),
     (''/range/'', Handle RangeH),
     (''/bytes/'', Handle Bytes),
     (''/stream-bytes/'', Handle StreamBytes),
     (''/html'', Handle HTML),
     (''/robots.txt'', Handle Robots),
     (''/deny'', Handle Deny),
     (''/cache'', Handle Cache),
     (''/cache/'', Handle CacheControl),
     (''/etag/'', Handle ETag),
     (''/links/'', Handle Links),
     (''/image'', Handle ImageAccept),
     (''/image/'', Handle ImageH),
     (''/xml'', Handle XML),
     (''/json'', Handle JSON),
     (''/uuid'', Handle UUID),
     (''/base64/'', Handle Base64),
     (''/brotli'', NotImplemented),
     (''/absolute-redirect'', NotFoundH),
     (''/basic-auth'', NotFoundH),
     (''/delay'', NotFoundH),
     (''/digest-auth'', NotFoundH),
     (''/hidden-basic-auth'', NotFoundH),
     (''/redirect'', NotFoundH),
     (''/relative-redirect'', NotFoundH),
     (''/status'', NotFoundH),
     (''/stream'', NotFoundH),
     (''/bytes'', NotFoundH),
     (''/stream-bytes'', NotFoundH),
     (''/links'', NotFoundH)]"

subsection \<open>ServeMux\<close>

type_synonym mux_entry = "string \<times> target"

record serve_mux =
  mux_m :: "mux_entry list"
  mux_es :: "mux_entry list"

definition empty_mux :: serve_mux where
  "empty_mux = \<lparr>mux_m = [], mux_es = []\<rparr>"

definition is_subtree :: "string \<Rightarrow> bool" where
  "is_subtree p \<longleftrightarrow> p \<noteq> [] \<and> last p = CHR ''/''"

text \<open>\<open>appendSorted\<close>: \<open>sort.Search\<close> finds the first entry shorter than the new
  pattern, and the new entry is inserted before it (appended when there is
  none). On the sorted list that the mux keeps, the first such index is what the
  binary search returns.\<close>

fun append_sorted :: "mux_entry \<Rightarrow> mux_entry list \<Rightarrow> mux_entry list" where
  "append_sorted e [] = [e]"
| "append_sorted e (x # xs) =
     (if length (fst x) < length (fst e) then e # x # xs else x # append_sorted e xs)"

text \<open>\<open>ServeMux.Handle\<close>: \<open>None\<close> is the panic on an invalid or repeated pattern.\<close>

definition mux_handle :: "serve_mux \<Rightarrow> string \<Rightarrow> target \<Rightarrow> serve_mux option" where
  "mux_handle mux pattern h =
     (if pattern = [] then None
      else if map_of (mux_m mux) pattern \<noteq> None then None
      else Some \<lparr>mux_m = mux_m mux @ [(pattern, h)],
                 mux_es = (if last pattern = CHR ''/'' then append_sorted (pattern, h) (mux_es mux)
                           else mux_es mux)\<rparr>)"

fun register_all :: "mux_entry list \<Rightarrow> serve_mux \<Rightarrow> serve_mux option" where
  "register_all [] mux = Some mux"
| "register_all ((p, h) # rs) mux =
     (case mux_handle mux p h of None \<Rightarrow> None | Some mux' \<Rightarrow> register_all rs mux')"

text \<open>The \<open>engine\<close> of \<open>Handler()\<close>: every \<open>HandleFunc\<close> call in order.\<close>

definition httpbin_mux :: "serve_mux option" where
  "httpbin_mux = register_all route_table empty_mux"

text \<open>\<open>ServeMux.match\<close>: the exact entry, else the first (longest) subtree
  pattern that prefixes the path.\<close>

definition mux_match :: "serve_mux \<Rightarrow> string \<Rightarrow> mux_entry option" where
  "mux_match mux path =
     (case map_of (mux_m mux) path of
        Some h \<Rightarrow> Some (path, h)
      | None \<Rightarrow> find (\<lambda>e. prefix (fst e) path) (mux_es mux))"

text \<open>\<open>shouldRedirectRLocked\<close>: a path not registered itself, not ending in a
  slash, whose slash-terminated form is registered.\<close>

definition should_redirect :: "serve_mux \<Rightarrow> string \<Rightarrow> bool" where
  "should_redirect mux path \<longleftrightarrow>
     map_of (mux_m mux) path = None \<and> path \<noteq> [] \<and>
     map_of (mux_m mux) (path @ ''/'') \<noteq> None \<and> last path \<noteq> CHR ''/''"

datatype dispatch = Redirected string | Routed string target | NoRoute

text \<open>\<open>ServeMux.Handler\<close>: the redirect to the slash-terminated path (status 301)
  comes before the match; no match is the \<open>NotFoundHandler\<close>.\<close>

definition mux_handler :: "serve_mux \<Rightarrow> string \<Rightarrow> dispatch" where
  "mux_handler mux path =
     (if should_redirect mux path then Redirected (path @ ''/'')
      else case mux_match mux path of Some (p, h) \<Rightarrow> Routed p h | None \<Rightarrow> NoRoute)"

subsection \<open>The documented matching rule\<close>

text \<open>What the \<open>ServeMux\<close> documentation promises: a pattern not ending in a
  slash names one path, a pattern ending in a slash a rooted subtree, and the
  longest matching pattern wins.\<close>

definition pattern_matches :: "string \<Rightarrow> string \<Rightarrow> bool" where
  "pattern_matches p path \<longleftrightarrow> (if is_subtree p then prefix p path else p = path)"

definition longest_match :: "mux_entry list \<Rightarrow> string \<Rightarrow> mux_entry option" where
  "longest_match ms path =
     fold (\<lambda>(p, h) best.
             if pattern_matches p path \<and> (case best of None \<Rightarrow> True | Some (q, _) \<Rightarrow> length q < length p)
             then Some (p, h) else best) ms None"

text \<open>The dispatch of \<open>Handler()\<close>'s engine; the \<open>None\<close> branch, a panic at
  start-up, does not occur (\<open>httpbin_mux_value\<close> below).\<close>

definition route :: "string \<Rightarrow> dispatch" where
  "route path = (case httpbin_mux of Some mux \<Rightarrow> mux_handler mux path | None \<Rightarrow> NoRoute)"

text \<open>What the mux keeps true between its fields: distinct non-empty patterns,
  \<open>es\<close> holding exactly the slash-terminated entries of \<open>m\<close>, sorted by
  decreasing pattern length.\<close>

definition mux_wf :: "serve_mux \<Rightarrow> bool" where
  "mux_wf mux \<longleftrightarrow>
     distinct (map fst (mux_m mux)) \<and> (\<forall>e \<in> set (mux_m mux). fst e \<noteq> []) \<and>
     set (mux_es mux) = {e \<in> set (mux_m mux). last (fst e) = CHR ''/''} \<and>
     sorted_wrt (\<lambda>a b. length (fst b) \<le> length (fst a)) (mux_es mux)"

subsection \<open>The mux invariant\<close>

lemma set_append_sorted [simp]: "set (append_sorted e es) = insert e (set es)"
  by (induction es) auto

lemma sorted_append_sorted:
  "sorted_wrt (\<lambda>a b. length (fst b) \<le> length (fst a)) es \<Longrightarrow>
   sorted_wrt (\<lambda>a b. length (fst b) \<le> length (fst a)) (append_sorted e es)"
proof (induction es)
  case Nil
  then show ?case by simp
next
  case (Cons x xs)
  show ?case
  proof (cases "length (fst x) < length (fst e)")
    case True
    with Cons.prems show ?thesis by fastforce
  next
    case False
    with Cons show ?thesis by auto
  qed
qed

lemma mux_wf_empty: "mux_wf empty_mux"
  by (simp add: mux_wf_def empty_mux_def)

lemma mux_handle_keeps_wf:
  assumes "mux_wf mux" and "mux_handle mux p h = Some mux'"
  shows "mux_wf mux'"
proof -
  from assms(2) have p: "p \<noteq> []" "map_of (mux_m mux) p = None"
    and mux': "mux' = \<lparr>mux_m = mux_m mux @ [(p, h)],
                 mux_es = (if last p = CHR ''/'' then append_sorted (p, h) (mux_es mux) else mux_es mux)\<rparr>"
    by (auto simp: mux_handle_def split: if_splits)
  from p(2) have "p \<notin> fst ` set (mux_m mux)" by (simp add: map_of_eq_None_iff)
  with assms(1) p(1) mux' show ?thesis
    by (auto simp: mux_wf_def sorted_append_sorted)
qed

text \<open>C8: \<open>Handle\<close> keeps the mux well-formed: a registration that does not panic
  adds a fresh non-empty pattern to \<open>m\<close> and, when it ends in a slash, inserts
  it into \<open>es\<close> at its place in the order by decreasing length.\<close>

theorem mux_handle_wf:
  assumes "mux_wf mux" and "mux_handle mux p h = Some mux'"
  shows "mux_wf mux'"
  using assms by (rule mux_handle_keeps_wf)

theorem mux_handle_wf_witness:
  "mux_wf \<lparr>mux_m = [(''/status/'', Handle Status)], mux_es = [(''/status/'', Handle Status)]\<rparr>"
proof -
  have "mux_handle empty_mux ''/status/'' (Handle Status)
        = Some \<lparr>mux_m = [(''/status/'', Handle Status)], mux_es = [(''/status/'', Handle Status)]\<rparr>"
    by (simp add: mux_handle_def empty_mux_def)
  with mux_wf_empty show ?thesis by (rule mux_handle_wf)
qed

lemma register_all_wf:
  "register_all rs mux = Some mux' \<Longrightarrow> mux_wf mux \<Longrightarrow> mux_wf mux'"
proof (induction rs mux rule: register_all.induct)
  case (1 mux)
  then show ?case by simp
next
  case (2 p h rs mux)
  then show ?case by (auto split: option.splits dest: mux_handle_keeps_wf)
qed

subsection \<open>The implementation of match against the documented rule\<close>

abbreviation lm_step :: "string \<Rightarrow> mux_entry \<Rightarrow> mux_entry option \<Rightarrow> mux_entry option" where
  "lm_step path \<equiv> (\<lambda>(p, h) best.
     if pattern_matches p path \<and> (case best of None \<Rightarrow> True | Some (q, _) \<Rightarrow> length q < length p)
     then Some (p, h) else best)"

lemma fold_lm_step:
  "fold (lm_step path) ms best = r \<Longrightarrow>
     (r = best \<or> (\<exists>e \<in> set ms. r = Some e \<and> pattern_matches (fst e) path))
   \<and> (\<forall>e \<in> set ms. pattern_matches (fst e) path \<longrightarrow> (\<exists>e'. r = Some e' \<and> length (fst e) \<le> length (fst e')))
   \<and> (\<forall>b. best = Some b \<longrightarrow> (\<exists>e'. r = Some e' \<and> length (fst b) \<le> length (fst e')))"
proof (induction ms arbitrary: best)
  case Nil
  then show ?case by auto
next
  case (Cons e ms)
  obtain p h where e: "e = (p, h)" by fastforce
  let ?b' = "lm_step path e best"
  from Cons.prems have IH: "fold (lm_step path) ms ?b' = r" by simp
  note ih = Cons.IH [OF IH]
  show ?case
  proof (cases "pattern_matches p path \<and> (case best of None \<Rightarrow> True | Some (q, _) \<Rightarrow> length q < length p)")
    case True
    then have b': "?b' = Some (p, h)" by (simp add: e)
    from ih b' True show ?thesis
      by (auto simp: e split: option.splits)
  next
    case False
    then have b': "?b' = best" by (auto simp: e)
    from ih b' False show ?thesis
      by (auto simp: e split: option.splits)
  qed
qed

lemma longest_match_Some:
  assumes "longest_match ms path = Some e"
  shows "e \<in> set ms \<and> pattern_matches (fst e) path
         \<and> (\<forall>e' \<in> set ms. pattern_matches (fst e') path \<longrightarrow> length (fst e') \<le> length (fst e))"
  using fold_lm_step [of path ms None "Some e"] assms
  by (auto simp: longest_match_def)

lemma longest_match_None:
  "longest_match ms path = None \<Longrightarrow> e \<in> set ms \<Longrightarrow> \<not> pattern_matches (fst e) path"
  using fold_lm_step [of path ms None None] by (auto simp: longest_match_def)

lemma longest_match_exists:
  "e \<in> set ms \<Longrightarrow> pattern_matches (fst e) path \<Longrightarrow> \<exists>e'. longest_match ms path = Some e'"
  using longest_match_None by (cases "longest_match ms path") auto

lemma pattern_matches_prefix: "pattern_matches p path \<Longrightarrow> prefix p path"
  by (auto simp: pattern_matches_def split: if_splits)

lemma pattern_matches_same_length:
  "pattern_matches p path \<Longrightarrow> pattern_matches q path \<Longrightarrow> length p = length q \<Longrightarrow> p = q"
  by (metis pattern_matches_prefix prefix_length_prefix prefix_order.antisym order_refl)

lemma find_sorted_longest:
  "find P xs = Some e \<Longrightarrow> sorted_wrt (\<lambda>a b. length (fst b) \<le> length (fst a)) xs \<Longrightarrow>
   x \<in> set xs \<Longrightarrow> P x \<Longrightarrow> length (fst x) \<le> length (fst e)"
  by (induction xs) (auto split: if_splits)

lemma mux_match_Some:
  assumes wf: "mux_wf mux" and m: "mux_match mux path = Some e"
  shows "e \<in> set (mux_m mux) \<and> pattern_matches (fst e) path
         \<and> (\<forall>e' \<in> set (mux_m mux). pattern_matches (fst e') path \<longrightarrow> length (fst e') \<le> length (fst e))"
proof (cases "map_of (mux_m mux) path")
  case (Some h)
  with m have e: "e = (path, h)" by (simp add: mux_match_def)
  from Some have "(path, h) \<in> set (mux_m mux)" by (rule map_of_SomeD)
  moreover have "pattern_matches path path" by (simp add: pattern_matches_def)
  moreover have "\<forall>e' \<in> set (mux_m mux). pattern_matches (fst e') path \<longrightarrow> length (fst e') \<le> length path"
    using pattern_matches_prefix prefix_length_le by blast
  ultimately show ?thesis by (simp add: e)
next
  case None
  with m have f: "find (\<lambda>e. prefix (fst e) path) (mux_es mux) = Some e" by (simp add: mux_match_def)
  then have "e \<in> set (mux_es mux)" "prefix (fst e) path"
    by (auto simp: find_Some_iff)
  with wf have e: "e \<in> set (mux_m mux)" "is_subtree (fst e)" "prefix (fst e) path"
    by (auto simp: mux_wf_def is_subtree_def)
  have "length (fst e') \<le> length (fst e)"
    if "e' \<in> set (mux_m mux)" "pattern_matches (fst e') path" for e'
  proof -
    from that None have "fst e' \<noteq> path"
      by (metis map_of_eq_None_iff image_eqI)
    with that(2) have "is_subtree (fst e')" "prefix (fst e') path"
      by (auto simp: pattern_matches_def split: if_splits)
    with that(1) wf have "e' \<in> set (mux_es mux)"
      by (auto simp: mux_wf_def is_subtree_def)
    with f wf \<open>prefix (fst e') path\<close> show ?thesis
      by (auto simp: mux_wf_def intro: find_sorted_longest)
  qed
  with e show ?thesis by (simp add: pattern_matches_def)
qed

lemma mux_match_None:
  assumes wf: "mux_wf mux" and m: "mux_match mux path = None" and e: "e \<in> set (mux_m mux)"
  shows "\<not> pattern_matches (fst e) path"
proof
  assume pm: "pattern_matches (fst e) path"
  from m have none: "map_of (mux_m mux) path = None"
    and nf: "find (\<lambda>e. prefix (fst e) path) (mux_es mux) = None"
    by (auto simp: mux_match_def split: option.splits)
  from none e have "fst e \<noteq> path" by (metis map_of_eq_None_iff image_eqI)
  with pm have "is_subtree (fst e)" "prefix (fst e) path"
    by (auto simp: pattern_matches_def split: if_splits)
  with e wf have "e \<in> set (mux_es mux)" by (auto simp: mux_wf_def is_subtree_def)
  with nf \<open>prefix (fst e) path\<close> show False by (metis find_None_iff prod.collapse)
qed

lemma mux_match_is_longest:
  assumes wf: "mux_wf mux"
  shows "mux_match mux path = longest_match (mux_m mux) path"
proof (cases "mux_match mux path")
  case None
  then have "longest_match (mux_m mux) path = None"
    using mux_match_None [OF wf] longest_match_Some
    by (metis option.exhaust)
  with None show ?thesis by simp
next
  case (Some e)
  note me = mux_match_Some [OF wf Some]
  then obtain e' where l: "longest_match (mux_m mux) path = Some e'"
    using longest_match_exists by blast
  note le = longest_match_Some [OF l]
  from me le have "length (fst e) = length (fst e')" by (meson le_antisym)
  with me le have "fst e = fst e'" by (blast intro: pattern_matches_same_length)
  with me le wf have "e = e'"
    by (metis eq_key_imp_eq_value mux_wf_def prod.collapse)
  with Some l show ?thesis by simp
qed

text \<open>C9: on a well-formed mux, Go's \<open>match\<close> (exact lookup, then the first
  slash-terminated pattern of the length-sorted list that prefixes the path)
  returns exactly the entry of the longest matching pattern, as the
  \<open>ServeMux\<close> documentation describes, and nothing when no pattern matches.\<close>

theorem mux_match_longest:
  assumes "mux_wf mux"
  shows "mux_match mux path = longest_match (mux_m mux) path"
  using assms by (rule mux_match_is_longest)

subsection \<open>The engine of Handler()\<close>

lemma httpbin_mux_value:
  "httpbin_mux = Some \<lparr>mux_m = route_table, mux_es =
     [(''/relative-redirect/'', Handle RelativeRedirect), (''/absolute-redirect/'', Handle AbsoluteRedirect),
      (''/hidden-basic-auth/'', Handle HiddenBasicAuth), (''/stream-bytes/'', Handle StreamBytes),
      (''/digest-auth/'', Handle DigestAuth), (''/basic-auth/'', Handle BasicAuth),
      (''/redirect/'', Handle Redirect), (''/anything/'', Handle RequestWithBody),
      (''/status/'', Handle Status), (''/stream/'', Handle Stream), (''/base64/'', Handle Base64),
      (''/delay/'', Handle Delay), (''/range/'', Handle RangeH), (''/bytes/'', Handle Bytes),
      (''/cache/'', Handle CacheControl), (''/links/'', Handle Links), (''/image/'', Handle ImageH),
      (''/etag/'', Handle ETag), (''/'', Methods Index [''GET''])]\<rparr>"
  by code_simp

lemma httpbin_mux_wf: "httpbin_mux = Some mux \<Longrightarrow> mux_wf mux"
  unfolding httpbin_mux_def using register_all_wf mux_wf_empty by blast

text \<open>Where the engine sends the paths of the endpoints the model has handlers
  for; a parameter after the subtree pattern is any non-empty string.\<close>

lemma route_get: "route ''/get'' = Routed ''/get'' (Methods Get [''GET''])"
  unfolding route_def httpbin_mux_value mux_handler_def should_redirect_def mux_match_def
  by (simp add: route_table_def)

lemma route_drip: "route ''/drip'' = Routed ''/drip'' (Handle Drip)"
  unfolding route_def httpbin_mux_value mux_handler_def should_redirect_def mux_match_def
  by (simp add: route_table_def)

lemma route_hostname: "route ''/hostname'' = Routed ''/hostname'' (Handle Hostname)"
  unfolding route_def httpbin_mux_value mux_handler_def should_redirect_def mux_match_def
  by (simp add: route_table_def)

lemma route_delay: "route (''/delay/'' @ s) = Routed ''/delay/'' (Handle Delay)"
  unfolding route_def httpbin_mux_value mux_handler_def should_redirect_def mux_match_def
  by (cases "s = []") (simp_all add: route_table_def)

lemma route_basic_auth: "route (''/basic-auth/'' @ s) = Routed ''/basic-auth/'' (Handle BasicAuth)"
  unfolding route_def httpbin_mux_value mux_handler_def should_redirect_def mux_match_def
  by (cases "s = []") (simp_all add: route_table_def)

lemma route_hidden_basic_auth:
  "route (''/hidden-basic-auth/'' @ s) = Routed ''/hidden-basic-auth/'' (Handle HiddenBasicAuth)"
  unfolding route_def httpbin_mux_value mux_handler_def should_redirect_def mux_match_def
  by (cases "s = []") (simp_all add: route_table_def)

lemma route_stream: "route (''/stream/'' @ s) = Routed ''/stream/'' (Handle Stream)"
  unfolding route_def httpbin_mux_value mux_handler_def should_redirect_def mux_match_def
  by (cases "s = []") (simp_all add: route_table_def)

lemma route_etag: "route (''/etag/'' @ s) = Routed ''/etag/'' (Handle ETag)"
  unfolding route_def httpbin_mux_value mux_handler_def should_redirect_def mux_match_def
  by (cases "s = []") (simp_all add: route_table_def)

lemma route_status:
  "s \<noteq> [] \<Longrightarrow> route (''/status/'' @ s) = Routed ''/status/'' (Handle Status)"
  unfolding route_def httpbin_mux_value mux_handler_def should_redirect_def mux_match_def
  by (simp add: route_table_def)

lemma route_redirect:
  "s \<noteq> [] \<Longrightarrow> route (''/redirect/'' @ s) = Routed ''/redirect/'' (Handle Redirect)"
  unfolding route_def httpbin_mux_value mux_handler_def should_redirect_def mux_match_def
  by (simp add: route_table_def)

lemma route_relative_redirect:
  "s \<noteq> [] \<Longrightarrow> route (''/relative-redirect/'' @ s) = Routed ''/relative-redirect/'' (Handle RelativeRedirect)"
  unfolding route_def httpbin_mux_value mux_handler_def should_redirect_def mux_match_def
  by (simp add: route_table_def)

theorem mux_match_longest_witness:
  "mux_match (the httpbin_mux) ''/status/418'' = longest_match (mux_m (the httpbin_mux)) ''/status/418''
   \<and> mux_match (the httpbin_mux) ''/status/418'' = Some (''/status/'', Handle Status)"
proof -
  have wf: "mux_wf (the httpbin_mux)"
    using httpbin_mux_wf [OF httpbin_mux_value] by (simp add: httpbin_mux_value)
  have "mux_match (the httpbin_mux) ''/status/418'' = Some (''/status/'', Handle Status)"
    unfolding httpbin_mux_value by code_simp
  with mux_match_longest [OF wf] show ?thesis by simp
qed

text \<open>The route table registers without a panic, and the engine sends each
  kind of path where the table says: a parameterised path to its subtree
  handler, \<open>/cache\<close> and \<open>/cache/60\<close> to different handlers, a bare invalid form
  such as \<open>/status\<close> to \<open>NotFound\<close>, \<open>/brotli\<close> to the not-implemented handler,
  and any other path to the catch-all \<open>/\<close> entry, the index page.\<close>

theorem httpbin_routes:
  "httpbin_mux \<noteq> None
   \<and> route ''/status/418'' = Routed ''/status/'' (Handle Status)
   \<and> route ''/anything/a/b'' = Routed ''/anything/'' (Handle RequestWithBody)
   \<and> route ''/anything'' = Routed ''/anything'' (Handle RequestWithBody)
   \<and> route ''/cache'' = Routed ''/cache'' (Handle Cache)
   \<and> route ''/cache/60'' = Routed ''/cache/'' (Handle CacheControl)
   \<and> route ''/status'' = Routed ''/status'' NotFoundH
   \<and> route ''/brotli'' = Routed ''/brotli'' NotImplemented
   \<and> route ''/get'' = Routed ''/get'' (Methods Get [''GET''])
   \<and> route ''/no-such-page'' = Routed ''/'' (Methods Index [''GET''])"
  unfolding route_def httpbin_mux_value by code_simp

text \<open>C11: three parameterised routes lack the registration of their bare form
  that the table gives the others: \<open>/range\<close>, \<open>/etag\<close> and \<open>/base64\<close> are
  exactly the slash-terminated patterns (besides \<open>/\<close>) whose bare form is not
  registered, and the mux answers them with a redirect to the slash-terminated
  path instead of \<open>NotFound\<close>.\<close>

theorem bare_forms_redirect:
  "[p \<leftarrow> map fst route_table. is_subtree p \<and> p \<noteq> ''/'' \<and> map_of route_table (butlast p) = None]
     = [''/range/'', ''/etag/'', ''/base64/'']
   \<and> route ''/range'' = Redirected ''/range/''
   \<and> route ''/etag'' = Redirected ''/etag/''
   \<and> route ''/base64'' = Redirected ''/base64/''"
  unfolding route_def httpbin_mux_value by code_simp

end
