(* ===== verification/Json.thy ===== *)
theory Json
  imports Strconv "HOL-Library.List_Lexorder" "HOL-Library.Char_ord"
begin

text \<open>
  Go's \<open>encoding/json\<close> as \<open>json.Marshal\<close> applies it to the response
  envelopes: a value tree, objects with their fields in struct order, maps
  (\<open>url.Values\<close>, \<open>http.Header\<close>) as objects with their keys sorted byte-wise,
  and strings escaped with \<open>escapeHTML\<close> on. Bytes from 0x80 up are copied,
  except the encodings of U+2028 and U+2029, which are escaped; the replacement of
  invalid UTF-8 by U+FFFD is not modelled. At the end, a decoder of string
  bodies written from the JSON grammar, and the proof that it inverts the
  escaping.
\<close>

datatype json =
    JNull
  | JBool bool
  | JNumber int
  | JString string
  | JArray "json list"
  | JObject "(string \<times> json) list"

definition hex_digit :: "nat \<Rightarrow> char" where
  "hex_digit n = (if n < 10 then char_of (48 + n) else char_of (87 + n))"

text \<open>One byte below 0x80: the \<open>htmlSafeSet\<close> bytes as they are, short escapes
  for quote, backslash and the five control characters that have one, \<open>\u00XX\<close>
  for the rest (other controls and \<open>< > &\<close>).\<close>

definition escape_ascii :: "char \<Rightarrow> string" where
  "escape_ascii c =
     (let n = of_char c :: nat in
      if n = 0x22 \<or> n = 0x5C then [CHR 0x5C, c]
      else if n = 8 then [CHR 0x5C, CHR ''b'']
      else if n = 12 then [CHR 0x5C, CHR ''f'']
      else if n = 10 then [CHR 0x5C, CHR ''n'']
      else if n = 13 then [CHR 0x5C, CHR ''r'']
      else if n = 9 then [CHR 0x5C, CHR ''t'']
      else if n < 32 \<or> c = CHR ''<'' \<or> c = CHR ''>'' \<or> c = CHR ''&''
      then [CHR 0x5C, CHR ''u'', CHR ''0'', CHR ''0'', hex_digit (n div 16), hex_digit (n mod 16)]
      else [c])"

fun escape_bytes :: "string \<Rightarrow> string" where
  "escape_bytes [] = []"
| "escape_bytes (c # cs) =
     (if of_char c < (128::nat) then escape_ascii c @ escape_bytes cs
      else if c = CHR 0xE2 \<and> take 2 cs = [CHR 0x80, CHR 0xA8] then CHR 0x5C # ''u2028'' @ escape_bytes (drop 2 cs)
      else if c = CHR 0xE2 \<and> take 2 cs = [CHR 0x80, CHR 0xA9] then CHR 0x5C # ''u2029'' @ escape_bytes (drop 2 cs)
      else c # escape_bytes cs)"

definition json_string :: "string \<Rightarrow> string" where
  "json_string s = CHR 0x22 # escape_bytes s @ [CHR 0x22]"

fun comma_join :: "string list \<Rightarrow> string" where
  "comma_join [] = []"
| "comma_join [x] = x"
| "comma_join (x # xs) = x @ '','' @ comma_join xs"

fun json_encode :: "json \<Rightarrow> string" where
  "json_encode JNull = ''null''"
| "json_encode (JBool b) = (if b then ''true'' else ''false'')"
| "json_encode (JNumber i) = itoa i"
| "json_encode (JString s) = json_string s"
| "json_encode (JArray vs) = ''['' @ comma_join (map json_encode vs) @ '']''"
| "json_encode (JObject kvs) =
     ''{'' @ comma_join (map (\<lambda>(k, v). json_string k @ '':'' @ json_encode v) kvs) @ ''}''"

text \<open>A \<open>map[string][]string\<close> (\<open>url.Values\<close>, \<open>http.Header\<close>), non-nil: an
  object with the keys in sorted order, each with its array of strings.\<close>

definition multimap_json :: "multimap \<Rightarrow> json" where
  "multimap_json m = JObject (map (\<lambda>(k, vs). (k, JArray (map JString vs))) (sort_key fst m))"

definition json_field :: "string \<Rightarrow> json \<Rightarrow> json option" where
  "json_field k j = (case j of JObject kvs \<Rightarrow> map_of kvs k | _ \<Rightarrow> None)"

subsection \<open>Reading a JSON string literal\<close>

text \<open>The string grammar of RFC 8259 (section 7), read from just after the
  opening quote up to the closing one: any byte from 0x20 up except the quote
  and the backslash stands for itself, a raw control byte is an error, and the
  escapes are the eight short ones and \<open>\uXXXX\<close> with four hex digits of
  either case, whose code point is written back in UTF-8 (code points of the
  basic plane; a surrogate pair is not combined).\<close>

text \<open>\<open>unhex\<close>: the value of a hex digit of either case.\<close>

definition unhex :: "char \<Rightarrow> nat option" where
  "unhex c =
     (let n = (of_char c :: nat) in
      if 48 \<le> n \<and> n \<le> 57 then Some (n - 48) else if 97 \<le> n \<and> n \<le> 102 then Some (n - 87)
      else if 65 \<le> n \<and> n \<le> 70 then Some (n - 55) else None)"

definition json_short_escapes :: "(char \<times> char) list" where
  "json_short_escapes = [(CHR 0x22, CHR 0x22), (CHR 0x5C, CHR 0x5C), (CHR ''/'', CHR ''/''),
     (CHR ''b'', CHR 0x08), (CHR ''f'', CHR 0x0C), (CHR ''n'', CHR 0x0A), (CHR ''r'', CHR 0x0D),
     (CHR ''t'', CHR 0x09)]"

definition utf8_bytes :: "nat \<Rightarrow> string" where
  "utf8_bytes cp =
     (if cp < 0x80 then [char_of cp]
      else if cp < 0x800 then [char_of (0xC0 + cp div 64), char_of (0x80 + cp mod 64)]
      else [char_of (0xE0 + cp div 4096), char_of (0x80 + cp div 64 mod 64), char_of (0x80 + cp mod 64)])"

fun json_read_string :: "string \<Rightarrow> (string \<times> string) option" where
  "json_read_string [] = None"
| "json_read_string (c # cs) =
     (if c = CHR 0x22 then Some ([], cs)
      else if c = CHR 0x5C then
        (case cs of
           [] \<Rightarrow> None
         | d # ds \<Rightarrow>
             (case map_of json_short_escapes d of
                Some v \<Rightarrow> map_option (apfst (Cons v)) (json_read_string ds)
              | None \<Rightarrow>
                  if d \<noteq> CHR ''u'' then None
                  else case ds of
                    h1 # h2 # h3 # h4 # rest \<Rightarrow>
                      (case (unhex h1, unhex h2, unhex h3, unhex h4) of
                         (Some a, Some b, Some e, Some f) \<Rightarrow>
                           map_option (apfst (\<lambda>s. utf8_bytes (4096 * a + 256 * b + 16 * e + f) @ s))
                             (json_read_string rest)
                       | _ \<Rightarrow> None)
                  | _ \<Rightarrow> None))
      else if (of_char c :: nat) < 0x20 then None
      else map_option (apfst (Cons c)) (json_read_string cs))"

lemma unhex_hex_digit: "k < 16 \<Longrightarrow> unhex (hex_digit k) = Some k"
  by (auto simp: unhex_def hex_digit_def)

lemma u_not_short_escape [simp]: "map_of json_short_escapes (CHR ''u'') = None"
  by (simp add: json_short_escapes_def)

lemma utf8_2028: "utf8_bytes 0x2028 = [CHR 0xE2, CHR 0x80, CHR 0xA8]"
  by code_simp

lemma utf8_2029: "utf8_bytes 0x2029 = [CHR 0xE2, CHR 0x80, CHR 0xA9]"
  by code_simp

text \<open>One escaped ASCII byte reads back as that byte.\<close>

lemma read_escape_ascii:
  assumes "(of_char c :: nat) < 128"
  shows "json_read_string (escape_ascii c @ rest) = map_option (apfst (Cons c)) (json_read_string rest)"
proof -
  let ?n = "of_char c :: nat"
  have cc: "char_of ?n = c" by (rule char_of_char)
  consider "?n = 0x22 \<or> ?n = 0x5C" | "?n = 8" | "?n = 12" | "?n = 10" | "?n = 13" | "?n = 9"
    | "?n \<noteq> 0x22 \<and> ?n \<noteq> 0x5C \<and> ?n \<notin> {8, 12, 10, 13, 9} \<and> (?n < 32 \<or> c = CHR ''<'' \<or> c = CHR ''>'' \<or> c = CHR ''&'')"
    | "?n \<noteq> 0x22 \<and> ?n \<noteq> 0x5C \<and> ?n \<notin> {8, 12, 10, 13, 9} \<and> \<not> (?n < 32 \<or> c = CHR ''<'' \<or> c = CHR ''>'' \<or> c = CHR ''&'')"
    by blast
  then show ?thesis
  proof cases
    case 1
    then have "c = CHR 0x22 \<or> c = CHR 0x5C" by (auto simp: char_eq_via_nat)
    then show ?thesis by (auto simp: escape_ascii_def json_short_escapes_def)
  next
    case 2
    then have "c = CHR 0x08" by (simp add: char_eq_via_nat)
    then show ?thesis by (simp add: escape_ascii_def json_short_escapes_def)
  next
    case 3
    then have "c = CHR 0x0C" by (simp add: char_eq_via_nat)
    then show ?thesis by (simp add: escape_ascii_def json_short_escapes_def)
  next
    case 4
    then have "c = CHR 0x0A" by (simp add: char_eq_via_nat)
    then show ?thesis by (simp add: escape_ascii_def json_short_escapes_def)
  next
    case 5
    then have "c = CHR 0x0D" by (simp add: char_eq_via_nat)
    then show ?thesis by (simp add: escape_ascii_def json_short_escapes_def)
  next
    case 6
    then have "c = CHR 0x09" by (simp add: char_eq_via_nat)
    then show ?thesis by (simp add: escape_ascii_def json_short_escapes_def)
  next
    case 7
    have e: "escape_ascii c = [CHR 0x5C, CHR ''u'', CHR ''0'', CHR ''0'', hex_digit (?n div 16), hex_digit (?n mod 16)]"
      using 7 by (simp add: escape_ascii_def Let_def)
    have "unhex (hex_digit (?n div 16)) = Some (?n div 16)" using assms by (intro unhex_hex_digit) simp
    moreover have "unhex (hex_digit (?n mod 16)) = Some (?n mod 16)" by (intro unhex_hex_digit) simp
    moreover have "unhex (CHR ''0'') = Some 0" by (simp add: unhex_def)
    moreover have "utf8_bytes (16 * (?n div 16) + ?n mod 16) = [c]"
      using assms cc by (simp add: utf8_bytes_def)
    ultimately show ?thesis unfolding e by (cases "json_read_string rest") auto
  next
    case 8
    then have "escape_ascii c = [c]" by (simp add: escape_ascii_def Let_def)
    moreover have "c \<noteq> CHR 0x5C" "c \<noteq> CHR 0x22" "\<not> ?n < 32" using 8 by auto
    ultimately show ?thesis by simp
  qed
qed

lemma take2_cons: "take 2 cs = [a, b] \<Longrightarrow> cs = a # b # drop 2 cs"
  by (metis append_take_drop_id append_Cons append_Nil)

text \<open>The escaping loses nothing and ends where the literal ends: reading the
  escaped body of any byte string, followed by the closing quote, gives back
  that byte string and what follows the quote.\<close>

lemma json_escape_roundtrip: "json_read_string (escape_bytes s @ CHR 0x22 # rest) = Some (s, rest)"
proof (induction s rule: escape_bytes.induct)
  case 1
  then show ?case by simp
next
  case (2 c cs)
  show ?case
  proof (cases "(of_char c :: nat) < 128")
    case True
    then show ?thesis using 2 by (simp add: read_escape_ascii)
  next
    case ascii: False
    have hx: "unhex (CHR ''2'') = Some 2" "unhex (CHR ''0'') = Some 0" "unhex (CHR ''8'') = Some 8"
      "unhex (CHR ''9'') = Some 9" by (simp_all add: unhex_def)
    show ?thesis
    proof (cases "c = CHR 0xE2 \<and> take 2 cs = [CHR 0x80, CHR 0xA8]")
      case True
      then show ?thesis using 2 ascii take2_cons [of cs] hx utf8_2028 by simp
    next
      case no2028: False
      show ?thesis
      proof (cases "c = CHR 0xE2 \<and> take 2 cs = [CHR 0x80, CHR 0xA9]")
        case True
        then show ?thesis using 2 ascii no2028 take2_cons [of cs] hx utf8_2029 by simp
      next
        case False
        moreover have "c \<noteq> CHR 0x5C" "c \<noteq> CHR 0x22" using ascii by auto
        ultimately show ?thesis using 2 ascii no2028 by auto
      qed
    qed
  qed
qed

subsection \<open>No raw line break\<close>

text \<open>The writer escapes every line feed, so that an encoded value is one line of
  text; a stream of values one per line can be cut at the line feeds.\<close>

lemma lf_not_digit: "is_digit c \<Longrightarrow> c \<noteq> CHR 0x0A"
  by (auto simp: is_digit_def)

lemma lf_notin_itoa: "CHR 0x0A \<notin> set (itoa i)"
  using nat_to_string_digits [of "nat i"] nat_to_string_digits [of "nat (- i)"]
  by (auto simp: itoa_def list_all_iff dest: lf_not_digit)

lemma lf_notin_hex_digit: "n < 16 \<Longrightarrow> hex_digit n \<noteq> CHR 0x0A"
  by (auto simp: hex_digit_def char_eq_via_nat [of "char_of _"])

lemma lf_notin_escape_ascii: "CHR 0x0A \<notin> set (escape_ascii c)"
proof -
  have "(of_char c :: nat) div 16 < 16" using of_char_lt_256 [of c] by linarith
  then show ?thesis
    using lf_notin_hex_digit [of "of_char c div 16"] lf_notin_hex_digit [of "of_char c mod 16"]
    by (auto simp: escape_ascii_def Let_def char_eq_via_nat [of c])
qed

lemma lf_notin_escape_bytes: "CHR 0x0A \<notin> set (escape_bytes s)"
  by (induction s rule: escape_bytes.induct) (auto simp: lf_notin_escape_ascii char_eq_via_nat [of c])

lemma set_comma_join: "set (comma_join xs) \<subseteq> insert (CHR '','') (\<Union>x \<in> set xs. set x)"
  by (induction xs rule: comma_join.induct) auto

lemma lf_notin_json_encode: "CHR 0x0A \<notin> set (json_encode j)"
proof (induction j rule: json_encode.induct)
  case (5 vs)
  then show ?case using set_comma_join [of "map json_encode vs"] by auto
next
  case (6 kvs)
  have "CHR 0x0A \<notin> set (json_string k @ '':'' @ json_encode v)" if "(k, v) \<in> set kvs" for k v
    using 6 [OF that refl] by (simp add: json_string_def lf_notin_escape_bytes)
  then show ?case
    using set_comma_join [of "map (\<lambda>(k, v). json_string k @ '':'' @ json_encode v) kvs"] by fastforce
qed (simp_all add: lf_notin_itoa json_string_def lf_notin_escape_bytes)

end
