(* ===== verification/Envelopes.thy ===== *)
theory Envelopes
  imports Json
begin

text \<open>
  The response types of \<open>src/app/app.go\<close> (lines 22-94), each with the JSON
  object \<open>json.Marshal\<close> makes of it: the fields in declaration order under
  their \<open>json\<close> tags. \<open>http.Header\<close> and \<open>url.Values\<close> are multimaps.
  \<open>map[string]string\<close> is an association list. \<open>interface{}\<close> is a JSON value.
  The maps are taken to be non-\<open>nil\<close>; a \<open>nil\<close> map would be written as
  \<open>null\<close>. The \<open>getResponse\<close> envelope is \<open>get_envelope\<close> of \<open>Handlers\<close>.
\<close>

record headers_response =
  hr_headers :: header

definition headers_response_json :: "headers_response \<Rightarrow> json" where
  "headers_response_json v = JObject [(''headers'', multimap_json (hr_headers v))]"

record ip_response =
  ipr_origin :: string

definition ip_response_json :: "ip_response \<Rightarrow> json" where
  "ip_response_json v = JObject [(''origin'', JString (ipr_origin v))]"

record user_agent_response =
  uar_user_agent :: string

definition user_agent_response_json :: "user_agent_response \<Rightarrow> json" where
  "user_agent_response_json v = JObject [(''user-agent'', JString (uar_user_agent v))]"

text \<open>The envelope of the endpoints that may carry a body.\<close>

record body_response =
  br_args :: multimap
  br_headers :: header
  br_origin :: string
  br_url :: string
  br_data :: string
  br_files :: multimap
  br_form :: multimap
  br_json :: json

definition body_response_json :: "body_response \<Rightarrow> json" where
  "body_response_json v =
     JObject [(''args'', multimap_json (br_args v)), (''headers'', multimap_json (br_headers v)),
              (''origin'', JString (br_origin v)), (''url'', JString (br_url v)),
              (''data'', JString (br_data v)), (''files'', multimap_json (br_files v)),
              (''form'', multimap_json (br_form v)), (''json'', br_json v)]"

text \<open>\<open>cookiesResponse map[string]string\<close>: an object with the keys sorted.\<close>

type_synonym cookies_response = "(string \<times> string) list"

definition cookies_response_json :: "cookies_response \<Rightarrow> json" where
  "cookies_response_json m = JObject (map (\<lambda>(k, v). (k, JString v)) (sort_key fst m))"

record auth_response =
  ar_authorized :: bool
  ar_user :: string

definition auth_response_json :: "auth_response \<Rightarrow> json" where
  "auth_response_json v = JObject [(''authorized'', JBool (ar_authorized v)), (''user'', JString (ar_user v))]"

record gzip_response =
  gr_headers :: header
  gr_origin :: string
  gr_gzipped :: bool

definition gzip_response_json :: "gzip_response \<Rightarrow> json" where
  "gzip_response_json v =
     JObject [(''headers'', multimap_json (gr_headers v)), (''origin'', JString (gr_origin v)),
              (''gzipped'', JBool (gr_gzipped v))]"

record deflate_response =
  dr_headers :: header
  dr_origin :: string
  dr_deflated :: bool

definition deflate_response_json :: "deflate_response \<Rightarrow> json" where
  "deflate_response_json v =
     JObject [(''headers'', multimap_json (dr_headers v)), (''origin'', JString (dr_origin v)),
              (''deflated'', JBool (dr_deflated v))]"

text \<open>One record of a streamed body; the body is these records, one per line.\<close>

record stream_response =
  sr_id :: int
  sr_args :: multimap
  sr_headers :: header
  sr_origin :: string
  sr_url :: string

definition stream_response_json :: "stream_response \<Rightarrow> json" where
  "stream_response_json v =
     JObject [(''id'', JNumber (sr_id v)), (''args'', multimap_json (sr_args v)),
              (''headers'', multimap_json (sr_headers v)), (''origin'', JString (sr_origin v)),
              (''url'', JString (sr_url v))]"

record uuid_response =
  ur_uuid :: string

definition uuid_response_json :: "uuid_response \<Rightarrow> json" where
  "uuid_response_json v = JObject [(''uuid'', JString (ur_uuid v))]"

record bearer_response =
  ber_authenticated :: bool
  ber_token :: string

definition bearer_response_json :: "bearer_response \<Rightarrow> json" where
  "bearer_response_json v =
     JObject [(''authenticated'', JBool (ber_authenticated v)), (''token'', JString (ber_token v))]"

record hostname_response =
  hnr_hostname :: string

definition hostname_response_json :: "hostname_response \<Rightarrow> json" where
  "hostname_response_json v = JObject [(''hostname'', JString (hnr_hostname v))]"

end
