(* ===== verification/Base64.thy ===== *)
theory Base64
  imports GoLib
begin

text \<open>
  Go's \<open>encoding/base64\<close> with \<open>StdEncoding\<close> (the alphabet of RFC 4648,
  section 4, with \<open>=\<close> padding), as \<open>http.Request.BasicAuth\<close> uses it to read
  the credentials. Bytes are the characters of a Go string. The decoder skips
  carriage returns and line feeds, as Go's does. Any other byte outside the
  alphabet, misplaced padding, or a length that is not a multiple of four is an
  error. The trailing bits of a padded quantum are not checked, as in Go's
  non-strict mode. On top of the decoder, \<open>Request.BasicAuth\<close> of
  \<open>net/http\<close>: the \<open>Authorization\<close> header, its \<open>Basic\<close> prefix and the
  split of the decoded text at the first colon.
\<close>

definition b64_char :: "nat \<Rightarrow> char" where
  "b64_char i =
     (if i < 26 then char_of (65 + i) else if i < 52 then char_of (71 + i)
      else if i < 62 then char_of (i - 4) else if i = 62 then CHR ''+'' else CHR ''/'')"

text \<open>\<open>decodeMap\<close>: the value of an alphabet character.\<close>

definition b64_val :: "char \<Rightarrow> nat option" where
  "b64_val c =
     (let n = (of_char c :: nat) in
      if 65 \<le> n \<and> n \<le> 90 then Some (n - 65) else if 97 \<le> n \<and> n \<le> 122 then Some (n - 71)
      else if 48 \<le> n \<and> n \<le> 57 then Some (n + 4) else if n = 43 then Some 62
      else if n = 47 then Some 63 else None)"

fun b64_encode :: "string \<Rightarrow> string" where
  "b64_encode (a # b # c # rest) =
     (let x = (of_char a :: nat); y = (of_char b :: nat); z = (of_char c :: nat) in
      [b64_char (x div 4), b64_char (x mod 4 * 16 + y div 16), b64_char (y mod 16 * 4 + z div 64),
       b64_char (z mod 64)] @ b64_encode rest)"
| "b64_encode [a, b] =
     (let x = (of_char a :: nat); y = (of_char b :: nat) in
      [b64_char (x div 4), b64_char (x mod 4 * 16 + y div 16), b64_char (y mod 16 * 4), CHR ''=''])"
| "b64_encode [a] =
     (let x = (of_char a :: nat) in [b64_char (x div 4), b64_char (x mod 4 * 16), CHR ''='', CHR ''=''])"
| "b64_encode [] = []"

text \<open>Quanta of four characters; padding only in the last one.\<close>

fun b64_decode_quanta :: "string \<Rightarrow> string option" where
  "b64_decode_quanta [] = Some []"
| "b64_decode_quanta (c1 # c2 # c3 # c4 # rest) =
     (case (b64_val c1, b64_val c2) of
        (Some v1, Some v2) \<Rightarrow>
          (if c3 = CHR ''='' \<and> c4 = CHR ''='' \<and> rest = [] then Some [char_of (v1 * 4 + v2 div 16)]
           else case b64_val c3 of
             None \<Rightarrow> None
           | Some v3 \<Rightarrow>
               (if c4 = CHR ''='' \<and> rest = [] then
                  Some [char_of (v1 * 4 + v2 div 16), char_of (v2 mod 16 * 16 + v3 div 4)]
                else case b64_val c4 of
                  None \<Rightarrow> None
                | Some v4 \<Rightarrow>
                    map_option (\<lambda>bs. [char_of (v1 * 4 + v2 div 16), char_of (v2 mod 16 * 16 + v3 div 4),
                                 char_of (v3 mod 4 * 64 + v4)] @ bs) (b64_decode_quanta rest)))
      | _ \<Rightarrow> None)"
| "b64_decode_quanta _ = None"

definition b64_decode :: "string \<Rightarrow> string option" where
  "b64_decode s = b64_decode_quanta (filter (\<lambda>c. c \<noteq> CHR 0x0D \<and> c \<noteq> CHR 0x0A) s)"

subsection \<open>Request.BasicAuth\<close>

text \<open>\<open>ascii.EqualFold\<close>: equal length and equal bytes up to ASCII case.\<close>

definition equal_fold :: "string \<Rightarrow> string \<Rightarrow> bool" where
  "equal_fold s t = (length s = length t \<and> list_all2 (\<lambda>a b. lower_byte a = lower_byte b) s t)"

text \<open>\<open>strings.Cut(s, sep)\<close> for a one-byte separator: the text around the
  first separator, or \<open>None\<close> (Go's \<open>found = false\<close>) when there is none.\<close>

definition cut :: "char \<Rightarrow> string \<Rightarrow> (string \<times> string) option" where
  "cut c s = (if c \<in> set s then Some (takeWhile (\<lambda>x. x \<noteq> c) s, tl (dropWhile (\<lambda>x. x \<noteq> c) s)) else None)"

text \<open>\<open>parseBasicAuth\<close>: a case-insensitive \<open>Basic \<close> prefix, Base64 of
  \<open>user:password\<close>, split at the first colon. \<open>None\<close> is \<open>ok = false\<close>, where
  Go returns two empty strings.\<close>

definition parse_basic_auth :: "string \<Rightarrow> (string \<times> string) option" where
  "parse_basic_auth auth =
     (if length auth < 6 \<or> \<not> equal_fold (take 6 auth) ''Basic '' then None
      else case b64_decode (drop 6 auth) of
             None \<Rightarrow> None
           | Some cs \<Rightarrow> cut CHR '':'' cs)"

text \<open>\<open>Request.BasicAuth\<close>: the credentials of the \<open>Authorization\<close> header.\<close>

definition basic_auth :: "header \<Rightarrow> (string \<times> string) option" where
  "basic_auth h = (let auth = header_get h ''Authorization'' in if auth = [] then None else parse_basic_auth auth)"

subsection \<open>Properties\<close>

lemma b64_val_char [simp]: "i < 64 \<Longrightarrow> b64_val (b64_char i) = Some i"
  by (auto simp: b64_char_def b64_val_def Let_def)

lemma b64_char_ne [simp]:
  "b64_char i \<noteq> CHR ''=''" "b64_char i \<noteq> CHR 0x0D" "b64_char i \<noteq> CHR 0x0A"
  by (auto simp: b64_char_def char_eq_via_nat [of "char_of _"])

text \<open>The arithmetic of one quantum: the 6-bit pieces of a byte reassemble it.\<close>

lemma b64_byte_div [simp]:
  "(of_char c :: nat) div 4 < 64" "(of_char c :: nat) div 16 < 16" "(of_char c :: nat) div 64 < 4"
  using of_char_lt_256 [of c] by linarith+

lemma b64_pieces [simp]:
  "(of_char a :: nat) mod 4 * 16 + of_char b div 16 < 64"
  "(of_char b :: nat) mod 16 * 4 + of_char c div 64 < 64"
proof -
  have "(of_char a :: nat) mod 4 < 4" "(of_char b :: nat) mod 16 < 16" by simp_all
  moreover have "(of_char b :: nat) div 16 < 16" "(of_char c :: nat) div 64 < 4" by simp_all
  ultimately show "(of_char a :: nat) mod 4 * 16 + of_char b div 16 < 64"
    "(of_char b :: nat) mod 16 * 4 + of_char c div 64 < 64" by linarith+
qed

lemma b64_decode_quanta_encode: "b64_decode_quanta (b64_encode s) = Some s"
  by (induction s rule: b64_encode.induct) (simp_all add: Let_def)

lemma b64_encode_no_newline: "filter (\<lambda>c. c \<noteq> CHR 0x0D \<and> c \<noteq> CHR 0x0A) (b64_encode s) = b64_encode s"
  by (induction s rule: b64_encode.induct) (simp_all add: Let_def)

text \<open>Decoding undoes encoding: \<open>DecodeString(EncodeToString(s)) = s\<close>.\<close>

lemma b64_decode_encode [simp]: "b64_decode (b64_encode s) = Some s"
  by (simp add: b64_decode_def b64_encode_no_newline b64_decode_quanta_encode)

lemma cut_append: "c \<notin> set u \<Longrightarrow> cut c (u @ c # p) = Some (u, p)"
  by (induction u) (auto simp: cut_def)

lemma equal_fold_refl [simp]: "equal_fold s s"
  by (simp add: equal_fold_def list_all2_refl)

text \<open>Credentials written the way clients write them are read back.\<close>

lemma parse_basic_auth_encode:
  "CHR '':'' \<notin> set u \<Longrightarrow> parse_basic_auth (''Basic '' @ b64_encode (u @ CHR '':'' # p)) = Some (u, p)"
  by (simp add: parse_basic_auth_def cut_append)

text \<open>A user name that has a colon is never read back: the split is at the first colon.\<close>

lemma parse_basic_auth_user_colon:
  "parse_basic_auth a = Some (u, p) \<Longrightarrow> CHR '':'' \<notin> set u"
  by (auto simp: parse_basic_auth_def cut_def split: if_splits option.splits dest: set_takeWhileD)

lemma canonical_authorization_key: "canonical_mime_header_key ''Authorization'' = ''Authorization''"
  by code_simp

lemma equal_fold_length: "equal_fold s t \<Longrightarrow> length s = length t"
  by (simp add: equal_fold_def)

text \<open>An \<open>Authorization\<close> header made of a \<open>Basic \<close> prefix in any letter case
  and the Base64 of \<open>user:password\<close> gives back the user and the password, for
  any user without a colon and any password (colons included).\<close>

lemma basic_auth_encoded:
  assumes "CHR '':'' \<notin> set u" and "equal_fold pre ''Basic ''"
    and "header_get h ''Authorization'' = pre @ b64_encode (u @ CHR '':'' # p)"
  shows "basic_auth h = Some (u, p)"
proof -
  have l: "length pre = 6" using equal_fold_length [OF assms(2)] by simp
  then have "pre @ b64_encode (u @ CHR '':'' # p) \<noteq> []" by auto
  moreover have "parse_basic_auth (pre @ b64_encode (u @ CHR '':'' # p)) = Some (u, p)"
    using l assms(1,2) by (simp add: parse_basic_auth_def cut_append)
  ultimately show ?thesis using assms(3) by (simp add: basic_auth_def)
qed

end
