(* ===== verification/Conditional.thy ===== *)
theory Conditional
  imports Http
begin

text \<open>
  The \<open>If-None-Match\<close> condition of RFC 7232 (section 3.2) as \<open>net/http\<close>
  evaluates it (\<open>checkIfNoneMatch\<close> and \<open>scanETag\<close> of \<open>fs.go\<close>): a comma
  separated list of entity tags, each \<open>"text"\<close> or \<open>W/"text"\<close>, or \<open>*\<close>;
  compared weakly, that is without the \<open>W/\<close> prefix. The list is read until the
  first tag that does not scan. \<open>None\<close> is \<open>condNone\<close> (no header),
  \<open>Some True\<close> that no tag matches, \<open>Some False\<close> that one does.
\<close>

text \<open>\<open>textproto.TrimString\<close>: ASCII space, tab, CR and LF off both ends.\<close>

definition is_ascii_space :: "char \<Rightarrow> bool" where
  "is_ascii_space c \<longleftrightarrow> c = CHR '' '' \<or> c = CHR 0x09 \<or> c = CHR 0x0A \<or> c = CHR 0x0D"

definition trim_string :: "string \<Rightarrow> string" where
  "trim_string s = rev (dropWhile is_ascii_space (rev (dropWhile is_ascii_space s)))"

text \<open>The bytes allowed between the quotes of an entity tag.\<close>

definition etag_char :: "char \<Rightarrow> bool" where
  "etag_char c \<longleftrightarrow>
     (let n = (of_char c :: nat) in n = 0x21 \<or> (0x23 \<le> n \<and> n \<le> 0x7E) \<or> 0x80 \<le> n)"

text \<open>\<open>scanETag\<close>: the entity tag at the front of the trimmed text and the
  text after it, or two empty strings when there is none.\<close>

definition scan_etag :: "string \<Rightarrow> string \<times> string" where
  "scan_etag s0 =
     (let s = trim_string s0; start = (if take 2 s = ''W/'' then 2 else 0); t = drop start s in
      if length t < 2 \<or> hd t \<noteq> CHR 0x22 then ([], [])
      else case dropWhile etag_char (tl t) of
             c # rest \<Rightarrow> (if c = CHR 0x22 then (take start s @ CHR 0x22 # takeWhile etag_char (tl t) @ [c], rest)
                         else ([], []))
           | [] \<Rightarrow> ([], []))"

definition trim_prefix_weak :: "string \<Rightarrow> string" where
  "trim_prefix_weak s = (if take 2 s = ''W/'' then drop 2 s else s)"

definition etag_weak_match :: "string \<Rightarrow> string \<Rightarrow> bool" where
  "etag_weak_match a b \<longleftrightarrow> trim_prefix_weak a = trim_prefix_weak b"

lemma length_trim_string: "length (trim_string s) \<le> length s"
proof -
  have "length (dropWhile is_ascii_space (rev (dropWhile is_ascii_space s))) \<le> length (rev (dropWhile is_ascii_space s))"
    by (rule length_dropWhile_le)
  then show ?thesis
    using length_dropWhile_le [of is_ascii_space s] by (simp add: trim_string_def)
qed

lemma scan_etag_shorter: "fst (scan_etag s) \<noteq> [] \<Longrightarrow> length (snd (scan_etag s)) < length s"
proof -
  assume ne: "fst (scan_etag s) \<noteq> []"
  let ?s = "trim_string s"
  let ?t = "drop (if take 2 ?s = ''W/'' then 2 else 0) ?s"
  obtain c rest where d: "dropWhile etag_char (tl ?t) = c # rest" and ok: "\<not> (length ?t < 2 \<or> hd ?t \<noteq> CHR 0x22)"
    using ne by (auto simp: scan_etag_def Let_def split: list.splits if_splits)
  then have "scan_etag s = (take (if take 2 ?s = ''W/'' then 2 else 0) ?s @ CHR 0x22 # takeWhile etag_char (tl ?t) @ [c], rest)"
    using ne by (auto simp: scan_etag_def Let_def split: if_splits)
  moreover have "length rest < length (tl ?t)"
    using d length_dropWhile_le [of etag_char "tl ?t"] by simp
  moreover have "length (tl ?t) < length s"
    using ok length_trim_string [of s] by (auto split: if_splits)
  ultimately show ?thesis by simp
qed

text \<open>The loop of \<open>checkIfNoneMatch\<close> over the rest of the header.\<close>

function inm_loop :: "string \<Rightarrow> string \<Rightarrow> bool" where
  "inm_loop et buf =
     (let b = trim_string buf in
      if b = [] then True
      else if hd b = CHR '','' then inm_loop et (tl b)
      else if hd b = CHR ''*'' then False
      else let (tag, remain) = scan_etag b in
        if tag = [] then True
        else if etag_weak_match tag et then False
        else inm_loop et remain)"
  by pat_completeness auto

termination
proof (relation "measure (\<lambda>(et, buf). length buf)")
  fix et buf b
  assume "b = trim_string buf" "b \<noteq> []"
  then show "((et, tl b), et, buf) \<in> measure (\<lambda>(et, buf). length buf)"
  proof -
    have "0 < length (trim_string buf)" using \<open>b \<noteq> []\<close> \<open>b = trim_string buf\<close> by simp
    then show ?thesis using length_trim_string [of buf] \<open>b = trim_string buf\<close>
      by (simp only: in_measure split_conv length_tl)
  qed
next
  fix et buf b x tag remain
  assume "b = trim_string buf" "x = scan_etag b" "(tag, remain) = x" "tag \<noteq> []"
  then show "((et, remain), et, buf) \<in> measure (\<lambda>(et, buf). length buf)"
    using scan_etag_shorter [of b] length_trim_string [of buf] by (metis fst_conv in_measure
        order_less_le_trans prod.case snd_conv)
qed simp

definition check_if_none_match :: "request \<Rightarrow> string \<Rightarrow> bool option" where
  "check_if_none_match r et =
     (let inm = header_get (req_header r) ''If-None-Match'' in if inm = [] then None else Some (inm_loop et inm))"

subsection \<open>Properties\<close>

lemma trim_string_id:
  "s \<noteq> [] \<Longrightarrow> \<not> is_ascii_space (hd s) \<Longrightarrow> \<not> is_ascii_space (last s) \<Longrightarrow> trim_string s = s"
proof -
  assume ne: "s \<noteq> []" and h: "\<not> is_ascii_space (hd s)" and l: "\<not> is_ascii_space (last s)"
  have "dropWhile is_ascii_space s = s" using ne h by (cases s) auto
  moreover have "dropWhile is_ascii_space (rev s) = rev s"
    using ne l by (cases "rev s") (auto simp flip: hd_rev)
  ultimately show ?thesis by (simp add: trim_string_def)
qed

lemma etag_char_quote [simp]: "\<not> etag_char (CHR 0x22)"
  by (simp add: etag_char_def)

lemma quote_not_space [simp]: "\<not> is_ascii_space (CHR 0x22)"
  by (simp add: is_ascii_space_def)

lemma scan_etag_quoted:
  assumes "list_all etag_char x"
  shows "scan_etag (CHR 0x22 # x @ [CHR 0x22]) = (CHR 0x22 # x @ [CHR 0x22], [])"
proof -
  have "trim_string (CHR 0x22 # x @ [CHR 0x22]) = CHR 0x22 # x @ [CHR 0x22]"
    by (rule trim_string_id) simp_all
  moreover have "dropWhile etag_char (x @ [CHR 0x22]) = [CHR 0x22]"
    "takeWhile etag_char (x @ [CHR 0x22]) = x"
    using assms by (simp_all add: list_all_iff)
  ultimately show ?thesis by (simp add: scan_etag_def)
qed

text \<open>A valid entity tag is matched by itself, by its weak form, and by \<open>*\<close>.\<close>

lemma inm_loop_self:
  assumes "list_all etag_char x" and "et = CHR 0x22 # x @ [CHR 0x22]"
  shows "\<not> inm_loop et et" and "\<not> inm_loop et (''W/'' @ et)" and "\<not> inm_loop et ''*''"
proof -
  have t: "trim_string et = et" using assms(2) by (intro trim_string_id) simp_all
  show "\<not> inm_loop et et"
    using t scan_etag_quoted [OF assms(1)] assms(2) by (simp add: etag_weak_match_def)
  have w: "trim_string (''W/'' @ et) = ''W/'' @ et"
    using assms(2) by (intro trim_string_id) (simp_all add: is_ascii_space_def)
  have "scan_etag (''W/'' @ et) = (''W/'' @ et, [])"
    using assms scan_etag_quoted [OF assms(1)] w
    by (simp add: scan_etag_def list_all_iff)
  then show "\<not> inm_loop et (''W/'' @ et)"
    using w by (simp add: etag_weak_match_def trim_prefix_weak_def assms(2))
  show "\<not> inm_loop et ''*''" by (simp add: trim_string_def is_ascii_space_def)
qed

end
