(* ===== verification/Handlers.thy ===== *)
theory Handlers
  imports Routing Config ClientIP Envelopes Base64 Conditional
begin

text \<open>
  The handler methods of \<open>HTTPBin\<close> that the route table names. Their code is
  not in this repository's \<open>src/\<close> (only \<open>app.go\<close>'s wiring is), so they are
  modelled from the specification (sections 4.2 to 4.4 and 6): the request
  envelope of the echo endpoints, the status echo, the redirect chain, and the
  two timing endpoints \<open>/delay\<close> and \<open>/drip\<close>. Numeric path and query parameters
  are read with \<open>strconv.Atoi\<close>; durations are whole seconds. Time is the
  nanosecond offset from the start of the handler; a request's cancellation
  time, if any, is when its context is done (the client went away).
\<close>

subsection \<open>Request helpers\<close>

definition path_parts :: "request \<Rightarrow> string list" where
  "path_parts r = split_on CHR ''/'' (req_path r)"

text \<open>\<open>url.Values.Get\<close>: the first value for the key, or the empty string.\<close>

definition query_get :: "request \<Rightarrow> string \<Rightarrow> string" where
  "query_get r k = (case map_of (req_query r) k of Some (v # _) \<Rightarrow> v | _ \<Rightarrow> '''')"

text \<open>The reconstructed URL: the scheme a proxy reports (\<open>X-Forwarded-Proto\<close>,
  \<open>X-Forwarded-Protocol\<close>, \<open>X-Forwarded-Ssl: on\<close>), else \<open>http\<close>, since
  \<open>main.go\<close> serves plain HTTP; then the host, the path and the raw query.\<close>

definition get_url :: "request \<Rightarrow> string" where
  "get_url r =
     (let h = req_header r;
          s1 = header_get h ''X-Forwarded-Proto'';
          s2 = (if s1 = '''' then header_get h ''X-Forwarded-Protocol'' else s1);
          s3 = (if s2 = '''' \<and> header_get h ''X-Forwarded-Ssl'' = ''on'' then ''https'' else s2);
          scheme = (if s3 = '''' then ''http'' else s3)
      in scheme @ ''://'' @ req_host r @ req_path r @
         (if req_raw_query r = '''' then '''' else ''?'' @ req_raw_query r))"

subsection \<open>The request envelope and the JSON writer\<close>

text \<open>\<open>getResponse\<close> (\<open>app.go\<close>, lines 34-39): args, headers, origin, url, in
  struct order; the origin is \<open>GetClientIP\<close>.\<close>

definition get_envelope :: "request \<Rightarrow> json" where
  "get_envelope r =
     JObject [(''args'', multimap_json (req_query r)),
              (''headers'', multimap_json (req_header r)),
              (''origin'', JString (get_client_ip r)),
              (''url'', JString (get_url r))]"

definition json_content_type :: string where
  "json_content_type = ''application/json; encoding=utf-8''"

definition json_response :: "nat \<Rightarrow> json \<Rightarrow> response" where
  "json_response code j =
     \<lparr>resp_status = code, resp_header = [(''Content-Type'', [json_content_type])],
      resp_writes = [(0, json_encode j)], resp_elapsed = 0\<rparr>"

definition get_handler :: handler where
  "get_handler r = json_response 200 (get_envelope r)"

subsection \<open>Echo endpoints\<close>

text \<open>\<open>/ip\<close>, \<open>/user-agent\<close>, \<open>/headers\<close> and \<open>/hostname\<close>: a JSON
  object with the client address, the \<open>User-Agent\<close> header, all request
  headers, or the configured hostname.\<close>

definition ip_handler :: handler where
  "ip_handler r = json_response 200 (ip_response_json \<lparr>ipr_origin = get_client_ip r\<rparr>)"

definition user_agent_handler :: handler where
  "user_agent_handler r =
     json_response 200 (user_agent_response_json \<lparr>uar_user_agent = header_get (req_header r) ''User-Agent''\<rparr>)"

definition headers_handler :: handler where
  "headers_handler r = json_response 200 (headers_response_json \<lparr>hr_headers = req_header r\<rparr>)"

definition hostname_handler :: "httpbin \<Rightarrow> handler" where
  "hostname_handler h r = json_response 200 (hostname_response_json \<lparr>hnr_hostname = hostname h\<rparr>)"

subsection \<open>Basic authentication\<close>

text \<open>\<open>/basic-auth/{user}/{passwd}\<close> and \<open>/hidden-basic-auth/{user}/{passwd}\<close>:
  the credentials of \<open>r.BasicAuth()\<close>, two empty strings when there are none,
  against the two path segments. A path with another number of segments is not
  found. On a mismatch the first answers 401 with a \<open>Basic\<close> challenge and the
  envelope, the second a plain 404.\<close>

definition given_credentials :: "request \<Rightarrow> string \<times> string" where
  "given_credentials r = (case basic_auth (req_header r) of Some c \<Rightarrow> c | None \<Rightarrow> ([], []))"

definition auth_matches :: "request \<Rightarrow> bool" where
  "auth_matches r = (given_credentials r = (path_parts r ! 2, path_parts r ! 3))"

definition basic_auth_challenge :: string where
  "basic_auth_challenge = ''Basic realm=\"Fake Realm\"''"

definition basic_auth_handler :: handler where
  "basic_auth_handler r =
     (if length (path_parts r) \<noteq> 4 then http_error ''Not Found'' 404
      else let authorized = auth_matches r;
               resp = json_response (if authorized then 200 else 401)
                 (auth_response_json \<lparr>ar_authorized = authorized, ar_user = fst (given_credentials r)\<rparr>)
           in if authorized then resp
              else resp\<lparr>resp_header := header_set (resp_header resp) ''WWW-Authenticate'' basic_auth_challenge\<rparr>)"

definition hidden_basic_auth_handler :: handler where
  "hidden_basic_auth_handler r =
     (if length (path_parts r) \<noteq> 4 \<or> \<not> auth_matches r then http_error ''Not Found'' 404
      else json_response 200
        (auth_response_json \<lparr>ar_authorized = True, ar_user = fst (given_credentials r)\<rparr>))"

subsection \<open>Streamed records\<close>

text \<open>\<open>/stream/{n}\<close>: \<open>n\<close> records, the count clamped to 1-100, each the
  \<open>streamResponse\<close> of the request with its \<open>id\<close>, marshalled, followed by a line
  feed and flushed, one after another without delay. A count that is not a
  number is a client error, a path with another number of segments not found.
  No \<open>Content-Type\<close> is set (\<open>net/http\<close> sniffs it).\<close>

definition stream_record :: "request \<Rightarrow> nat \<Rightarrow> stream_response" where
  "stream_record r i = \<lparr>sr_id = int i, sr_args = req_query r, sr_headers = req_header r,
     sr_origin = get_client_ip r, sr_url = get_url r\<rparr>"

definition stream_line :: "request \<Rightarrow> nat \<Rightarrow> string" where
  "stream_line r i = json_encode (stream_response_json (stream_record r i)) @ [CHR 0x0A]"

definition stream_count :: "int \<Rightarrow> nat" where
  "stream_count n = nat (if 100 < n then 100 else if n < 1 then 1 else n)"

definition stream_handler :: handler where
  "stream_handler r =
     (let parts = path_parts r in
      if length parts \<noteq> 3 then http_error ''Not Found'' 404
      else case atoi (parts ! 2) of
             Inl _ \<Rightarrow> http_error ''Invalid integer'' 400
           | Inr n \<Rightarrow> empty_response\<lparr>resp_writes := map (\<lambda>i. (0, stream_line r i)) [0..<stream_count n]\<rparr>)"

subsection \<open>Entity tags\<close>

text \<open>\<open>/etag/{tag}\<close>: the resource has the path segment as its entity tag.
  When \<open>If-None-Match\<close> names it (or is \<open>*\<close>) a \<open>GET\<close> or \<open>HEAD\<close> is answered
  304 and any other method 412, with the tag and no body; otherwise the
  \<open>/get\<close> envelope with the tag in \<open>ETag\<close>. A path with another number of
  segments is not found.\<close>

definition etag_handler :: handler where
  "etag_handler r =
     (let parts = path_parts r in
      if length parts \<noteq> 3 then http_error ''Not Found'' 404
      else let et = parts ! 2 in
        if check_if_none_match r et = Some False
        then empty_response\<lparr>resp_status := (if req_method r \<in> {''GET'', ''HEAD''} then 304 else 412),
                            resp_header := header_set [] ''ETag'' et\<rparr>
        else let resp = json_response 200 (get_envelope r) in
             resp\<lparr>resp_header := header_set (resp_header resp) ''ETag'' et\<rparr>)"

subsection \<open>Status echo\<close>

text \<open>\<open>/status/{code}\<close>: exactly that status and no body; a path with another
  number of segments is not found, a code that is not a number or not in
  100-599 a client error.\<close>

definition status_handler :: handler where
  "status_handler r =
     (let parts = path_parts r in
      if length parts \<noteq> 3 then http_error ''Not Found'' 404
      else case atoi (parts ! 2) of
             Inl _ \<Rightarrow> http_error ''Invalid status'' 400
           | Inr code \<Rightarrow>
               if code < 100 \<or> 599 < code then http_error ''Invalid status'' 400
               else empty_response\<lparr>resp_status := nat code\<rparr>)"

subsection \<open>Redirects\<close>

text \<open>The next hop of an \<open>n\<close>-hop chain: \<open>/get\<close> when no hop is left, else
  the relative or absolute redirect endpoint with one hop fewer.\<close>

definition redirect_location :: "request \<Rightarrow> bool \<Rightarrow> int \<Rightarrow> string" where
  "redirect_location r relative n =
     (let path = (if n < 1 then ''/get''
                  else if relative then ''/relative-redirect/'' @ itoa n
                  else ''/absolute-redirect/'' @ itoa n)
      in if relative then path else ''http://'' @ req_host r @ path)"

definition do_redirect :: "bool \<Rightarrow> handler" where
  "do_redirect relative r =
     (let parts = path_parts r in
      if length parts \<noteq> 3 then http_error ''Not Found'' 404
      else case atoi (parts ! 2) of
             Inl _ \<Rightarrow> http_error ''Invalid redirect'' 400
           | Inr n \<Rightarrow>
               if n < 1 then http_error ''Invalid redirect'' 400
               else redirect_response (redirect_location r relative (n - 1)) 302)"

definition redirect_handler :: handler where
  "redirect_handler r = do_redirect (query_get r ''absolute'' \<noteq> ''true'') r"

definition relative_redirect_handler :: handler where
  "relative_redirect_handler r = do_redirect True r"

definition absolute_redirect_handler :: handler where
  "absolute_redirect_handler r = do_redirect False r"

subsection \<open>Delay\<close>

text \<open>\<open>/delay/{seconds}\<close>: the delay is clamped to \<open>MaxDuration\<close>; the handler
  waits for it or for the cancellation of the request, whichever comes first,
  and on cancellation writes nothing; otherwise the envelope is written when the
  delay has passed.\<close>

definition shift_response :: "duration \<Rightarrow> response \<Rightarrow> response" where
  "shift_response d resp =
     resp\<lparr>resp_writes := map (\<lambda>(t, s). (t + d, s)) (resp_writes resp),
          resp_elapsed := resp_elapsed resp + d\<rparr>"

definition delay_handler :: "httpbin \<Rightarrow> handler" where
  "delay_handler h r =
     (let parts = path_parts r in
      if length parts \<noteq> 3 then http_error ''Not Found'' 404
      else case atoi (parts ! 2) of
             Inl _ \<Rightarrow> http_error ''Invalid duration'' 400
           | Inr secs \<Rightarrow>
               if secs < 0 then http_error ''Invalid duration'' 400
               else let d = min (secs * second) (MaxDuration h) in
                    case req_cancel_at r of
                      Some t \<Rightarrow> if t < d then empty_response\<lparr>resp_elapsed := t\<rparr>
                                else shift_response d (get_handler r)
                    | None \<Rightarrow> shift_response d (get_handler r))"

subsection \<open>Drip\<close>

text \<open>\<open>/drip?duration=&delay=&numbytes=&code=\<close>: after the initial delay the
  status and headers are written, then one byte \<open>*\<close> per tick, the ticks
  \<open>duration div numbytes\<close> apart, each flushed. A cancelled request stops
  writing; a parameter that is malformed, negative or beyond the maxima
  (\<open>MaxBodySize\<close> bytes, \<open>MaxDuration\<close> for delay plus duration) is a client error
  before anything is written.\<close>

definition int_param :: "request \<Rightarrow> string \<Rightarrow> int \<Rightarrow> num_error + int" where
  "int_param r k dflt = (let v = query_get r k in if v = '''' then Inr dflt else atoi v)"

definition drip_times :: "duration \<Rightarrow> duration \<Rightarrow> nat \<Rightarrow> duration list" where
  "drip_times delay pause n = map (\<lambda>i. delay + int i * pause) [0..<n]"

definition drip_writes :: "duration option \<Rightarrow> duration \<Rightarrow> duration \<Rightarrow> nat \<Rightarrow> (duration \<times> string) list" where
  "drip_writes cancel delay pause n =
     [(t, ''*''). t \<leftarrow> drip_times delay pause n, case cancel of None \<Rightarrow> True | Some c \<Rightarrow> t < c]"

definition drip_end :: "duration \<Rightarrow> duration \<Rightarrow> nat \<Rightarrow> duration" where
  "drip_end delay pause n = (if n = 0 then delay else delay + int (n - 1) * pause)"

definition drip_handler :: "httpbin \<Rightarrow> handler" where
  "drip_handler h r =
     (case (int_param r ''duration'' (DripDuration (DefaultParams h) div second),
            int_param r ''delay'' (DripDelay (DefaultParams h) div second),
            int_param r ''numbytes'' (DripNumBytes (DefaultParams h)),
            int_param r ''code'' 200) of
        (Inr dur_s, Inr delay_s, Inr numbytes, Inr code) \<Rightarrow>
          let duration = dur_s * second; delay = delay_s * second in
          if duration < 0 \<or> delay < 0 \<or> numbytes < 0 \<or> MaxBodySize h < numbytes
             \<or> MaxDuration h < duration + delay \<or> code < 100 \<or> 599 < code
          then http_error ''Invalid parameters'' 400
          else if (case req_cancel_at r of Some c \<Rightarrow> c < delay | None \<Rightarrow> False)
          then empty_response\<lparr>resp_elapsed := the (req_cancel_at r)\<rparr>
          else let pause = (if numbytes = 0 then 0 else duration div numbytes);
                   ws = drip_writes (req_cancel_at r) delay pause (nat numbytes)
               in \<lparr>resp_status = nat code,
                   resp_header = [(''Content-Type'', [''application/octet-stream'']),
                                  (''Content-Length'', [itoa numbytes])],
                   resp_writes = ws,
                   resp_elapsed = (case req_cancel_at r of
                                     Some c \<Rightarrow> min c (drip_end delay pause (nat numbytes))
                                   | None \<Rightarrow> drip_end delay pause (nat numbytes))\<rparr>
      | _ \<Rightarrow> http_error ''Invalid parameters'' 400)"

subsection \<open>Properties of the handlers\<close>

text \<open>Path segments: a segment without a slash, and the decimal form of a
  positive number, which has none.\<close>

lemma slash_not_digit: "is_digit c \<Longrightarrow> c \<noteq> CHR ''/''"
  by (auto simp: is_digit_def)

lemma itoa_pos: "0 < k \<Longrightarrow> itoa k = nat_to_string (nat k)"
  by (simp add: itoa_def)

lemma slash_notin_itoa: "CHR ''/'' \<notin> set (itoa k)"
  using nat_to_string_digits [of "nat k"] nat_to_string_digits [of "nat (- k)"] slash_not_digit
  by (auto simp: itoa_def list_all_iff)

lemma itoa_nonempty: "0 < k \<Longrightarrow> itoa k \<noteq> []"
  by (simp add: itoa_pos nat_to_string_nonempty)

lemma atoi_itoa: "is_int64 k \<Longrightarrow> atoi (itoa k) = Inr k"
  by (simp add: atoi_parse_int parse_int_itoa_id)

lemma parts_of_path:
  "0 < k \<Longrightarrow> split_on CHR ''/'' (CHR ''/'' # seg @ CHR ''/'' # itoa k) = [[], seg, itoa k]
   \<or> CHR ''/'' \<in> set seg"
  using slash_notin_itoa [of k]
  by (cases "CHR ''/'' \<in> set seg") (simp_all add: split_on_append_sep split_on_no_sep)

text \<open>\<open>/status/{code}\<close> with a code in range answers that code.\<close>

lemma status_handler_code:
  assumes "req_path r = ''/status/'' @ itoa c" and "100 \<le> c" and "c \<le> 599"
  shows "status_handler r = empty_response\<lparr>resp_status := nat c\<rparr>"
proof -
  have "is_int64 c" using assms(2,3) by (simp add: is_int64_def int64_min_def int64_max_def)
  moreover have "path_parts r = [[], ''status'', itoa c]"
    using parts_of_path [of c "''status''"] assms by (simp add: path_parts_def)
  ultimately show ?thesis using assms(2,3) by (simp add: status_handler_def atoi_itoa)
qed

text \<open>Whatever the path, the delay handler finishes within \<open>MaxDuration\<close>.\<close>

lemma delay_handler_bounded:
  assumes "0 \<le> MaxDuration h"
  shows "resp_elapsed (delay_handler h r) \<le> MaxDuration h"
  using assms
  by (auto simp: delay_handler_def Let_def http_error_def empty_response_def shift_response_def
      get_handler_def json_response_def split: sum.splits option.splits)

text \<open>The drip schedule: \<open>n\<close> ticks from the delay on, a pause apart, in
  order, the last at \<open>drip_end\<close>; a cancelled drip writes a prefix of the
  stream.\<close>

lemma length_drip_times [simp]: "length (drip_times d p n) = n"
  by (simp add: drip_times_def)

lemma sorted_drip_times: "0 \<le> p \<Longrightarrow> sorted (drip_times d p n)"
  unfolding drip_times_def sorted_map by (simp add: sorted_wrt_iff_nth_less mult_right_mono)

lemma strict_drip_times: "0 < p \<Longrightarrow> sorted_wrt (<) (drip_times d p n)"
  unfolding drip_times_def sorted_wrt_map by (auto simp: sorted_wrt_iff_nth_less)

lemma drip_times_range:
  assumes "0 \<le> p" and "t \<in> set (drip_times d p n)"
  shows "d \<le> t \<and> t \<le> drip_end d p n"
  using assms by (auto simp: drip_times_def drip_end_def intro!: mult_right_mono)

lemma drip_end_le:
  assumes "0 \<le> dur" and "0 < n"
  shows "drip_end d (dur div int n) n \<le> d + dur"
proof -
  have "int (n - 1) * (dur div int n) \<le> int n * (dur div int n)"
    using assms by (intro mult_right_mono) (simp_all add: pos_imp_zdiv_nonneg_iff)
  also have "\<dots> \<le> dur" proof -
    have "0 \<le> dur mod int n" using assms by simp
    then show ?thesis using minus_mod_eq_mult_div [of dur "int n"] by linarith
  qed
  finally show ?thesis using assms by (simp add: drip_end_def)
qed


lemma comprehension_filter: "[(t, s). t \<leftarrow> xs, P t] = map (\<lambda>t. (t, s)) (filter P xs)"
  by (induction xs) simp_all

lemma drip_writes_None: "drip_writes None d p n = map (\<lambda>t. (t, ''*'')) (drip_times d p n)"
  by (simp add: drip_writes_def comprehension_filter)

lemma concat_stars: "length (concat (map snd (map (\<lambda>t. (t, ''*'')) xs))) = length xs"
  by (induction xs) simp_all

lemma filter_sorted_takeWhile:
  "sorted xs \<Longrightarrow> filter (\<lambda>t. t < c) xs = takeWhile (\<lambda>t. t < (c::int)) xs"
proof (induction xs)
  case (Cons a xs)
  show ?case
  proof (cases "a < c")
    case False
    with Cons.prems have "filter (\<lambda>t. t < c) xs = []" by (auto simp: filter_empty_conv)
    with False Cons show ?thesis by simp
  qed (use Cons in simp)
qed simp

lemma drip_writes_cancel_prefix:
  assumes "0 \<le> p"
  shows "prefix (drip_writes (Some c) d p n) (drip_writes None d p n)"
proof -
  have "drip_writes (Some c) d p n = map (\<lambda>t. (t, ''*'')) (filter (\<lambda>t. t < c) (drip_times d p n))"
    by (simp add: drip_writes_def comprehension_filter)
  also have "\<dots> = map (\<lambda>t. (t, ''*'')) (takeWhile (\<lambda>t. t < c) (drip_times d p n))"
    using sorted_drip_times [OF assms] by (simp add: filter_sorted_takeWhile)
  finally show ?thesis
    by (simp add: drip_writes_None map_mono_prefix takeWhile_is_prefix)
qed

lemma drip_handler_stream:
  assumes "int_param r ''duration'' (DripDuration (DefaultParams h) div second) = Inr ds"
    and "int_param r ''delay'' (DripDelay (DefaultParams h) div second) = Inr dl"
    and "int_param r ''numbytes'' (DripNumBytes (DefaultParams h)) = Inr nb"
    and "int_param r ''code'' 200 = Inr c"
    and "0 \<le> ds" and "0 \<le> dl" and "0 \<le> nb" and "nb \<le> MaxBodySize h"
    and "(ds + dl) * second \<le> MaxDuration h" and "100 \<le> c" and "c \<le> 599"
    and "req_cancel_at r = None"
  shows "resp_status (drip_handler h r) = nat c
    \<and> length (resp_body (drip_handler h r)) = nat nb
    \<and> sorted (map fst (resp_writes (drip_handler h r)))
    \<and> (\<forall>t \<in> fst ` set (resp_writes (drip_handler h r)). dl * second \<le> t \<and> t \<le> (dl + ds) * second)
    \<and> resp_elapsed (drip_handler h r) \<le> MaxDuration h"
proof -
  define p where "p = (if nb = 0 then 0 else ds * second div nb)"
  have p0: "0 \<le> p" using assms(5,7) by (simp add: p_def second_def pos_imp_zdiv_nonneg_iff)
  have resp: "drip_handler h r =
     \<lparr>resp_status = nat c,
      resp_header = [(''Content-Type'', [''application/octet-stream'']), (''Content-Length'', [itoa nb])],
      resp_writes = map (\<lambda>t. (t, ''*'')) (drip_times (dl * second) p (nat nb)),
      resp_elapsed = drip_end (dl * second) p (nat nb)\<rparr>"
    using assms by (simp add: drip_handler_def Let_def p_def drip_writes_None second_def)
  have fin: "drip_end (dl * second) p (nat nb) \<le> dl * second + ds * second"
  proof (cases "nb = 0")
    case True
    then show ?thesis using assms(5) by (simp add: drip_end_def second_def)
  next
    case False
    then have "0 < nat nb" using assms(7) by simp
    from drip_end_le [OF _ this, of "ds * second" "dl * second"] False assms(5,7)
    show ?thesis by (simp add: p_def second_def)
  qed
  have rng: "\<forall>t \<in> set (drip_times (dl * second) p (nat nb)). dl * second \<le> t \<and> t \<le> (dl + ds) * second"
    using drip_times_range [OF p0] fin by (fastforce simp: distrib_right)
  show ?thesis
    unfolding resp using sorted_drip_times [OF p0] rng fin assms(9)
    by (simp add: resp_body_def concat_stars comp_def distrib_right)
qed



end
