(* ===== verification/Middleware.thy ===== *)
theory Middleware
  imports Handlers
begin

text \<open>
  The global middleware and the composition at the end of \<open>HTTPBin.Handler\<close>
  (\<open>src/app/app.go\<close>, lines 219-229): the engine is wrapped by
  \<open>limitRequestSize\<close>, then \<open>preflight\<close>, then \<open>autohead\<close>, and, when an
  observer is configured, by \<open>observe\<close>; the last wrapper applied is the
  outermost, so a request meets them in the order observe, autohead, preflight,
  size limit, engine. The bodies of the four middlewares and of the \<open>methods\<close>
  wrapper are not under \<open>src/\<close>; they follow the specification (section 4.5).
  The endpoint handlers are a parameter \<open>ep\<close> of the composition: every lemma
  about routing and middleware holds whatever the endpoints do, and the
  handlers of the \<open>Handlers\<close> theory are plugged in where a property needs them.
\<close>

subsection \<open>The wrappers of the route table\<close>

text \<open>\<open>methods(h, allowed...)\<close>: another method is answered with 405 before the
  handler runs; allowing GET allows HEAD, which \<open>autohead\<close> serves from it.\<close>

definition methods_wrapper :: "string list \<Rightarrow> handler \<Rightarrow> handler" where
  "methods_wrapper allowed inner r =
     (if req_method r \<in> set allowed \<or> (req_method r = ''HEAD'' \<and> ''GET'' \<in> set allowed)
      then inner r else http_error ''Method Not Allowed'' 405)"

definition not_implemented_handler :: handler where
  "not_implemented_handler r = http_error ''Not implemented'' 501"

type_synonym endpoints = "endpoint \<Rightarrow> handler"

fun target_handler :: "endpoints \<Rightarrow> target \<Rightarrow> handler" where
  "target_handler ep (Handle e) = ep e"
| "target_handler ep (Methods e allowed) = methods_wrapper allowed (ep e)"
| "target_handler ep NotFoundH = not_found"
| "target_handler ep NotImplemented = not_implemented_handler"

text \<open>The engine as a handler: \<open>ServeMux.ServeHTTP\<close> dispatches the path.\<close>

definition engine_handler :: "endpoints \<Rightarrow> handler" where
  "engine_handler ep r =
     (case route (req_path r) of
        Redirected loc \<Rightarrow> redirect_response loc 301
      | Routed p t \<Rightarrow> target_handler ep t r
      | NoRoute \<Rightarrow> not_found r)"

subsection \<open>The middlewares\<close>

text \<open>\<open>limitRequestSize\<close>: a body longer than the limit is refused with 413
  before the wrapped handler runs.\<close>

definition limit_request_size :: "int64 \<Rightarrow> handler \<Rightarrow> handler" where
  "limit_request_size max_size inner r =
     (if max_size < int (length (req_body r))
      then http_error ''Request Entity Too Large'' 413 else inner r)"

text \<open>Headers set by a middleware before the handler runs; the handler's own
  values for the same keys win.\<close>

definition add_headers :: "header \<Rightarrow> response \<Rightarrow> response" where
  "add_headers hs resp =
     resp\<lparr>resp_header := resp_header resp @ [kv \<leftarrow> hs. map_of (resp_header resp) (fst kv) = None]\<rparr>"

definition cors_headers :: "request \<Rightarrow> header" where
  "cors_headers r =
     (let origin = header_get (req_header r) ''Origin'' in
      [(''Access-Control-Allow-Origin'', [if origin = '''' then ''*'' else origin]),
       (''Access-Control-Allow-Credentials'', [''true''])])"

text \<open>\<open>preflight\<close>: an \<open>OPTIONS\<close> request is answered at once with 200, no body
  and permissive CORS headers; every other response carries the allow-origin
  headers.\<close>

definition preflight :: "handler \<Rightarrow> handler" where
  "preflight inner r =
     (if req_method r = ''OPTIONS'' then
        empty_response\<lparr>resp_header := cors_headers r @
           [(''Access-Control-Allow-Methods'', [''GET, POST, HEAD, PUT, DELETE, PATCH, OPTIONS'']),
            (''Access-Control-Max-Age'', [''3600''])] @
           (let rh = header_get (req_header r) ''Access-Control-Request-Headers'' in
            if rh = '''' then [] else [(''Access-Control-Allow-Headers'', [rh])])\<rparr>
      else add_headers (cors_headers r) (inner r))"

text \<open>\<open>autohead\<close>: a HEAD request runs the handler and discards what it writes;
  status and headers are kept.\<close>

definition autohead :: "handler \<Rightarrow> handler" where
  "autohead inner r = (if req_method r = ''HEAD'' then (inner r)\<lparr>resp_writes := []\<rparr> else inner r)"

text \<open>\<open>observe\<close>: after the wrapped handler has finished, the observer is called
  once with the outcome; the model records each call in a log.\<close>

record result =
  res_status :: nat
  res_method :: string
  res_uri :: string
  res_size :: nat
  res_duration :: duration

type_synonym observer_log = "(observer \<times> result) list"

definition result_of :: "request \<Rightarrow> response \<Rightarrow> result" where
  "result_of r resp =
     \<lparr>res_status = resp_status resp, res_method = req_method r,
      res_uri = req_path r @ (if req_raw_query r = '''' then '''' else ''?'' @ req_raw_query r),
      res_size = length (resp_body resp), res_duration = resp_elapsed resp\<rparr>"

definition observe :: "observer \<Rightarrow> handler \<Rightarrow> request \<Rightarrow> observer_log \<Rightarrow> response \<times> observer_log" where
  "observe obs inner r log = (let resp = inner r in (resp, log @ [(obs, result_of r resp)]))"

subsection \<open>Handler()\<close>

text \<open>\<open>handler = engine; handler = limitRequestSize(h.MaxBodySize, handler);
  handler = preflight(handler); handler = autohead(handler); if h.Observer !=
  nil { handler = observe(h.Observer, handler) }\<close>.\<close>

definition wrapped_handler :: "httpbin \<Rightarrow> endpoints \<Rightarrow> handler" where
  "wrapped_handler h ep = autohead (preflight (limit_request_size (MaxBodySize h) (engine_handler ep)))"

definition httpbin_handler :: "httpbin \<Rightarrow> endpoints \<Rightarrow> request \<Rightarrow> observer_log \<Rightarrow> response \<times> observer_log" where
  "httpbin_handler h ep r log =
     (case Observer h of
        None \<Rightarrow> (wrapped_handler h ep r, log)
      | Some obs \<Rightarrow> observe obs (wrapped_handler h ep) r log)"

text \<open>The endpoints whose handlers the model has, for the properties that run
  a request through the whole stack.\<close>

definition serves_modelled :: "httpbin \<Rightarrow> endpoints \<Rightarrow> bool" where
  "serves_modelled h ep \<longleftrightarrow>
     ep Get = get_handler \<and> ep Status = status_handler \<and> ep Redirect = redirect_handler
     \<and> ep RelativeRedirect = relative_redirect_handler
     \<and> ep AbsoluteRedirect = absolute_redirect_handler
     \<and> ep Delay = delay_handler h \<and> ep Drip = drip_handler h
     \<and> ep IP = ip_handler \<and> ep UserAgent = user_agent_handler \<and> ep Headers = headers_handler
     \<and> ep Hostname = hostname_handler h \<and> ep BasicAuth = basic_auth_handler
     \<and> ep HiddenBasicAuth = hidden_basic_auth_handler \<and> ep Stream = stream_handler
     \<and> ep ETag = etag_handler"

text \<open>The modelled handlers in place of their endpoints, every other endpoint
  answered with \<open>NotFound\<close>: a concrete instance for the witnesses.\<close>

definition modelled_endpoints :: "httpbin \<Rightarrow> endpoints" where
  "modelled_endpoints h e =
     (case e of Get \<Rightarrow> get_handler | Status \<Rightarrow> status_handler | Redirect \<Rightarrow> redirect_handler
      | RelativeRedirect \<Rightarrow> relative_redirect_handler | AbsoluteRedirect \<Rightarrow> absolute_redirect_handler
      | Delay \<Rightarrow> delay_handler h | Drip \<Rightarrow> drip_handler h | IP \<Rightarrow> ip_handler
      | UserAgent \<Rightarrow> user_agent_handler | Headers \<Rightarrow> headers_handler | Hostname \<Rightarrow> hostname_handler h
      | BasicAuth \<Rightarrow> basic_auth_handler | HiddenBasicAuth \<Rightarrow> hidden_basic_auth_handler
      | Stream \<Rightarrow> stream_handler | ETag \<Rightarrow> etag_handler | _ \<Rightarrow> not_found)"

lemma serves_modelled_endpoints: "serves_modelled h (modelled_endpoints h)"
  by (simp add: serves_modelled_def modelled_endpoints_def fun_eq_iff)

subsection \<open>Properties of the composition\<close>

lemma httpbin_handler_fst:
  "fst (httpbin_handler h ep r log) = wrapped_handler h ep r"
  by (simp add: httpbin_handler_def observe_def Let_def split: option.splits)

lemmas stack_defs = httpbin_handler_fst wrapped_handler_def autohead_def preflight_def
  limit_request_size_def engine_handler_def

text \<open>C14: an \<open>OPTIONS\<close> request is answered by the preflight middleware with
  status 200 and no body, whatever the endpoints do and whatever the path and
  the body size are.\<close>

theorem preflight_options:
  assumes "req_method r = ''OPTIONS''"
  shows "fst (httpbin_handler h ep r log) = fst (httpbin_handler h ep' r log)
         \<and> resp_status (fst (httpbin_handler h ep r log)) = 200
         \<and> resp_writes (fst (httpbin_handler h ep r log)) = []"
  using assms by (simp add: stack_defs empty_response_def)

theorem preflight_options_witness:
  "resp_status (fst (httpbin_handler (new_httpbin []) (modelled_endpoints (new_httpbin []))
      ((test_req [])\<lparr>req_method := ''OPTIONS'', req_path := ''/status/500''\<rparr>) [])) = 200"
proof -
  let ?r = "(test_req [])\<lparr>req_method := ''OPTIONS'', req_path := ''/status/500''\<rparr>"
  have "req_method ?r = ''OPTIONS''" by simp
  from preflight_options [OF this, of "new_httpbin []" "modelled_endpoints (new_httpbin [])" "[]"]
  show ?thesis by blast
qed

text \<open>C15: any other request whose body is longer than \<open>MaxBodySize\<close> is refused
  with 413 before routing, whatever the endpoints do.\<close>

theorem oversized_413:
  assumes "req_method r \<noteq> ''OPTIONS''" and "MaxBodySize h < int (length (req_body r))"
  shows "fst (httpbin_handler h ep r log) = fst (httpbin_handler h ep' r log)
         \<and> resp_status (fst (httpbin_handler h ep r log)) = 413"
  using assms by (simp add: stack_defs add_headers_def http_error_def)

theorem oversized_413_witness:
  "resp_status (fst (httpbin_handler (new_httpbin [WithMaxBodySize 4]) (modelled_endpoints (new_httpbin []))
      ((test_req [])\<lparr>req_method := ''POST'', req_path := ''/get'', req_body := ''hello''\<rparr>) [])) = 413"
proof -
  let ?r = "(test_req [])\<lparr>req_method := ''POST'', req_path := ''/get'', req_body := ''hello''\<rparr>"
  have "req_method ?r \<noteq> ''OPTIONS''" by simp
  moreover have "MaxBodySize (new_httpbin [WithMaxBodySize 4]) < int (length (req_body ?r))"
    by (simp add: new_httpbin_def)
  ultimately show ?thesis
    using oversized_413 [of ?r "new_httpbin [WithMaxBodySize 4]" "modelled_endpoints (new_httpbin [])" "[]"]
    by blast
qed

text \<open>C16: a HEAD request to a GET-only route is served by the GET handler with
  the body dropped: the same status and headers as the GET request, no writes,
  for every endpoint that does not look at the method.\<close>

theorem autohead_from_get:
  assumes "req_method r = ''HEAD''"
    and "route (req_path r) = Routed p (Methods e allowed)" and "''GET'' \<in> set allowed"
    and "\<forall>r'. ep e (r'\<lparr>req_method := ''HEAD''\<rparr>) = ep e (r'\<lparr>req_method := ''GET''\<rparr>)"
  shows "fst (httpbin_handler h ep r log)
         = (fst (httpbin_handler h ep (r\<lparr>req_method := ''GET''\<rparr>) log))\<lparr>resp_writes := []\<rparr>"
proof -
  have "r\<lparr>req_method := ''HEAD''\<rparr> = r" using assms(1) by (cases r) simp
  then have ep: "ep e r = ep e (r\<lparr>req_method := ''GET''\<rparr>)"
    using assms(4) [rule_format, of r] by simp
  show ?thesis
    using assms(1-3) ep
    by (simp add: stack_defs methods_wrapper_def cors_headers_def add_headers_def http_error_def)
qed

lemma get_handler_method: "get_handler (r\<lparr>req_method := m\<rparr>) = get_handler r"
proof -
  have "get_client_ip (r\<lparr>req_method := m\<rparr>) = get_client_ip r"
    by (simp add: get_client_ip_def Let_def)
  moreover have "get_url (r\<lparr>req_method := m\<rparr>) = get_url r"
    by (simp add: get_url_def Let_def)
  ultimately show ?thesis by (simp add: get_handler_def get_envelope_def)
qed

theorem autohead_from_get_witness:
  "fst (httpbin_handler (new_httpbin []) (modelled_endpoints (new_httpbin []))
      ((test_req [])\<lparr>req_method := ''HEAD'', req_path := ''/get''\<rparr>) [])
   = (fst (httpbin_handler (new_httpbin []) (modelled_endpoints (new_httpbin []))
      ((test_req [])\<lparr>req_path := ''/get''\<rparr>) []))\<lparr>resp_writes := []\<rparr>"
proof -
  let ?r = "(test_req [])\<lparr>req_method := ''HEAD'', req_path := ''/get''\<rparr>"
  have m: "req_method ?r = ''HEAD''" by simp
  have rt: "route (req_path ?r) = Routed ''/get'' (Methods Get [''GET''])"
    by (simp add: route_get)
  have ep: "\<forall>r'. modelled_endpoints (new_httpbin []) Get (r'\<lparr>req_method := ''HEAD''\<rparr>)
      = modelled_endpoints (new_httpbin []) Get (r'\<lparr>req_method := ''GET''\<rparr>)"
    by (simp add: modelled_endpoints_def get_handler_method)
  have "fst (httpbin_handler (new_httpbin []) (modelled_endpoints (new_httpbin [])) ?r [])
      = (fst (httpbin_handler (new_httpbin []) (modelled_endpoints (new_httpbin []))
         (?r\<lparr>req_method := ''GET''\<rparr>) []))\<lparr>resp_writes := []\<rparr>"
    using autohead_from_get [of ?r "''/get''" Get "[''GET'']" "modelled_endpoints (new_httpbin [])"
        "new_httpbin []" "[]"] m rt ep by simp
  moreover have "?r\<lparr>req_method := ''GET''\<rparr> = (test_req [])\<lparr>req_path := ''/get''\<rparr>"
    by (simp add: test_req_def)
  ultimately show ?thesis by simp
qed

text \<open>C18: a method that a \<open>methods\<close> route does not allow is refused with 405
  before the endpoint runs, once the request has passed preflight and the size
  limit.\<close>

theorem methods_405:
  assumes "route (req_path r) = Routed p (Methods e allowed)"
    and "req_method r \<notin> set allowed" and "\<not> (req_method r = ''HEAD'' \<and> ''GET'' \<in> set allowed)"
    and "req_method r \<noteq> ''OPTIONS''" and "int (length (req_body r)) \<le> MaxBodySize h"
  shows "fst (httpbin_handler h ep r log) = fst (httpbin_handler h ep' r log)
         \<and> resp_status (fst (httpbin_handler h ep r log)) = 405"
  using assms by (auto simp: stack_defs methods_wrapper_def add_headers_def http_error_def)

theorem methods_405_witness:
  "resp_status (fst (httpbin_handler (new_httpbin []) (modelled_endpoints (new_httpbin []))
      ((test_req [])\<lparr>req_method := ''DELETE'', req_path := ''/get''\<rparr>) [])) = 405"
proof -
  let ?r = "(test_req [])\<lparr>req_method := ''DELETE'', req_path := ''/get''\<rparr>"
  have "route (req_path ?r) = Routed ''/get'' (Methods Get [''GET''])" by (simp add: route_get)
  moreover have "int (length (req_body ?r)) \<le> MaxBodySize (new_httpbin [])"
    by (simp add: test_req_def new_httpbin_def new_defaults_def default_max_body_size_def)
  ultimately show ?thesis
    using methods_405 [of ?r "''/get''" Get "[''GET'']" "new_httpbin []" "modelled_endpoints (new_httpbin [])" "[]"]
    by simp
qed

end
