(* ===== verification/Endpoints.thy ===== *)
theory Endpoints
  imports Middleware
begin

text \<open>
  Requests run through the whole of \<open>Handler()\<close>: the middleware chain, the
  engine's route table and the modelled endpoint handlers together. The
  properties here are what a client observes: the status echo, the redirect
  chain followed hop by hop until it lands on \<open>/get\<close>, the bound on the time
  \<open>/delay\<close> takes, the schedule of the bytes \<open>/drip\<close> writes, and the \<open>/get\<close>
  envelope with its origin.
\<close>

text \<open>The response a client receives (the observer log left aside).\<close>

definition resp_of :: "httpbin \<Rightarrow> endpoints \<Rightarrow> request \<Rightarrow> response" where
  "resp_of h ep r = fst (httpbin_handler h ep r [])"

text \<open>A client following the \<open>Location\<close> of each response \<open>k\<close> times, with the
  same method, headers and body.\<close>

fun follow :: "httpbin \<Rightarrow> endpoints \<Rightarrow> nat \<Rightarrow> request \<Rightarrow> request" where
  "follow h ep 0 r = r"
| "follow h ep (Suc k) r =
     follow h ep k (r\<lparr>req_path := header_get (resp_header (resp_of h ep r)) ''Location''\<rparr>)"

text \<open>A client that follows redirects until a response is not one, resolving
  each \<open>Location\<close> as a path on the same server. On a redirect cycle it never
  returns, which is \<open>None\<close>.\<close>

partial_function (option) client_follow ::
  "httpbin \<Rightarrow> endpoints \<Rightarrow> request \<Rightarrow> (request \<times> response) option" where
  "client_follow h ep r =
     (let resp = resp_of h ep r in
      if resp_status resp \<in> {301, 302, 303, 307, 308}
      then client_follow h ep (r\<lparr>req_path := header_get (resp_header resp) ''Location''\<rparr>)
      else Some (r, resp))"

subsection \<open>Through the stack\<close>

lemma status_add_headers [simp]: "resp_status (add_headers hs resp) = resp_status resp"
  by (simp add: add_headers_def)

lemma writes_add_headers [simp]: "resp_writes (add_headers hs resp) = resp_writes resp"
  by (simp add: add_headers_def)

lemma handle_through_stack:
  assumes "route (req_path r) = Routed p (Handle e)" and "req_method r \<noteq> ''OPTIONS''"
    and "int (length (req_body r)) \<le> MaxBodySize h"
  shows "resp_of h ep r = (if req_method r = ''HEAD'' then (add_headers (cors_headers r) (ep e r))\<lparr>resp_writes := []\<rparr>
                           else add_headers (cors_headers r) (ep e r))"
  using assms
  by (simp add: resp_of_def httpbin_handler_fst wrapped_handler_def autohead_def preflight_def
      limit_request_size_def engine_handler_def)

lemma elapsed_stack:
  "resp_elapsed (resp_of h ep r) \<in> {0, resp_elapsed (engine_handler ep r)}"
  by (simp add: resp_of_def httpbin_handler_fst wrapped_handler_def autohead_def preflight_def
      limit_request_size_def add_headers_def http_error_def empty_response_def)

lemma get_through_stack:
  assumes "serves_modelled h ep" and "req_method r = ''GET''"
    and "int (length (req_body r)) \<le> MaxBodySize h" and "req_path r = ''/get''"
  shows "resp_of h ep r = add_headers (cors_headers r) (get_handler r)"
  using assms route_get
  by (simp add: resp_of_def httpbin_handler_fst wrapped_handler_def autohead_def preflight_def
      limit_request_size_def engine_handler_def serves_modelled_def methods_wrapper_def)

subsection \<open>The redirect chain\<close>

lemma canonical_location: "canonical_mime_header_key ''Location'' = ''Location''"
  by code_simp


lemma relative_hop:
  assumes "serves_modelled h ep" and "req_method r = ''GET''"
    and "int (length (req_body r)) \<le> MaxBodySize h" and "1 \<le> k" and "is_int64 k"
  shows "resp_status (resp_of h ep (r\<lparr>req_path := ''/relative-redirect/'' @ itoa k\<rparr>)) = 302
    \<and> header_get (resp_header (resp_of h ep (r\<lparr>req_path := ''/relative-redirect/'' @ itoa k\<rparr>))) ''Location''
       = (if k = 1 then ''/get'' else ''/relative-redirect/'' @ itoa (k - 1))"
proof -
  let ?r = "r\<lparr>req_path := ''/relative-redirect/'' @ itoa k\<rparr>"
  have parts: "path_parts ?r = [[], ''relative-redirect'', itoa k]"
    using parts_of_path [of k "''relative-redirect''"] assms(4) by (simp add: path_parts_def)
  have rt: "route (req_path ?r) = Routed ''/relative-redirect/'' (Handle RelativeRedirect)"
    using route_relative_redirect itoa_nonempty assms(4) by simp
  have resp: "relative_redirect_handler ?r
      = redirect_response (if k - 1 < 1 then ''/get'' else ''/relative-redirect/'' @ itoa (k - 1)) 302"
    using parts atoi_itoa [OF assms(5)] assms(4)
    by (simp add: relative_redirect_handler_def do_redirect_def redirect_location_def Let_def)
  show ?thesis
    using assms(1-4) rt resp
    by (simp add: resp_of_def httpbin_handler_fst wrapped_handler_def autohead_def preflight_def
        limit_request_size_def engine_handler_def serves_modelled_def add_headers_def
        redirect_response_def header_get_def canonical_location)
qed


lemma redirect_hop:
  assumes "serves_modelled h ep" and "req_method r = ''GET''"
    and "int (length (req_body r)) \<le> MaxBodySize h" and "query_get r ''absolute'' \<noteq> ''true''"
    and "1 \<le> k" and "is_int64 k"
  shows "resp_status (resp_of h ep (r\<lparr>req_path := ''/redirect/'' @ itoa k\<rparr>)) = 302
    \<and> header_get (resp_header (resp_of h ep (r\<lparr>req_path := ''/redirect/'' @ itoa k\<rparr>))) ''Location''
       = (if k = 1 then ''/get'' else ''/relative-redirect/'' @ itoa (k - 1))"
proof -
  let ?r = "r\<lparr>req_path := ''/redirect/'' @ itoa k\<rparr>"
  have parts: "path_parts ?r = [[], ''redirect'', itoa k]"
    using parts_of_path [of k "''redirect''"] assms(5) by (simp add: path_parts_def)
  have rt: "route (req_path ?r) = Routed ''/redirect/'' (Handle Redirect)"
    using route_redirect itoa_nonempty assms(5) by simp
  have q: "query_get ?r ''absolute'' \<noteq> ''true''" using assms(4) by (simp add: query_get_def)
  have resp: "redirect_handler ?r
      = redirect_response (if k - 1 < 1 then ''/get'' else ''/relative-redirect/'' @ itoa (k - 1)) 302"
    using parts atoi_itoa [OF assms(6)] assms(5) q
    by (simp add: redirect_handler_def do_redirect_def redirect_location_def Let_def)
  show ?thesis
    using assms(1-3,5) rt resp
    by (simp add: resp_of_def httpbin_handler_fst wrapped_handler_def autohead_def preflight_def
        limit_request_size_def engine_handler_def serves_modelled_def add_headers_def
        redirect_response_def header_get_def canonical_location)
qed

lemma is_int64_mono: "is_int64 k \<Longrightarrow> 1 \<le> j \<Longrightarrow> j \<le> k \<Longrightarrow> is_int64 j"
  by (simp add: is_int64_def int64_min_def)

lemma follow_relative:
  assumes "serves_modelled h ep" and "req_method r = ''GET''"
    and "int (length (req_body r)) \<le> MaxBodySize h" and "1 \<le> m" and "is_int64 (int m)"
  shows "req_path (follow h ep m (r\<lparr>req_path := ''/relative-redirect/'' @ itoa (int m)\<rparr>)) = ''/get''
    \<and> (\<forall>j < m. resp_status (resp_of h ep (follow h ep j (r\<lparr>req_path := ''/relative-redirect/'' @ itoa (int m)\<rparr>))) = 302)"
  using assms(4,5)
proof (induction m)
  case 0
  then show ?case by simp
next
  case (Suc m)
  note hop = relative_hop [OF assms(1-3), of "int (Suc m)"]
  show ?case
  proof (cases "m = 0")
    case True
    with hop Suc.prems show ?thesis by simp
  next
    case False
    then have m1: "1 \<le> m" by simp
    have i: "is_int64 (int m)"
      using Suc.prems(2) by (simp add: is_int64_def int64_min_def int64_max_def)
    have step: "follow h ep (Suc j) (r\<lparr>req_path := ''/relative-redirect/'' @ itoa (int (Suc m))\<rparr>)
        = follow h ep j (r\<lparr>req_path := ''/relative-redirect/'' @ itoa (int m)\<rparr>)" for j
      using hop Suc.prems False by simp
    from Suc.IH [OF m1 i] step show ?thesis
      using hop Suc.prems by (auto simp: less_Suc_eq_0_disj)
  qed
qed


lemma follow_frame:
  "req_method (follow h ep k r) = req_method r \<and> req_body (follow h ep k r) = req_body r"
  by (induction k arbitrary: r) simp_all

lemmas example_config = new_httpbin_def new_defaults_def default_max_body_size_def
  default_max_duration_def second_def default_default_params_def

lemma example_request_fits: "int (length (req_body (test_req hs))) \<le> MaxBodySize (new_httpbin [])"
  by (simp add: test_req_def example_config)

text \<open>C19: a client that follows the redirects of \<open>/redirect/n\<close> (with GET,
  a body within the limit, no \<open>absolute=true\<close>) is sent through exactly
  \<open>n\<close> redirects, each with status 302, and lands on \<open>/get\<close>, answered
  with 200.\<close>

theorem redirect_chain:
  assumes "serves_modelled h ep" and "req_method r = ''GET''"
    and "int (length (req_body r)) \<le> MaxBodySize h" and "query_get r ''absolute'' \<noteq> ''true''"
    and "1 \<le> n" and "is_int64 (int n)"
  shows "req_path (follow h ep n (r\<lparr>req_path := ''/redirect/'' @ itoa (int n)\<rparr>)) = ''/get''
    \<and> (\<forall>j < n. resp_status (resp_of h ep (follow h ep j (r\<lparr>req_path := ''/redirect/'' @ itoa (int n)\<rparr>))) = 302)
    \<and> resp_status (resp_of h ep (follow h ep n (r\<lparr>req_path := ''/redirect/'' @ itoa (int n)\<rparr>))) = 200"
proof -
  let ?r0 = "r\<lparr>req_path := ''/redirect/'' @ itoa (int n)\<rparr>"
  note hop = redirect_hop [OF assms(1-4), of "int n"]
  obtain m where n: "n = Suc m" using assms(5) by (cases n) auto
  have first: "follow h ep (Suc j) ?r0
      = follow h ep j (r\<lparr>req_path := (if n = 1 then ''/get'' else ''/relative-redirect/'' @ itoa (int m))\<rparr>)" for j
    using hop assms(5,6) n by (simp add: of_nat_diff)
  have path_status:
    "req_path (follow h ep n ?r0) = ''/get''
     \<and> (\<forall>j < n. resp_status (resp_of h ep (follow h ep j ?r0)) = 302)"
  proof (cases "m = 0")
    case True
    with first [of 0] hop assms(5,6) n show ?thesis by (auto simp: less_Suc_eq_0_disj)
  next
    case False
    then have "1 \<le> m" by simp
    moreover have "is_int64 (int m)"
      using assms(6) n by (simp add: is_int64_def int64_min_def int64_max_def)
    ultimately have rel: "req_path (follow h ep m (r\<lparr>req_path := ''/relative-redirect/'' @ itoa (int m)\<rparr>)) = ''/get''
      \<and> (\<forall>j < m. resp_status (resp_of h ep (follow h ep j (r\<lparr>req_path := ''/relative-redirect/'' @ itoa (int m)\<rparr>))) = 302)"
      using follow_relative [OF assms(1-3)] by blast
    from rel first False n hop assms(5,6) show ?thesis by (auto simp: less_Suc_eq_0_disj)
  qed
  have land: "resp_of h ep (follow h ep n ?r0) = add_headers (cors_headers (follow h ep n ?r0)) (get_handler (follow h ep n ?r0))"
  proof (rule get_through_stack [OF assms(1)])
    show "req_method (follow h ep n ?r0) = ''GET''" using assms(2) by (simp add: follow_frame)
    show "int (length (req_body (follow h ep n ?r0))) \<le> MaxBodySize h"
      using assms(3) by (simp add: follow_frame)
  qed (use path_status in simp)
  from path_status land show ?thesis by (simp add: get_handler_def json_response_def)
qed

theorem redirect_chain_witness:
  "req_path (follow (new_httpbin []) (modelled_endpoints (new_httpbin [])) 3
      ((test_req [])\<lparr>req_path := ''/redirect/'' @ itoa (int 3)\<rparr>)) = ''/get''
   \<and> resp_status (resp_of (new_httpbin []) (modelled_endpoints (new_httpbin []))
      (follow (new_httpbin []) (modelled_endpoints (new_httpbin [])) 3
        ((test_req [])\<lparr>req_path := ''/redirect/'' @ itoa (int 3)\<rparr>))) = 200"
proof -
  have "req_method (test_req []) = ''GET''" "query_get (test_req []) ''absolute'' \<noteq> ''true''"
    "is_int64 (int 3)"
    by (simp_all add: test_req_def query_get_def is_int64_def int64_min_def int64_max_def)
  with redirect_chain [OF serves_modelled_endpoints _ example_request_fits, of "[]" 3]
  show ?thesis by simp
qed

text \<open>C20: whatever follows \<open>/delay/\<close> in the path and whenever the client
  goes away, the response is complete within \<open>MaxDuration\<close>.\<close>

theorem delay_bounded:
  assumes "serves_modelled h ep" and "0 \<le> MaxDuration h" and "req_path r = ''/delay/'' @ s"
  shows "resp_elapsed (resp_of h ep r) \<le> MaxDuration h"
proof -
  have "resp_elapsed (engine_handler ep r) = resp_elapsed (delay_handler h r)"
    using assms(1,3) route_delay by (simp add: engine_handler_def serves_modelled_def)
  then show ?thesis
    using elapsed_stack [of h ep r] delay_handler_bounded [OF assms(2)] assms(2) by auto
qed

theorem delay_bounded_witness:
  "resp_elapsed (resp_of (new_httpbin []) (modelled_endpoints (new_httpbin []))
      ((test_req [])\<lparr>req_path := ''/delay/60''\<rparr>)) \<le> MaxDuration (new_httpbin [])"
  using delay_bounded [OF serves_modelled_endpoints, of "new_httpbin []"
      "(test_req [])\<lparr>req_path := ''/delay/60''\<rparr>" "''60''"]
  by (simp add: example_config)

text \<open>C21: \<open>/status/c\<close> for a code from 100 to 599 answers exactly that status
  with an empty body, for every method but \<open>OPTIONS\<close>.\<close>

theorem status_echo:
  assumes "serves_modelled h ep" and "req_method r \<noteq> ''OPTIONS''"
    and "int (length (req_body r)) \<le> MaxBodySize h"
    and "req_path r = ''/status/'' @ itoa c" and "100 \<le> c" and "c \<le> 599"
  shows "resp_status (resp_of h ep r) = nat c \<and> resp_body (resp_of h ep r) = []"
proof -
  have "route (req_path r) = Routed ''/status/'' (Handle Status)"
    using assms(4,5) route_status itoa_nonempty by simp
  from handle_through_stack [OF this assms(2,3)] status_handler_code [OF assms(4-6)] assms(1)
  show ?thesis by (simp add: serves_modelled_def empty_response_def resp_body_def)
qed

theorem status_echo_witness:
  "resp_status (resp_of (new_httpbin []) (modelled_endpoints (new_httpbin []))
      ((test_req [])\<lparr>req_path := ''/status/'' @ itoa 418\<rparr>)) = 418"
proof -
  let ?r = "(test_req [])\<lparr>req_path := ''/status/'' @ itoa 418\<rparr>"
  have "req_method ?r \<noteq> ''OPTIONS''" "int (length (req_body ?r)) \<le> MaxBodySize (new_httpbin [])"
    by (simp_all add: test_req_def example_config)
  from status_echo [OF serves_modelled_endpoints this, of 418]
  show ?thesis by simp
qed

text \<open>C22: \<open>/drip\<close> with valid parameters answers the requested code and
  writes exactly \<open>numbytes\<close> bytes, at non-decreasing times between the delay
  and the delay plus the duration, and finishes within \<open>MaxDuration\<close>.\<close>

theorem drip_through_stack:
  assumes "serves_modelled h ep" and "req_method r = ''GET''"
    and "int (length (req_body r)) \<le> MaxBodySize h" and "req_path r = ''/drip''"
    and "int_param r ''duration'' (DripDuration (DefaultParams h) div second) = Inr ds"
    and "int_param r ''delay'' (DripDelay (DefaultParams h) div second) = Inr dl"
    and "int_param r ''numbytes'' (DripNumBytes (DefaultParams h)) = Inr nb"
    and "int_param r ''code'' 200 = Inr c"
    and "0 \<le> ds" and "0 \<le> dl" and "0 \<le> nb" and "nb \<le> MaxBodySize h"
    and "(ds + dl) * second \<le> MaxDuration h" and "100 \<le> c" and "c \<le> 599"
    and "req_cancel_at r = None"
  shows "resp_status (resp_of h ep r) = nat c
    \<and> length (resp_body (resp_of h ep r)) = nat nb
    \<and> sorted (map fst (resp_writes (resp_of h ep r)))
    \<and> (\<forall>t \<in> fst ` set (resp_writes (resp_of h ep r)). dl * second \<le> t \<and> t \<le> (dl + ds) * second)
    \<and> resp_elapsed (resp_of h ep r) \<le> MaxDuration h"
proof -
  have "resp_of h ep r = add_headers (cors_headers r) (drip_handler h r)"
    using handle_through_stack [of r "''/drip''" Drip h ep] assms(1-4) route_drip
    by (simp add: serves_modelled_def)
  with drip_handler_stream [OF assms(5-16)] show ?thesis
    by (simp add: resp_body_def add_headers_def)
qed

definition drip_example :: request where
  "drip_example = (test_req [])\<lparr>req_path := ''/drip'',
     req_query := [(''duration'', [''2'']), (''delay'', [''1'']), (''numbytes'', [''5'']), (''code'', [''201''])]\<rparr>"

theorem drip_through_stack_witness:
  "resp_status (resp_of (new_httpbin []) (modelled_endpoints (new_httpbin [])) drip_example) = 201
   \<and> length (resp_body (resp_of (new_httpbin []) (modelled_endpoints (new_httpbin [])) drip_example)) = 5"
proof -
  have q: "int_param drip_example ''duration'' (DripDuration (DefaultParams (new_httpbin [])) div second) = Inr 2"
    "int_param drip_example ''delay'' (DripDelay (DefaultParams (new_httpbin [])) div second) = Inr 1"
    "int_param drip_example ''numbytes'' (DripNumBytes (DefaultParams (new_httpbin []))) = Inr 5"
    "int_param drip_example ''code'' 200 = Inr 201"
    by (simp_all add: int_param_def query_get_def drip_example_def strconv_eval)
  have "req_method drip_example = ''GET''" "req_path drip_example = ''/drip''"
    "req_cancel_at drip_example = None"
    by (simp_all add: drip_example_def test_req_def)
  moreover have "int (length (req_body drip_example)) \<le> MaxBodySize (new_httpbin [])"
    by (simp add: drip_example_def test_req_def example_config)
  moreover have "(2 + 1) * second \<le> MaxDuration (new_httpbin [])" "5 \<le> MaxBodySize (new_httpbin [])"
    by (simp_all add: example_config)
  ultimately show ?thesis
    using drip_through_stack [OF serves_modelled_endpoints _ _ _ q] by simp
qed

lemma canonical_content_type: "canonical_mime_header_key ''Content-Type'' = ''Content-Type''"
  by code_simp

text \<open>C23: \<open>GET /get\<close> answers 200 with the JSON content type and, as its
  body, the encoding of the request envelope, whose \<open>origin\<close> is the client
  address \<open>GetClientIP\<close> reports. The origin is written as a JSON string
  literal that a strict reader of the JSON string grammar reads back as the
  address, ending exactly at the closing quote, whatever bytes the proxy
  headers put into it.\<close>

theorem get_envelope_origin:
  assumes "serves_modelled h ep" and "req_method r = ''GET''"
    and "int (length (req_body r)) \<le> MaxBodySize h" and "req_path r = ''/get''"
  shows "resp_status (resp_of h ep r) = 200
    \<and> resp_body (resp_of h ep r) = json_encode (get_envelope r)
    \<and> json_field ''origin'' (get_envelope r) = Some (JString (get_client_ip r))
    \<and> header_get (resp_header (resp_of h ep r)) ''Content-Type'' = json_content_type
    \<and> json_encode (JString (get_client_ip r)) = CHR 0x22 # escape_bytes (get_client_ip r) @ [CHR 0x22]
    \<and> json_read_string (escape_bytes (get_client_ip r) @ [CHR 0x22]) = Some (get_client_ip r, [])"
proof -
  have "json_encode (JString (get_client_ip r)) = CHR 0x22 # escape_bytes (get_client_ip r) @ [CHR 0x22]"
    by (simp add: json_string_def)
  then show ?thesis
    unfolding get_through_stack [OF assms]
    by (simp add: get_handler_def json_response_def resp_body_def json_field_def get_envelope_def
        add_headers_def header_get_def canonical_content_type json_escape_roundtrip del: json_encode.simps)
qed

theorem get_envelope_origin_witness:
  "resp_status (resp_of (new_httpbin []) (modelled_endpoints (new_httpbin []))
      (test_req [(''X-Forwarded-For'', [''1.2.3.4, 10.0.0.1''])]\<lparr>req_path := ''/get''\<rparr>)) = 200"
proof -
  let ?r = "test_req [(''X-Forwarded-For'', [''1.2.3.4, 10.0.0.1''])]\<lparr>req_path := ''/get''\<rparr>"
  have "req_method ?r = ''GET''" "int (length (req_body ?r)) \<le> MaxBodySize (new_httpbin [])"
    by (simp_all add: test_req_def example_config)
  from get_envelope_origin [OF serves_modelled_endpoints this]
  show ?thesis by simp
qed

lemma atoi_Nil: "atoi [] = Inl ErrSyntax"
  by (simp add: atoi_def parse_int_def)

lemma int_param_given: "atoi (query_get r k) = Inr v \<Longrightarrow> int_param r k d = Inr v"
  by (auto simp: int_param_def atoi_Nil Let_def)

lemma int_param_malformed: "query_get r k \<noteq> [] \<Longrightarrow> isl (atoi (query_get r k)) \<Longrightarrow> isl (int_param r k d)"
  by (simp add: int_param_def)

lemma drip_handler_invalid:
  assumes "(\<exists>k \<in> {''duration'', ''delay'', ''numbytes'', ''code''}. query_get r k \<noteq> [] \<and> isl (atoi (query_get r k)))
      \<or> (\<exists>k \<in> {''duration'', ''delay'', ''numbytes''}. \<exists>v. atoi (query_get r k) = Inr v \<and> v < 0)
      \<or> (\<exists>v. atoi (query_get r ''numbytes'') = Inr v \<and> MaxBodySize h < v)
      \<or> (\<exists>d dl. atoi (query_get r ''duration'') = Inr d \<and> atoi (query_get r ''delay'') = Inr dl
                \<and> MaxDuration h < (d + dl) * second)
      \<or> (\<exists>c. atoi (query_get r ''code'') = Inr c \<and> (c < 100 \<or> 599 < c))"
  shows "drip_handler h r = http_error ''Invalid parameters'' 400"
proof -
  have sec: "0 < second" by (simp add: second_def)
  obtain a b c e where q: "int_param r ''duration'' (DripDuration (DefaultParams h) div second) = a"
    "int_param r ''delay'' (DripDelay (DefaultParams h) div second) = b"
    "int_param r ''numbytes'' (DripNumBytes (DefaultParams h)) = c" "int_param r ''code'' 200 = e" by blast
  have "\<not> (\<exists>ds dl nb cd. a = Inr ds \<and> b = Inr dl \<and> c = Inr nb \<and> e = Inr cd
           \<and> \<not> (ds * second < 0 \<or> dl * second < 0 \<or> nb < 0 \<or> MaxBodySize h < nb
                \<or> MaxDuration h < ds * second + dl * second \<or> cd < 100 \<or> 599 < cd))"
  proof
    assume "\<exists>ds dl nb cd. a = Inr ds \<and> b = Inr dl \<and> c = Inr nb \<and> e = Inr cd
           \<and> \<not> (ds * second < 0 \<or> dl * second < 0 \<or> nb < 0 \<or> MaxBodySize h < nb
                \<or> MaxDuration h < ds * second + dl * second \<or> cd < 100 \<or> 599 < cd)"
    then obtain ds dl nb cd where v: "a = Inr ds" "b = Inr dl" "c = Inr nb" "e = Inr cd"
      and ok: "\<not> (ds * second < 0 \<or> dl * second < 0 \<or> nb < 0 \<or> MaxBodySize h < nb
                \<or> MaxDuration h < ds * second + dl * second \<or> cd < 100 \<or> 599 < cd)" by blast
    have g: "\<And>k d w. atoi (query_get r k) = Inr w \<Longrightarrow> int_param r k d = Inr w" by (rule int_param_given)
    from assms show False
    proof (elim disjE)
      assume "\<exists>k \<in> {''duration'', ''delay'', ''numbytes'', ''code''}. query_get r k \<noteq> [] \<and> isl (atoi (query_get r k))"
      then show False
        using int_param_malformed [of r "''duration''" "DripDuration (DefaultParams h) div second"]
          int_param_malformed [of r "''delay''" "DripDelay (DefaultParams h) div second"]
          int_param_malformed [of r "''numbytes''" "DripNumBytes (DefaultParams h)"]
          int_param_malformed [of r "''code''" 200] q v by auto
    next
      assume "\<exists>k \<in> {''duration'', ''delay'', ''numbytes''}. \<exists>w. atoi (query_get r k) = Inr w \<and> w < 0"
      then show False using g q v ok sec by (auto simp: mult_less_0_iff)
    next
      assume "\<exists>w. atoi (query_get r ''numbytes'') = Inr w \<and> MaxBodySize h < w"
      then show False using g q v ok by auto
    next
      assume "\<exists>d dl. atoi (query_get r ''duration'') = Inr d \<and> atoi (query_get r ''delay'') = Inr dl
                \<and> MaxDuration h < (d + dl) * second"
      then show False using g q v ok by (auto simp: distrib_right)
    next
      assume "\<exists>w. atoi (query_get r ''code'') = Inr w \<and> (w < 100 \<or> 599 < w)"
      then show False using g q v ok by auto
    qed
  qed
  then show ?thesis
    unfolding drip_handler_def q by (auto simp: Let_def split: sum.splits)
qed

text \<open>C24: \<open>/drip\<close> through the whole handler refuses a parameter that is not a
  number, a negative duration, delay or byte count, more bytes than
  \<open>MaxBodySize\<close>, a duration and delay beyond \<open>MaxDuration\<close>, or a code outside
  100-599, with 400 and the diagnostic only: no byte of the drip is written and
  no time passes, whatever the cancellation.\<close>

theorem drip_rejects_invalid:
  assumes "serves_modelled h ep" and "req_method r = ''GET''"
    and "int (length (req_body r)) \<le> MaxBodySize h" and "req_path r = ''/drip''"
    and "(\<exists>k \<in> {''duration'', ''delay'', ''numbytes'', ''code''}. query_get r k \<noteq> [] \<and> isl (atoi (query_get r k)))
      \<or> (\<exists>k \<in> {''duration'', ''delay'', ''numbytes''}. \<exists>v. atoi (query_get r k) = Inr v \<and> v < 0)
      \<or> (\<exists>v. atoi (query_get r ''numbytes'') = Inr v \<and> MaxBodySize h < v)
      \<or> (\<exists>d dl. atoi (query_get r ''duration'') = Inr d \<and> atoi (query_get r ''delay'') = Inr dl
                \<and> MaxDuration h < (d + dl) * second)
      \<or> (\<exists>c. atoi (query_get r ''code'') = Inr c \<and> (c < 100 \<or> 599 < c))"
  shows "resp_status (resp_of h ep r) = 400
    \<and> resp_writes (resp_of h ep r) = [(0, ''Invalid parameters'' @ [CHR 0x0A])]
    \<and> resp_elapsed (resp_of h ep r) = 0"
proof -
  have "resp_of h ep r = add_headers (cors_headers r) (drip_handler h r)"
    using handle_through_stack [of r "''/drip''" Drip h ep] assms(1-4) route_drip
    by (simp add: serves_modelled_def)
  then show ?thesis using drip_handler_invalid [OF assms(5)] by (simp add: add_headers_def http_error_def)
qed

theorem drip_rejects_invalid_witness:
  "resp_status (resp_of (new_httpbin []) (modelled_endpoints (new_httpbin []))
      ((test_req [])\<lparr>req_path := ''/drip'', req_query := [(''numbytes'', [''2000000''])]\<rparr>)) = 400"
proof -
  let ?r = "(test_req [])\<lparr>req_path := ''/drip'', req_query := [(''numbytes'', [''2000000''])]\<rparr>"
  have "req_method ?r = ''GET''" "int (length (req_body ?r)) \<le> MaxBodySize (new_httpbin [])"
    "req_path ?r = ''/drip''" by (simp_all add: test_req_def example_config)
  moreover have "atoi (query_get ?r ''numbytes'') = Inr 2000000 \<and> MaxBodySize (new_httpbin []) < 2000000"
    by (simp add: query_get_def strconv_eval example_config)
  ultimately show ?thesis using drip_rejects_invalid [OF serves_modelled_endpoints, of ?r] by blast
qed

subsection \<open>Termination of the redirect client\<close>

lemma client_follow_get:
  assumes "serves_modelled h ep" and "req_method r = ''GET''"
    and "int (length (req_body r)) \<le> MaxBodySize h"
  shows "client_follow h ep (r\<lparr>req_path := ''/get''\<rparr>)
       = Some (r\<lparr>req_path := ''/get''\<rparr>, resp_of h ep (r\<lparr>req_path := ''/get''\<rparr>))"
proof -
  have "resp_status (resp_of h ep (r\<lparr>req_path := ''/get''\<rparr>)) = 200"
    using get_through_stack [OF assms(1), of "r\<lparr>req_path := ''/get''\<rparr>"] assms(2,3)
    by (simp add: get_handler_def json_response_def)
  then show ?thesis by (subst client_follow.simps) (simp add: Let_def)
qed

lemma client_follow_relative:
  assumes "serves_modelled h ep" and "req_method r = ''GET''"
    and "int (length (req_body r)) \<le> MaxBodySize h" and "1 \<le> m" and "is_int64 (int m)"
  shows "client_follow h ep (r\<lparr>req_path := ''/relative-redirect/'' @ itoa (int m)\<rparr>)
       = Some (r\<lparr>req_path := ''/get''\<rparr>, resp_of h ep (r\<lparr>req_path := ''/get''\<rparr>))"
  using assms(4,5)
proof (induction m)
  case 0
  then show ?case by simp
next
  case (Suc m)
  note hop = relative_hop [OF assms(1-3), of "int (Suc m)"]
  have step: "client_follow h ep (r\<lparr>req_path := ''/relative-redirect/'' @ itoa (int (Suc m))\<rparr>)
      = client_follow h ep (r\<lparr>req_path := (if m = 0 then ''/get'' else ''/relative-redirect/'' @ itoa (int m))\<rparr>)"
    using hop Suc.prems by (subst client_follow.simps) (simp add: Let_def)
  show ?case
  proof (cases "m = 0")
    case True
    with step client_follow_get [OF assms(1-3)] show ?thesis by simp
  next
    case False
    then have "1 \<le> m" by simp
    moreover have "is_int64 (int m)"
      using Suc.prems(2) by (simp add: is_int64_def int64_min_def int64_max_def)
    ultimately show ?thesis using step Suc.IH False by simp
  qed
qed

lemma split_on_two: "c \<in> set s \<Longrightarrow> 2 \<le> length (split_on c s)"
proof -
  assume "c \<in> set s"
  then obtain xs ys where "s = xs @ c # ys" "c \<notin> set xs" by (metis split_list_first)
  moreover have "split_on c ys \<noteq> []" by (induction ys) (auto split: list.splits)
  ultimately show ?thesis by (simp add: split_on_append_sep Suc_le_eq)
qed

lemma route_redirect_any: "route (''/redirect/'' @ s) = Routed ''/redirect/'' (Handle Redirect)"
  unfolding route_def httpbin_mux_value mux_handler_def should_redirect_def mux_match_def
  by (cases "s = []") (simp_all add: route_table_def)

text \<open>What \<open>/redirect/\<close> followed by any text answers: not found for another
  number of segments, a client error for a count that is not a positive
  \<open>int64\<close>, and otherwise one hop down the chain.\<close>

lemma redirect_any_step:
  fixes s :: string
  assumes "serves_modelled h ep" and "req_method r = ''GET''"
    and "int (length (req_body r)) \<le> MaxBodySize h" and "query_get r ''absolute'' \<noteq> ''true''"
  defines "r' \<equiv> r\<lparr>req_path := ''/redirect/'' @ s\<rparr>"
  shows "(CHR ''/'' \<in> set s \<longrightarrow> resp_status (resp_of h ep r') = 404)
    \<and> (CHR ''/'' \<notin> set s \<longrightarrow> (\<forall>n. atoi s \<noteq> Inr n \<or> n < 1) \<longrightarrow> resp_status (resp_of h ep r') = 400)
    \<and> (CHR ''/'' \<notin> set s \<longrightarrow> atoi s = Inr n \<longrightarrow> 1 \<le> n \<longrightarrow>
         resp_status (resp_of h ep r') = 302 \<and> is_int64 n
       \<and> header_get (resp_header (resp_of h ep r')) ''Location''
           = (if n - 1 < 1 then ''/get'' else ''/relative-redirect/'' @ itoa (n - 1)))"
proof -
  have parts: "path_parts r' = [] # ''redirect'' # split_on CHR ''/'' s"
    by (simp add: r'_def path_parts_def split_on_append_sep [of _ "''redirect''"])
  have "resp_of h ep r' = add_headers (cors_headers r') (redirect_handler r')"
    using handle_through_stack [of r' "''/redirect/''" Redirect h ep] assms(1-3) route_redirect_any
    by (simp add: r'_def serves_modelled_def)
  moreover have "redirect_handler r' = do_redirect True r'"
    using assms(4) by (simp add: r'_def redirect_handler_def query_get_def)
  ultimately have st: "resp_of h ep r' = add_headers (cors_headers r') (do_redirect True r')" by simp
  show ?thesis
  proof (intro conjI; intro impI)
    assume "CHR ''/'' \<in> set s"
    then have "length (path_parts r') \<noteq> 3" using split_on_two [of "CHR ''/''" s] parts by simp
    then show "resp_status (resp_of h ep r') = 404"
      using st by (simp add: do_redirect_def add_headers_def http_error_def)
  next
    assume "CHR ''/'' \<notin> set s" "\<forall>n. atoi s \<noteq> Inr n \<or> n < 1"
    moreover have "path_parts r' = [[], ''redirect'', s]" using parts \<open>CHR ''/'' \<notin> set s\<close>
      by (simp add: split_on_no_sep)
    ultimately show "resp_status (resp_of h ep r') = 400"
      using st by (auto simp: do_redirect_def add_headers_def http_error_def split: sum.splits)
  next
    assume a: "CHR ''/'' \<notin> set s" "atoi s = Inr n" "1 \<le> n"
    then have p: "path_parts r' = [[], ''redirect'', s]" using parts by (simp add: split_on_no_sep)
    have "is_int64 n" using a(2) parse_int_range by (simp add: atoi_parse_int)
    moreover have "do_redirect True r' = redirect_response
        (if n - 1 < 1 then ''/get'' else ''/relative-redirect/'' @ itoa (n - 1)) 302"
      using p a by (simp add: do_redirect_def redirect_location_def Let_def)
    ultimately show "resp_status (resp_of h ep r') = 302 \<and> is_int64 n
       \<and> header_get (resp_header (resp_of h ep r')) ''Location''
           = (if n - 1 < 1 then ''/get'' else ''/relative-redirect/'' @ itoa (n - 1))"
      using st by (simp add: add_headers_def redirect_response_def header_get_def canonical_location)
  qed
qed

text \<open>C10: a client that follows redirects from \<open>/redirect/\<close> followed by any
  text whatever (with GET, a body within the limit, no \<open>absolute=true\<close>)
  stops: at \<open>/get\<close> with 200 when the text is a positive count, and otherwise at
  once with the client error (400) or not found (404) that ends the chain. The
  chain has no cycle, whatever the count's spelling (\<open>05\<close>, \<open>+3\<close>), range or
  segments.\<close>

theorem redirect_client_terminates:
  assumes "serves_modelled h ep" and "req_method r = ''GET''"
    and "int (length (req_body r)) \<le> MaxBodySize h" and "query_get r ''absolute'' \<noteq> ''true''"
  shows "\<exists>r' resp. client_follow h ep (r\<lparr>req_path := ''/redirect/'' @ s\<rparr>) = Some (r', resp)
           \<and> resp_status resp \<notin> {301, 302, 303, 307, 308}
           \<and> ((resp_status resp = 200 \<and> req_path r' = ''/get'')
              \<or> (resp_status resp \<in> {400, 404} \<and> req_path r' = ''/redirect/'' @ s))"
proof -
  let ?r = "r\<lparr>req_path := ''/redirect/'' @ s\<rparr>"
  note step = redirect_any_step [OF assms, of s]
  have stop: "client_follow h ep ?r = Some (?r, resp_of h ep ?r)"
    if "resp_status (resp_of h ep ?r) \<in> {400, 404}"
    using that by (subst client_follow.simps) (auto simp: Let_def)
  have get: "client_follow h ep (r\<lparr>req_path := ''/get''\<rparr>) = Some (r\<lparr>req_path := ''/get''\<rparr>, resp_of h ep (r\<lparr>req_path := ''/get''\<rparr>))
      \<and> resp_status (resp_of h ep (r\<lparr>req_path := ''/get''\<rparr>)) = 200"
    using client_follow_get [OF assms(1-3)] get_through_stack [OF assms(1), of "r\<lparr>req_path := ''/get''\<rparr>"] assms(2,3)
    by (simp add: get_handler_def json_response_def)
  show ?thesis
  proof (cases "CHR ''/'' \<notin> set s \<and> (\<exists>n. atoi s = Inr n \<and> 1 \<le> n)")
    case False
    then have "resp_status (resp_of h ep ?r) \<in> {400, 404}" using step by (cases "CHR ''/'' \<in> set s") auto
    then show ?thesis using stop by auto
  next
    case True
    then obtain n where a: "CHR ''/'' \<notin> set s" "atoi s = Inr n" "1 \<le> n" by blast
    with step have h: "resp_status (resp_of h ep ?r) = 302" "is_int64 n"
      "header_get (resp_header (resp_of h ep ?r)) ''Location''
         = (if n - 1 < 1 then ''/get'' else ''/relative-redirect/'' @ itoa (n - 1))" by auto
    have s1: "client_follow h ep ?r
        = client_follow h ep (r\<lparr>req_path := (if n - 1 < 1 then ''/get'' else ''/relative-redirect/'' @ itoa (n - 1))\<rparr>)"
      using h by (subst client_follow.simps) (simp add: Let_def)
    have "client_follow h ep ?r = Some (r\<lparr>req_path := ''/get''\<rparr>, resp_of h ep (r\<lparr>req_path := ''/get''\<rparr>))"
    proof (cases "n - 1 < 1")
      case True
      then show ?thesis using s1 get by simp
    next
      case False
      then have "1 \<le> nat (n - 1)" "is_int64 (int (nat (n - 1)))" "int (nat (n - 1)) = n - 1"
        using h(2) by (simp_all add: is_int64_def int64_min_def int64_max_def)
      then show ?thesis using s1 False client_follow_relative [OF assms(1-3), of "nat (n - 1)"] by simp
    qed
    then show ?thesis using get by auto
  qed
qed

theorem redirect_client_terminates_witness:
  "(\<exists>r' resp. client_follow (new_httpbin []) (modelled_endpoints (new_httpbin []))
      ((test_req [])\<lparr>req_path := ''/redirect/'' @ ''3''\<rparr>) = Some (r', resp)
    \<and> resp_status resp \<notin> {301, 302, 303, 307, 308})
   \<and> (\<exists>r' resp. client_follow (new_httpbin []) (modelled_endpoints (new_httpbin []))
      ((test_req [])\<lparr>req_path := ''/redirect/'' @ ''-1''\<rparr>) = Some (r', resp)
    \<and> resp_status resp \<notin> {301, 302, 303, 307, 308})"
proof -
  have "req_method (test_req []) = ''GET''" "query_get (test_req []) ''absolute'' \<noteq> ''true''"
    by (simp_all add: test_req_def query_get_def)
  with redirect_client_terminates [OF serves_modelled_endpoints _ example_request_fits, of "[]"]
  show ?thesis by blast
qed

text \<open>C38: \<open>/status/\<close> followed by anything else is an error, for every method
  but \<open>OPTIONS\<close>: more path segments are not found, and a last segment that is
  not a decimal \<open>int64\<close> or is a number outside 100-599 is the client error
  \<open>Invalid status\<close> with no time spent.\<close>

theorem status_rejects_invalid:
  assumes "serves_modelled h ep" and "req_method r \<noteq> ''OPTIONS''"
    and "int (length (req_body r)) \<le> MaxBodySize h"
    and "req_path r = ''/status/'' @ s" and "s \<noteq> []"
  shows "(CHR ''/'' \<in> set s \<longrightarrow> resp_status (resp_of h ep r) = 404)
    \<and> (CHR ''/'' \<notin> set s \<longrightarrow> (\<forall>c. atoi s = Inr c \<longrightarrow> c < 100 \<or> 599 < c) \<longrightarrow>
         resp_status (resp_of h ep r) = 400 \<and> resp_elapsed (resp_of h ep r) = 0
       \<and> (req_method r \<noteq> ''HEAD'' \<longrightarrow> resp_body (resp_of h ep r) = ''Invalid status'' @ [CHR 0x0A]))"
proof -
  have parts: "path_parts r = [] # ''status'' # split_on CHR ''/'' s"
    using assms(4) by (simp add: path_parts_def split_on_append_sep [of _ "''status''"])
  have st: "resp_of h ep r = (if req_method r = ''HEAD''
      then (add_headers (cors_headers r) (status_handler r))\<lparr>resp_writes := []\<rparr>
      else add_headers (cors_headers r) (status_handler r))"
    using handle_through_stack [of r "''/status/''" Status h ep] assms route_status
    by (simp add: serves_modelled_def)
  show ?thesis
  proof (intro conjI; intro impI)
    assume "CHR ''/'' \<in> set s"
    then have "length (path_parts r) \<noteq> 3" using split_on_two [of "CHR ''/''" s] parts by simp
    then show "resp_status (resp_of h ep r) = 404"
      using st by (simp add: status_handler_def add_headers_def http_error_def)
  next
    assume "CHR ''/'' \<notin> set s" "\<forall>c. atoi s = Inr c \<longrightarrow> c < 100 \<or> 599 < c"
    moreover have "path_parts r = [[], ''status'', s]" using parts \<open>CHR ''/'' \<notin> set s\<close>
      by (simp add: split_on_no_sep)
    ultimately have "status_handler r = http_error ''Invalid status'' 400"
      by (auto simp: status_handler_def split: sum.splits)
    then show "resp_status (resp_of h ep r) = 400 \<and> resp_elapsed (resp_of h ep r) = 0
       \<and> (req_method r \<noteq> ''HEAD'' \<longrightarrow> resp_body (resp_of h ep r) = ''Invalid status'' @ [CHR 0x0A])"
      using st by (simp add: add_headers_def http_error_def resp_body_def)
  qed
qed

theorem status_rejects_invalid_witness:
  "resp_status (resp_of (new_httpbin []) (modelled_endpoints (new_httpbin []))
      ((test_req [])\<lparr>req_path := ''/status/'' @ ''abc''\<rparr>)) = 400
   \<and> resp_status (resp_of (new_httpbin []) (modelled_endpoints (new_httpbin []))
      ((test_req [])\<lparr>req_path := ''/status/'' @ itoa 600\<rparr>)) = 400"
proof -
  let ?h = "new_httpbin []"
  let ?r = "(test_req [])\<lparr>req_path := ''/status/'' @ ''abc''\<rparr>"
  let ?q = "(test_req [])\<lparr>req_path := ''/status/'' @ itoa 600\<rparr>"
  have m: "req_method ?r \<noteq> ''OPTIONS''" "int (length (req_body ?r)) \<le> MaxBodySize ?h"
    "req_method ?q \<noteq> ''OPTIONS''" "int (length (req_body ?q)) \<le> MaxBodySize ?h"
    by (simp_all add: test_req_def example_config)
  have a: "atoi ''abc'' = Inl ErrSyntax" by (simp add: strconv_eval)
  have i: "CHR ''/'' \<notin> set (itoa 600)" "itoa 600 \<noteq> []" "atoi (itoa 600) = Inr 600"
    by code_simp+
  have "resp_status (resp_of ?h (modelled_endpoints ?h) ?r) = 400"
    using status_rejects_invalid [OF serves_modelled_endpoints m(1,2), where s = "''abc''"] a by simp
  moreover have "resp_status (resp_of ?h (modelled_endpoints ?h) ?q) = 400"
    using status_rejects_invalid [OF serves_modelled_endpoints m(3,4), where s = "itoa 600"] i by simp
  ultimately show ?thesis by simp
qed

subsection \<open>Basic authentication\<close>


lemma canonical_www_authenticate:
  "canonical_mime_header_key ''WWW-Authenticate'' = ''Www-Authenticate''"
  by code_simp

lemma canonical_authorization: "canonical_mime_header_key ''Authorization'' = ''Authorization''"
  by code_simp

lemma parts_of_auth_path:
  assumes "CHR ''/'' \<notin> set seg" "CHR ''/'' \<notin> set u" "CHR ''/'' \<notin> set p"
  shows "split_on CHR ''/'' (CHR ''/'' # seg @ CHR ''/'' # u @ CHR ''/'' # p) = [[], seg, u, p]"
  using assms by (simp add: split_on_append_sep split_on_no_sep)

lemma given_credentials_none:
  "header_get (req_header r) ''Authorization'' = [] \<Longrightarrow> given_credentials r = ([], [])"
  by (simp add: given_credentials_def basic_auth_def)

lemma given_credentials_encoded:
  "header_get (req_header r) ''Authorization'' = ''Basic '' @ b64_encode (u @ CHR '':'' # p)
    \<Longrightarrow> CHR '':'' \<notin> set u \<Longrightarrow> given_credentials r = (u, p)"
  using parse_basic_auth_encode [of u p] by (simp add: given_credentials_def basic_auth_def)

lemma given_credentials_user_colon: "given_credentials r = (u, p) \<Longrightarrow> CHR '':'' \<notin> set u"
  by (auto simp: given_credentials_def basic_auth_def Let_def split: if_splits option.splits
      dest: parse_basic_auth_user_colon)

lemma basic_auth_handler_parts:
  assumes "path_parts r = [[], seg, u, p]"
  shows "basic_auth_handler r =
    (let ok = (given_credentials r = (u, p));
         resp = json_response (if ok then 200 else 401)
           (auth_response_json \<lparr>ar_authorized = ok, ar_user = fst (given_credentials r)\<rparr>)
     in if ok then resp
        else resp\<lparr>resp_header := header_set (resp_header resp) ''WWW-Authenticate'' basic_auth_challenge\<rparr>)"
  using assms by (simp add: basic_auth_handler_def auth_matches_def)

lemma basic_auth_through_stack:
  assumes "serves_modelled h ep" and "req_method r = ''GET''"
    and "int (length (req_body r)) \<le> MaxBodySize h"
    and "req_path r = ''/basic-auth/'' @ u @ ''/'' @ p" and "CHR ''/'' \<notin> set u" and "CHR ''/'' \<notin> set p"
  shows "resp_status (resp_of h ep r) = (if given_credentials r = (u, p) then 200 else 401)
    \<and> header_get (resp_header (resp_of h ep r)) ''WWW-Authenticate''
        = (if given_credentials r = (u, p) then '''' else basic_auth_challenge)
    \<and> resp_body (resp_of h ep r) = json_encode (auth_response_json
        \<lparr>ar_authorized = (given_credentials r = (u, p)), ar_user = fst (given_credentials r)\<rparr>)"
proof -
  have "req_path r = CHR ''/'' # ''basic-auth'' @ CHR ''/'' # u @ CHR ''/'' # p" using assms(4) by simp
  then have parts: "path_parts r = [[], ''basic-auth'', u, p]"
    using parts_of_auth_path [of "''basic-auth''" u p] assms(5,6) by (simp add: path_parts_def)
  have "resp_of h ep r = add_headers (cors_headers r) (basic_auth_handler r)"
    using handle_through_stack [of r "''/basic-auth/''" BasicAuth h ep] assms(1-4) route_basic_auth
    by (simp add: serves_modelled_def)
  then show ?thesis
    using basic_auth_handler_parts [OF parts]
    by (simp add: Let_def json_response_def add_headers_def cors_headers_def resp_body_def header_set_def
        header_get_def canonical_www_authenticate del: json_encode.simps)
qed

text \<open>\<open>/hidden-basic-auth/{user}/{passwd}\<close> answers a mismatch with a plain 404,
  so that the endpoint is not seen without the right credentials.\<close>

lemma hidden_basic_auth_through_stack:
  assumes "serves_modelled h ep" and "req_method r = ''GET''"
    and "int (length (req_body r)) \<le> MaxBodySize h"
    and "req_path r = ''/hidden-basic-auth/'' @ u @ ''/'' @ p" and "CHR ''/'' \<notin> set u" and "CHR ''/'' \<notin> set p"
  shows "resp_status (resp_of h ep r) = (if given_credentials r = (u, p) then 200 else 404)
    \<and> (given_credentials r = (u, p) \<longrightarrow>
         resp_body (resp_of h ep r) = json_encode (auth_response_json \<lparr>ar_authorized = True, ar_user = u\<rparr>))
    \<and> header_get (resp_header (resp_of h ep r)) ''WWW-Authenticate'' = ''''"
proof -
  have "req_path r = CHR ''/'' # ''hidden-basic-auth'' @ CHR ''/'' # u @ CHR ''/'' # p" using assms(4) by simp
  then have parts: "path_parts r = [[], ''hidden-basic-auth'', u, p]"
    using parts_of_auth_path [of "''hidden-basic-auth''" u p] assms(5,6) by (simp add: path_parts_def)
  have "resp_of h ep r = add_headers (cors_headers r) (hidden_basic_auth_handler r)"
    using handle_through_stack [of r "''/hidden-basic-auth/''" HiddenBasicAuth h ep] assms(1-4)
      route_hidden_basic_auth
    by (simp add: serves_modelled_def)
  then show ?thesis
    using parts
    by (simp add: hidden_basic_auth_handler_def auth_matches_def json_response_def add_headers_def
        http_error_def resp_body_def header_get_def canonical_www_authenticate cors_headers_def Let_def
        del: json_encode.simps)
qed

text \<open>C29: \<open>/basic-auth/{user}/{passwd}\<close> through the whole handler, for a clean
  path (a non-empty user segment, neither segment \<open>.\<close> or \<open>..\<close>; the model does
  not clean paths). Without credentials the answer is 401 with the \<open>Basic\<close>
  challenge. With \<open>Basic \<close> and the Base64 of \<open>user':passwd'\<close> the answer is 200
  with \<open>authorized: true\<close> and the user when the pair is the one in the path, and
  otherwise 401 with the challenge and \<open>authorized: false\<close> with the given user.
  A user name with a colon is refused whatever the request carries.\<close>

theorem basic_auth_scenario:
  assumes "serves_modelled h ep" and "req_method r = ''GET''"
    and "int (length (req_body r)) \<le> MaxBodySize h"
    and "req_path r = ''/basic-auth/'' @ u @ ''/'' @ p" and "CHR ''/'' \<notin> set u" and "CHR ''/'' \<notin> set p"
    and "u \<noteq> []" and "u \<notin> {''.'', ''..''}" and "p \<notin> {''.'', ''..''}"
  shows "(header_get (req_header r) ''Authorization'' = '''' \<longrightarrow>
            resp_status (resp_of h ep r) = 401
          \<and> header_get (resp_header (resp_of h ep r)) ''WWW-Authenticate'' = ''Basic realm=\"Fake Realm\"'')
    \<and> (header_get (req_header r) ''Authorization'' = ''Basic '' @ b64_encode (u' @ CHR '':'' # p')
         \<and> CHR '':'' \<notin> set u' \<longrightarrow>
            resp_status (resp_of h ep r) = (if (u', p') = (u, p) then 200 else 401)
          \<and> resp_body (resp_of h ep r)
              = json_encode (JObject [(''authorized'', JBool ((u', p') = (u, p))), (''user'', JString u')])
          \<and> ((u', p') \<noteq> (u, p) \<longrightarrow>
               header_get (resp_header (resp_of h ep r)) ''WWW-Authenticate'' = ''Basic realm=\"Fake Realm\"''))
    \<and> (CHR '':'' \<in> set u \<longrightarrow> resp_status (resp_of h ep r) = 401)"
proof -
  note stack = basic_auth_through_stack [OF assms(1-6)]
  have "given_credentials r = (u, p) \<Longrightarrow> CHR '':'' \<notin> set u" by (rule given_credentials_user_colon)
  then show ?thesis
    using stack given_credentials_none [of r] given_credentials_encoded [of r u' p'] assms(7)
    by (auto simp: basic_auth_challenge_def auth_response_json_def)
qed

theorem basic_auth_scenario_witness:
  "resp_status (resp_of (new_httpbin []) (modelled_endpoints (new_httpbin []))
      ((test_req [])\<lparr>req_path := ''/basic-auth/alice/secret''\<rparr>)) = 401
   \<and> resp_status (resp_of (new_httpbin []) (modelled_endpoints (new_httpbin []))
      ((test_req [(''Authorization'', [''Basic '' @ b64_encode ''alice:secret''])])
         \<lparr>req_path := ''/basic-auth/alice/secret''\<rparr>)) = 200"
proof -
  let ?h = "new_httpbin []"
  let ?r1 = "(test_req [])\<lparr>req_path := ''/basic-auth/alice/secret''\<rparr>"
  let ?r2 = "(test_req [(''Authorization'', [''Basic '' @ b64_encode ''alice:secret''])])
               \<lparr>req_path := ''/basic-auth/alice/secret''\<rparr>"
  have fit: "\<And>hd. int (length (req_body ((test_req hd)\<lparr>req_path := ''/basic-auth/alice/secret''\<rparr>)))
      \<le> MaxBodySize ?h"
    by (simp add: test_req_def new_httpbin_def new_defaults_def default_max_body_size_def)
  have path: "\<And>hd. req_path ((test_req hd)\<lparr>req_path := ''/basic-auth/alice/secret''\<rparr>)
      = ''/basic-auth/'' @ ''alice'' @ ''/'' @ ''secret''" by simp
  have get: "\<And>hd. req_method ((test_req hd)\<lparr>req_path := ''/basic-auth/alice/secret''\<rparr>) = ''GET''"
    by (simp add: test_req_def)
  have a1: "header_get (req_header ?r1) ''Authorization'' = ''''"
    by (simp add: test_req_def header_get_def)
  have a2: "header_get (req_header ?r2) ''Authorization'' = ''Basic '' @ b64_encode (''alice'' @ CHR '':'' # ''secret'')"
    by (simp add: test_req_def header_get_def canonical_authorization)
  have seg: "CHR ''/'' \<notin> set ''alice''" "CHR ''/'' \<notin> set ''secret''" "''alice'' \<noteq> []"
    "''alice'' \<notin> {''.'', ''..''}" "''secret'' \<notin> {''.'', ''..''}" by simp_all
  have "CHR '':'' \<notin> set ''alice''" by simp
  then show ?thesis
    using basic_auth_scenario [OF serves_modelled_endpoints get fit path seg, of "[]"]
      basic_auth_scenario [OF serves_modelled_endpoints get fit path seg,
        of "[(''Authorization'', [''Basic '' @ b64_encode ''alice:secret''])]" "''alice''" "''secret''"]
      a1 a2
    by simp
qed

text \<open>C17: \<open>/hidden-basic-auth/{user}/{passwd}\<close> through the whole handler, for a
  clean path: it never sends a challenge. Without credentials, and with the
  encoded credentials of another user or password, the answer is a plain 404,
  as for a path that does not exist; with the credentials of the path it is
  200 with \<open>authorized: true\<close> and the user.\<close>

theorem hidden_basic_auth_hides:
  assumes "serves_modelled h ep" and "req_method r = ''GET''"
    and "int (length (req_body r)) \<le> MaxBodySize h"
    and "req_path r = ''/hidden-basic-auth/'' @ u @ ''/'' @ p" and "CHR ''/'' \<notin> set u" and "CHR ''/'' \<notin> set p"
    and "u \<noteq> []" and "u \<notin> {''.'', ''..''}" and "p \<notin> {''.'', ''..''}"
  shows "header_get (resp_header (resp_of h ep r)) ''WWW-Authenticate'' = ''''
    \<and> (header_get (req_header r) ''Authorization'' = '''' \<longrightarrow> resp_status (resp_of h ep r) = 404)
    \<and> (header_get (req_header r) ''Authorization'' = ''Basic '' @ b64_encode (u' @ CHR '':'' # p')
         \<and> CHR '':'' \<notin> set u' \<longrightarrow>
            resp_status (resp_of h ep r) = (if (u', p') = (u, p) then 200 else 404)
          \<and> ((u', p') = (u, p) \<longrightarrow>
               resp_body (resp_of h ep r) = json_encode (JObject [(''authorized'', JBool True), (''user'', JString u)])))"
  using hidden_basic_auth_through_stack [OF assms(1-6)] given_credentials_none [of r]
    given_credentials_encoded [of r u' p'] assms(7)
  by (auto simp: auth_response_json_def)

theorem hidden_basic_auth_hides_witness:
  "resp_status (resp_of (new_httpbin []) (modelled_endpoints (new_httpbin []))
      ((test_req [])\<lparr>req_path := ''/hidden-basic-auth/alice/secret''\<rparr>)) = 404"
proof -
  let ?r = "(test_req [])\<lparr>req_path := ''/hidden-basic-auth/alice/secret''\<rparr>"
  have "req_method ?r = ''GET''" "int (length (req_body ?r)) \<le> MaxBodySize (new_httpbin [])"
    "req_path ?r = ''/hidden-basic-auth/'' @ ''alice'' @ ''/'' @ ''secret''"
    "CHR ''/'' \<notin> set ''alice''" "CHR ''/'' \<notin> set ''secret''" "''alice'' \<noteq> []"
    "''alice'' \<notin> {''.'', ''..''}" "''secret'' \<notin> {''.'', ''..''}"
    by (simp_all add: test_req_def example_config)
  moreover have "header_get (req_header ?r) ''Authorization'' = ''''" by (simp add: test_req_def header_get_def)
  ultimately show ?thesis using hidden_basic_auth_hides [OF serves_modelled_endpoints] by blast
qed

subsection \<open>Streams and entity tags\<close>


lemma stream_through_stack:
  assumes "serves_modelled h ep" and "req_method r = ''GET''"
    and "int (length (req_body r)) \<le> MaxBodySize h" and "req_path r = ''/stream/'' @ itoa n"
    and "is_int64 n"
  shows "resp_status (resp_of h ep r) = 200
    \<and> resp_writes (resp_of h ep r) = map (\<lambda>i. (0, stream_line r i)) [0..<stream_count n]"
proof -
  have "split_on CHR ''/'' (CHR ''/'' # ''stream'' @ CHR ''/'' # itoa n) = [[], ''stream'', itoa n]"
    using slash_notin_itoa [of n] by (simp add: split_on_append_sep split_on_no_sep)
  then have parts: "path_parts r = [[], ''stream'', itoa n]" using assms(4) by (simp add: path_parts_def)
  have "resp_of h ep r = add_headers (cors_headers r) (stream_handler r)"
    using handle_through_stack [of r "''/stream/''" Stream h ep] assms(1-4) route_stream
    by (simp add: serves_modelled_def)
  then show ?thesis
    using parts atoi_itoa [OF assms(5)]
    by (simp add: stream_handler_def add_headers_def empty_response_def)
qed

text \<open>C3: \<open>GET /stream/n\<close> through the whole handler answers 200 with one write per
  record, at most 100 and at least one; the body cut at its line feeds is the
  sequence of JSON records, none with a raw line feed, whose \<open>id\<close> fields are
  0, 1, ... in order. For \<open>1 \<le> n \<le> 100\<close> there are exactly \<open>n\<close> records.\<close>

theorem stream_records:
  assumes "serves_modelled h ep" and "req_method r = ''GET''"
    and "int (length (req_body r)) \<le> MaxBodySize h" and "req_path r = ''/stream/'' @ itoa n"
    and "is_int64 n"
  shows "resp_status (resp_of h ep r) = 200
    \<and> length (resp_writes (resp_of h ep r)) = stream_count n
    \<and> 1 \<le> stream_count n \<and> stream_count n \<le> 100
    \<and> (1 \<le> n \<and> n \<le> 100 \<longrightarrow> int (stream_count n) = n)
    \<and> split_on CHR 0x0A (resp_body (resp_of h ep r))
        = map (\<lambda>i. json_encode (stream_response_json (stream_record r i))) [0..<stream_count n] @ [[]]
    \<and> (\<forall>i < stream_count n.
         json_field ''id'' (stream_response_json (stream_record r i)) = Some (JNumber (int i)))"
proof -
  note st = stream_through_stack [OF assms]
  have lines: "resp_body (resp_of h ep r)
      = concat (map (\<lambda>x. x @ [CHR 0x0A]) (map (\<lambda>i. json_encode (stream_response_json (stream_record r i)))
          [0..<stream_count n]))"
    using st by (simp add: resp_body_def stream_line_def comp_def)
  have "split_on CHR 0x0A (resp_body (resp_of h ep r))
      = map (\<lambda>i. json_encode (stream_response_json (stream_record r i))) [0..<stream_count n] @ [[]]"
    unfolding lines by (rule split_on_lines) (auto simp: lf_notin_json_encode)
  moreover have "1 \<le> stream_count n \<and> stream_count n \<le> 100
      \<and> (1 \<le> n \<and> n \<le> 100 \<longrightarrow> int (stream_count n) = n)"
    by (auto simp: stream_count_def)
  ultimately show ?thesis
    using st by (simp add: stream_response_json_def stream_record_def json_field_def)
qed

theorem stream_records_witness:
  "length (resp_writes (resp_of (new_httpbin []) (modelled_endpoints (new_httpbin []))
      ((test_req [])\<lparr>req_path := ''/stream/'' @ itoa 3\<rparr>))) = 3"
proof -
  let ?r = "(test_req [])\<lparr>req_path := ''/stream/'' @ itoa 3\<rparr>"
  have "req_method ?r = ''GET''" "int (length (req_body ?r)) \<le> MaxBodySize (new_httpbin [])"
    "req_path ?r = ''/stream/'' @ itoa 3" "is_int64 3"
    by (simp_all add: test_req_def example_config is_int64_def int64_min_def int64_max_def)
  from stream_records [OF serves_modelled_endpoints this]
  show ?thesis by (simp add: stream_count_def)
qed

lemma canonical_etag: "canonical_mime_header_key ''ETag'' = ''Etag''"
  by code_simp

lemma canonical_if_none_match: "canonical_mime_header_key ''If-None-Match'' = ''If-None-Match''"
  by code_simp

lemma etag_through_stack:
  assumes "serves_modelled h ep" and "req_method r = ''GET''"
    and "int (length (req_body r)) \<le> MaxBodySize h" and "req_path r = ''/etag/'' @ t"
    and "CHR ''/'' \<notin> set t"
  shows "resp_of h ep r = add_headers (cors_headers r)
    (if check_if_none_match r t = Some False
     then empty_response\<lparr>resp_status := 304, resp_header := header_set [] ''ETag'' t\<rparr>
     else (json_response 200 (get_envelope r))\<lparr>resp_header :=
            header_set (resp_header (json_response 200 (get_envelope r))) ''ETag'' t\<rparr>)"
proof -
  have "path_parts r = [[], ''etag'', t]"
    using assms(4,5) by (simp add: path_parts_def split_on_append_sep split_on_no_sep)
  moreover have "resp_of h ep r = add_headers (cors_headers r) (etag_handler r)"
    using handle_through_stack [of r "''/etag/''" ETag h ep] assms(1-4) route_etag
    by (simp add: serves_modelled_def)
  ultimately show ?thesis using assms(2) by (simp add: etag_handler_def Let_def)
qed

text \<open>C4: \<open>GET /etag/{tag}\<close> through the whole handler. Without
  \<open>If-None-Match\<close> the answer is 200 with the \<open>/get\<close> envelope and the tag in
  \<open>ETag\<close>; when the header is \<open>*\<close>, or the tag is a valid quoted entity tag and
  the header is that tag or its weak form \<open>W/tag\<close>, the answer is 304 with the
  tag and no body.\<close>

theorem etag_conditional:
  assumes "serves_modelled h ep" and "req_method r = ''GET''"
    and "int (length (req_body r)) \<le> MaxBodySize h" and "req_path r = ''/etag/'' @ t"
    and "CHR ''/'' \<notin> set t"
  shows "(header_get (req_header r) ''If-None-Match'' = '''' \<longrightarrow>
            resp_status (resp_of h ep r) = 200 \<and> resp_body (resp_of h ep r) = json_encode (get_envelope r)
          \<and> header_get (resp_header (resp_of h ep r)) ''ETag'' = t)
    \<and> (header_get (req_header r) ''If-None-Match'' = ''*''
       \<or> (\<exists>x. t = CHR 0x22 # x @ [CHR 0x22] \<and> list_all etag_char x
             \<and> header_get (req_header r) ''If-None-Match'' \<in> {t, ''W/'' @ t}) \<longrightarrow>
            resp_status (resp_of h ep r) = 304 \<and> resp_body (resp_of h ep r) = []
          \<and> header_get (resp_header (resp_of h ep r)) ''ETag'' = t)"
proof (rule conjI; rule impI)
  assume "header_get (req_header r) ''If-None-Match'' = ''''"
  then have "check_if_none_match r t = None" by (simp add: check_if_none_match_def)
  then show "resp_status (resp_of h ep r) = 200 \<and> resp_body (resp_of h ep r) = json_encode (get_envelope r)
          \<and> header_get (resp_header (resp_of h ep r)) ''ETag'' = t"
    using etag_through_stack [OF assms]
    by (simp add: json_response_def add_headers_def resp_body_def header_set_def header_get_def
        canonical_etag del: json_encode.simps)
next
  assume m: "header_get (req_header r) ''If-None-Match'' = ''*''
       \<or> (\<exists>x. t = CHR 0x22 # x @ [CHR 0x22] \<and> list_all etag_char x
             \<and> header_get (req_header r) ''If-None-Match'' \<in> {t, ''W/'' @ t})"
  have "check_if_none_match r t = Some False"
  proof (cases "header_get (req_header r) ''If-None-Match'' = ''*''")
    case True
    then show ?thesis using inm_loop_self(3) by (simp add: check_if_none_match_def trim_string_def
        is_ascii_space_def)
  next
    case False
    then obtain x where "t = CHR 0x22 # x @ [CHR 0x22]" "list_all etag_char x"
      "header_get (req_header r) ''If-None-Match'' \<in> {t, ''W/'' @ t}" using m by blast
    then show ?thesis using inm_loop_self(1,2) [of x t] by (auto simp: check_if_none_match_def)
  qed
  then show "resp_status (resp_of h ep r) = 304 \<and> resp_body (resp_of h ep r) = []
          \<and> header_get (resp_header (resp_of h ep r)) ''ETag'' = t"
    using etag_through_stack [OF assms]
    by (simp add: empty_response_def add_headers_def resp_body_def header_set_def header_get_def
        canonical_etag)
qed

theorem etag_conditional_witness:
  "resp_status (resp_of (new_httpbin []) (modelled_endpoints (new_httpbin []))
      ((test_req [(''If-None-Match'', [''\"abc\"''])])\<lparr>req_path := ''/etag/\"abc\"''\<rparr>)) = 304
   \<and> resp_status (resp_of (new_httpbin []) (modelled_endpoints (new_httpbin []))
      ((test_req [])\<lparr>req_path := ''/etag/\"abc\"''\<rparr>)) = 200"
proof -
  have fit: "\<And>hd. int (length (req_body ((test_req hd)\<lparr>req_path := ''/etag/\"abc\"''\<rparr>)))
      \<le> MaxBodySize (new_httpbin [])"
    by (simp add: test_req_def example_config)
  have path: "\<And>hd. req_path ((test_req hd)\<lparr>req_path := ''/etag/\"abc\"''\<rparr>) = ''/etag/'' @ ''\"abc\"''"
    by simp
  have get: "\<And>hd. req_method ((test_req hd)\<lparr>req_path := ''/etag/\"abc\"''\<rparr>) = ''GET''"
    by (simp add: test_req_def)
  have h1: "header_get (req_header ((test_req [(''If-None-Match'', [''\"abc\"''])])\<lparr>req_path := ''/etag/\"abc\"''\<rparr>))
      ''If-None-Match'' = ''\"abc\"''"
    by (simp add: test_req_def header_get_def canonical_if_none_match)
  have h2: "header_get (req_header ((test_req [])\<lparr>req_path := ''/etag/\"abc\"''\<rparr>)) ''If-None-Match'' = ''''"
    by (simp add: test_req_def header_get_def)
  have q: "''\"abc\"'' = CHR 0x22 # ''abc'' @ [CHR 0x22] \<and> list_all etag_char ''abc''"
    by (simp add: etag_char_def)
  have "CHR ''/'' \<notin> set ''\"abc\"''" by simp
  then show ?thesis
    using etag_conditional [OF serves_modelled_endpoints get fit path, of "[(''If-None-Match'', [''\"abc\"''])]"]
      etag_conditional [OF serves_modelled_endpoints get fit path, of "[]"] h1 h2 q
    by blast
qed

end
