(* ===== verification/Startup.thy ===== *)
theory Startup
  imports Config Strconv
begin

text \<open>
  Start-up of the process (\<open>src/cmd/httpbin/main.go\<close>, lines 21-109 and
  122): reading the configuration from the parsed flags and the environment,
  the options given to \<open>app.New\<close>, the listen address, and the shutdown
  timeout. The flag parser is not modelled: its result is the \<open>flags\<close>
  record. \<open>time.ParseDuration\<close> is a parameter \<open>pd\<close> of the loader (its
  fractional part is computed in \<open>float64\<close>); \<open>os.Hostname\<close> is its result,
  \<open>None\<close> for a failed lookup.
\<close>

subsection \<open>Configuration\<close>

type_synonym env = "(string \<times> string) list"

text \<open>\<open>os.Getenv\<close>: the value, or the empty string when the variable is unset.\<close>

definition getenv :: "env \<Rightarrow> string \<Rightarrow> string" where
  "getenv e k = (case map_of e k of Some v \<Rightarrow> v | None \<Rightarrow> '''')"

definition default_port :: int where "default_port = 8080"

text \<open>The package variables after \<open>flag.Parse()\<close>.\<close>

record flags =
  flag_port :: int
  flag_max_body_size :: int64
  flag_max_duration :: duration
  flag_use_real_hostname :: bool

text \<open>The reasons \<open>main\<close> exits with status 1 before serving.\<close>

datatype startup_error = InvalidEnv string | HostnameLookupFailed

type_synonym duration_parser = "string \<Rightarrow> string + duration"

text \<open>One override: the environment value is read only when the flag still has
  its built-in default and the variable is non-empty; a value that does not
  parse ends the process.\<close>

definition env_override ::
  "('a \<Rightarrow> bool) \<Rightarrow> (string \<Rightarrow> 'e + 'a) \<Rightarrow> env \<Rightarrow> string \<Rightarrow> 'a \<Rightarrow> startup_error + 'a" where
  "env_override is_default parse e var v =
     (if is_default v \<and> getenv e var \<noteq> '''' then
        (case parse (getenv e var) of Inl _ \<Rightarrow> Inl (InvalidEnv var) | Inr x \<Rightarrow> Inr x)
      else Inr v)"

text \<open>\<open>main\<close>, lines 44-74: \<open>MAX_BODY_SIZE\<close>, then \<open>MAX_DURATION\<close>, then
  \<open>PORT\<close>, the first failure ending the process; then \<open>USE_REAL_HOSTNAME\<close>,
  which turns the flag on when it is \<open>1\<close> or \<open>true\<close>.\<close>

definition load_flags :: "duration_parser \<Rightarrow> env \<Rightarrow> flags \<Rightarrow> startup_error + flags" where
  "load_flags pd e fl =
     (case env_override (\<lambda>v. v = default_max_body_size) parse_int e ''MAX_BODY_SIZE'' (flag_max_body_size fl) of
        Inl err \<Rightarrow> Inl err
      | Inr mbs \<Rightarrow>
     (case env_override (\<lambda>v. v = default_max_duration) pd e ''MAX_DURATION'' (flag_max_duration fl) of
        Inl err \<Rightarrow> Inl err
      | Inr md \<Rightarrow>
     (case env_override (\<lambda>v. v = default_port) atoi e ''PORT'' (flag_port fl) of
        Inl err \<Rightarrow> Inl err
      | Inr p \<Rightarrow>
        (let u = getenv e ''USE_REAL_HOSTNAME'' in
         Inr \<lparr>flag_port = p, flag_max_body_size = mbs, flag_max_duration = md,
              flag_use_real_hostname = (flag_use_real_hostname fl \<or> u = ''1'' \<or> u = ''true'')\<rparr>))))"

text \<open>Lines 89-102: the options given to \<open>app.New\<close>, the real hostname appended
  when it is asked for (a failed lookup ends the process).\<close>

definition startup_options :: "flags \<Rightarrow> string option \<Rightarrow> startup_error + option_func list" where
  "startup_options fl host =
     (let opts = [WithMaxBodySize (flag_max_body_size fl), WithMaxDuration (flag_max_duration fl),
                  WithObserver (StdLogObserver ''stderr'')] in
      if flag_use_real_hostname fl then
        (case host of None \<Rightarrow> Inl HostnameLookupFailed | Some hn \<Rightarrow> Inr (opts @ [WithHostname hn]))
      else Inr opts)"

text \<open>Line 104: \<open>net.JoinHostPort("0.0.0.0", strconv.Itoa(port))\<close>.\<close>

definition listen_addr :: "int \<Rightarrow> string" where
  "listen_addr p = ''0.0.0.0:'' @ itoa p"

text \<open>The configured server: the HTTPBin value and the listen address.\<close>

definition startup ::
  "duration_parser \<Rightarrow> env \<Rightarrow> flags \<Rightarrow> string option \<Rightarrow> startup_error + (httpbin \<times> string)" where
  "startup pd e fl host =
     (case load_flags pd e fl of
        Inl err \<Rightarrow> Inl err
      | Inr fl' \<Rightarrow> (case startup_options fl' host of
                     Inl err \<Rightarrow> Inl err
                   | Inr opts \<Rightarrow> Inr (new_httpbin opts, listen_addr (flag_port fl'))))"

text \<open>Line 122: \<open>shutdownTimeout := maxDuration + 1*time.Second\<close>, in
  \<open>time.Duration\<close>, a signed 64-bit count of nanoseconds.\<close>

definition shutdown_timeout :: "duration \<Rightarrow> duration" where
  "shutdown_timeout md = int64_wrap (md + second)"

lemma env_override_Inr:
  "env_override d p e var v = Inr x \<longleftrightarrow>
     (if d v \<and> getenv e var \<noteq> '''' then p (getenv e var) = Inr x else x = v)"
  by (auto simp: env_override_def split: sum.splits)

lemma env_override_Inl:
  "env_override d p e var v = Inl err \<longleftrightarrow>
     d v \<and> getenv e var \<noteq> '''' \<and> isl (p (getenv e var)) \<and> err = InvalidEnv var"
  by (auto simp: env_override_def split: sum.splits)

lemma load_flags_Inr:
  "load_flags pd e fl = Inr fl' \<longleftrightarrow>
     env_override (\<lambda>v. v = default_max_body_size) parse_int e ''MAX_BODY_SIZE'' (flag_max_body_size fl)
       = Inr (flag_max_body_size fl')
   \<and> env_override (\<lambda>v. v = default_max_duration) pd e ''MAX_DURATION'' (flag_max_duration fl)
       = Inr (flag_max_duration fl')
   \<and> env_override (\<lambda>v. v = default_port) atoi e ''PORT'' (flag_port fl) = Inr (flag_port fl')
   \<and> flag_use_real_hostname fl' = (flag_use_real_hostname fl \<or> getenv e ''USE_REAL_HOSTNAME'' \<in> {''1'', ''true''})"
  by (cases fl') (auto simp: load_flags_def Let_def split: sum.splits)

lemma shutdown_timeout_cases:
  assumes "is_int64 md"
  shows "(md \<le> int64_max - second \<longrightarrow> shutdown_timeout md = md + second)
    \<and> (int64_max - second < md \<longrightarrow> shutdown_timeout md = md + second - 2 ^ 64 \<and> shutdown_timeout md < 0)"
proof (intro conjI impI)
  assume "md \<le> int64_max - second"
  then have "is_int64 (md + second)"
    using assms by (simp add: is_int64_def int64_min_def int64_max_def second_def)
  then show "shutdown_timeout md = md + second" by (simp add: shutdown_timeout_def int64_wrap_id)
next
  assume a: "int64_max - second < md"
  have w: "int64_wrap (md + second) = md + second - 2 ^ 64"
    using a assms by (intro int64_wrap_overflow) (simp_all add: is_int64_def int64_max_def second_def)
  then show "shutdown_timeout md = md + second - 2 ^ 64" by (simp add: shutdown_timeout_def)
  show "shutdown_timeout md < 0"
    using w assms by (simp add: shutdown_timeout_def is_int64_def int64_max_def second_def)
qed

lemma startup_configures_aux:
  assumes "load_flags pd e fl = Inr fl'" and "startup pd e fl host = Inr (hi, addr)"
  shows "MaxBodySize hi = flag_max_body_size fl' \<and> MaxDuration hi = flag_max_duration fl'
    \<and> Observer hi = Some (StdLogObserver ''stderr'') \<and> DefaultParams hi = default_default_params
    \<and> hostname hi = (if flag_use_real_hostname fl' then the host else default_hostname)
    \<and> addr = ''0.0.0.0:'' @ itoa (flag_port fl')"
proof -
  obtain opts where o: "startup_options fl' host = Inr opts" and hi: "hi = new_httpbin opts"
    and a: "addr = listen_addr (flag_port fl')"
    using assms by (auto simp: startup_def split: sum.splits)
  show ?thesis
  proof (cases "flag_use_real_hostname fl'")
    case True
    with o obtain hn where "host = Some hn"
      and "opts = [WithMaxBodySize (flag_max_body_size fl'), WithMaxDuration (flag_max_duration fl'),
                   WithObserver (StdLogObserver ''stderr''), WithHostname hn]"
      by (auto simp: startup_options_def split: option.splits)
    with True hi a show ?thesis
      by (simp add: new_httpbin_def fold_apply_option_fields new_defaults_def listen_addr_def)
  next
    case False
    with o have "opts = [WithMaxBodySize (flag_max_body_size fl'), WithMaxDuration (flag_max_duration fl'),
                   WithObserver (StdLogObserver ''stderr'')]"
      by (simp add: startup_options_def)
    with False hi a show ?thesis
      by (simp add: new_httpbin_def fold_apply_option_fields new_defaults_def listen_addr_def)
  qed
qed

subsection \<open>Properties\<close>

definition example_flags :: flags where
  "example_flags = \<lparr>flag_port = 9090, flag_max_body_size = 100, flag_max_duration = 5 * second,
     flag_use_real_hostname = False\<rparr>"

lemmas flag_defaults = default_max_body_size_def default_max_duration_def default_port_def second_def

text \<open>C25: a flag given a value other than its built-in default wins over the
  environment, and an unset or empty variable leaves its flag alone.\<close>

theorem load_flags_precedence:
  assumes "load_flags pd e fl = Inr fl'"
  shows "(flag_max_body_size fl \<noteq> default_max_body_size \<or> getenv e ''MAX_BODY_SIZE'' = ''''
            \<longrightarrow> flag_max_body_size fl' = flag_max_body_size fl)
    \<and> (flag_max_duration fl \<noteq> default_max_duration \<or> getenv e ''MAX_DURATION'' = ''''
            \<longrightarrow> flag_max_duration fl' = flag_max_duration fl)
    \<and> (flag_port fl \<noteq> default_port \<or> getenv e ''PORT'' = '''' \<longrightarrow> flag_port fl' = flag_port fl)"
  using assms unfolding load_flags_Inr env_override_Inr by auto

theorem load_flags_precedence_witness:
  "load_flags (\<lambda>_. Inl '''') [(''MAX_BODY_SIZE'', ''7''), (''PORT'', ''1'')] example_flags = Inr example_flags
   \<and> flag_port example_flags = 9090"
proof -
  have l: "load_flags (\<lambda>_. Inl '''') [(''MAX_BODY_SIZE'', ''7''), (''PORT'', ''1'')] example_flags = Inr example_flags"
    by (simp add: load_flags_def env_override_def getenv_def example_flags_def flag_defaults)
  from load_flags_precedence [OF l] l show ?thesis by (simp add: example_flags_def flag_defaults)
qed

text \<open>C26: with the flag at its default and \<open>MAX_BODY_SIZE\<close> set, a value
  that \<open>ParseInt\<close> rejects ends start-up with that variable named (whatever the
  other variables hold), and otherwise the parsed value is the limit.\<close>

theorem load_flags_env_body_size:
  assumes "flag_max_body_size fl = default_max_body_size" and "getenv e ''MAX_BODY_SIZE'' \<noteq> ''''"
  shows "(isl (parse_int (getenv e ''MAX_BODY_SIZE'')) \<longrightarrow> load_flags pd e fl = Inl (InvalidEnv ''MAX_BODY_SIZE''))
    \<and> (\<forall>fl'. load_flags pd e fl = Inr fl' \<longrightarrow> parse_int (getenv e ''MAX_BODY_SIZE'') = Inr (flag_max_body_size fl'))"
proof (intro conjI allI impI)
  assume "isl (parse_int (getenv e ''MAX_BODY_SIZE''))"
  then have "env_override (\<lambda>v. v = default_max_body_size) parse_int e ''MAX_BODY_SIZE'' (flag_max_body_size fl)
      = Inl (InvalidEnv ''MAX_BODY_SIZE'')"
    using assms by (simp add: env_override_Inl)
  then show "load_flags pd e fl = Inl (InvalidEnv ''MAX_BODY_SIZE'')" by (simp add: load_flags_def)
next
  fix fl' assume "load_flags pd e fl = Inr fl'"
  then show "parse_int (getenv e ''MAX_BODY_SIZE'') = Inr (flag_max_body_size fl')"
    using assms unfolding load_flags_Inr env_override_Inr by simp
qed

theorem load_flags_env_body_size_witness:
  "load_flags (\<lambda>_. Inl '''') [(''MAX_BODY_SIZE'', ''12x'')]
     (example_flags\<lparr>flag_max_body_size := default_max_body_size\<rparr>) = Inl (InvalidEnv ''MAX_BODY_SIZE'')"
proof -
  have "flag_max_body_size (example_flags\<lparr>flag_max_body_size := default_max_body_size\<rparr>) = default_max_body_size"
    "getenv [(''MAX_BODY_SIZE'', ''12x'')] ''MAX_BODY_SIZE'' \<noteq> ''''"
    "isl (parse_int (getenv [(''MAX_BODY_SIZE'', ''12x'')] ''MAX_BODY_SIZE''))"
    by (simp_all add: getenv_def strconv_eval)
  from load_flags_env_body_size [OF this(1,2), of "\<lambda>_. Inl ''''"] this(3) show ?thesis by simp
qed

text \<open>C28: once the configuration is loaded, start-up either fails with
  \<open>HostnameLookupFailed\<close>, exactly when the real hostname is asked for and the
  lookup fails, or it builds the server. That server has the loaded limits, the
  standard observer, the default timing parameters and the real hostname
  exactly when it was asked for. It listens on all interfaces at the loaded
  port.\<close>

theorem startup_configures:
  assumes "load_flags pd e fl = Inr fl'"
  shows "(flag_use_real_hostname fl' \<and> host = None \<longrightarrow> startup pd e fl host = Inl HostnameLookupFailed)
    \<and> (\<not> (flag_use_real_hostname fl' \<and> host = None) \<longrightarrow> (\<exists>hi addr. startup pd e fl host = Inr (hi, addr)))
    \<and> (\<forall>hi addr. startup pd e fl host = Inr (hi, addr) \<longrightarrow>
         MaxBodySize hi = flag_max_body_size fl' \<and> MaxDuration hi = flag_max_duration fl'
       \<and> Observer hi = Some (StdLogObserver ''stderr'') \<and> DefaultParams hi = default_default_params
       \<and> hostname hi = (if flag_use_real_hostname fl' then the host else default_hostname)
       \<and> addr = ''0.0.0.0:'' @ itoa (flag_port fl'))"
proof (intro conjI)
  show "flag_use_real_hostname fl' \<and> host = None \<longrightarrow> startup pd e fl host = Inl HostnameLookupFailed"
    using assms by (simp add: startup_def startup_options_def)
  show "\<not> (flag_use_real_hostname fl' \<and> host = None) \<longrightarrow> (\<exists>hi addr. startup pd e fl host = Inr (hi, addr))"
    using assms by (auto simp: startup_def startup_options_def Let_def split: option.splits)
  show "\<forall>hi addr. startup pd e fl host = Inr (hi, addr) \<longrightarrow>
         MaxBodySize hi = flag_max_body_size fl' \<and> MaxDuration hi = flag_max_duration fl'
       \<and> Observer hi = Some (StdLogObserver ''stderr'') \<and> DefaultParams hi = default_default_params
       \<and> hostname hi = (if flag_use_real_hostname fl' then the host else default_hostname)
       \<and> addr = ''0.0.0.0:'' @ itoa (flag_port fl')"
    using assms startup_configures_aux by blast
qed

theorem startup_configures_witness:
  "startup (\<lambda>_. Inl ''x'') [(''USE_REAL_HOSTNAME'', ''true'')] example_flags None = Inl HostnameLookupFailed"
proof -
  have l: "load_flags (\<lambda>_. Inl ''x'') [(''USE_REAL_HOSTNAME'', ''true'')] example_flags
      = Inr (example_flags\<lparr>flag_use_real_hostname := True\<rparr>)"
    by (simp add: load_flags_def env_override_def getenv_def example_flags_def flag_defaults)
  from startup_configures [OF l, of None] show ?thesis by simp
qed

text \<open>C30: the shutdown grace period is \<open>maxDuration\<close> plus one second as long
  as that sum fits in a \<open>time.Duration\<close>; for a maximum duration within one
  second of the largest duration it wraps around to a negative timeout.\<close>

theorem shutdown_timeout_wraps:
  assumes "is_int64 md"
  shows "(md \<le> int64_max - second \<longrightarrow> shutdown_timeout md = md + second)
    \<and> (int64_max - second < md \<longrightarrow> shutdown_timeout md = md + second - 2 ^ 64 \<and> shutdown_timeout md < 0)"
  using assms by (rule shutdown_timeout_cases)

theorem shutdown_timeout_wraps_witness:
  "shutdown_timeout 9223372036000000000 < 0"
proof -
  have "is_int64 9223372036000000000" by (simp add: is_int64_def int64_min_def int64_max_def)
  from shutdown_timeout_wraps [OF this] show ?thesis by (simp add: int64_max_def second_def)
qed

end
