(* ===== verification/Shutdown.thy ===== *)
theory Shutdown
  imports Startup "HOL-Library.Multiset"
begin

text \<open>
  The graceful shutdown of \<open>src/cmd/httpbin/main.go\<close> (lines 106-145) as an
  inductive state machine over requests accepted, served and cut, its
  invariant, its refinement of the Running, Draining, Stopped lifecycle of the
  specification, and what the shutdown timeout of \<open>Startup\<close> grants.
\<close>

subsection \<open>Graceful shutdown\<close>

text \<open>Lines 106-145 as a state machine. While \<open>Running\<close> the server accepts
  requests; the first \<open>SIGINT\<close> or \<open>SIGTERM\<close> (the channel holds one signal,
  later ones are dropped) starts \<open>server.Shutdown\<close> with a context that expires
  \<open>shutdownTimeout\<close> after the signal: the listener closes (\<open>Draining\<close>), requests
  in flight may finish, and \<open>Shutdown\<close> returns when none is left or when the
  context expires. Then \<open>exitCh\<close> is closed and \<open>main\<close> returns, which ends the
  requests still in flight. A listener failure other than \<open>ErrServerClosed\<close>
  ends the process with status 1. A request is its id and the time it was
  accepted.\<close>

datatype phase = Running | Draining | Stopped

record lc_state =
  lc_phase :: phase
  lc_clock :: duration
  lc_inflight :: "(nat \<times> duration) list"
  lc_served :: "(nat \<times> duration) list"
  lc_dropped :: "(nat \<times> duration) list"
  lc_signal_at :: "duration option"
  lc_exit :: "nat option"

definition lc_init :: lc_state where
  "lc_init = \<lparr>lc_phase = Running, lc_clock = 0, lc_inflight = [], lc_served = [], lc_dropped = [],
              lc_signal_at = None, lc_exit = None\<rparr>"

definition lc_all :: "lc_state \<Rightarrow> (nat \<times> duration) list" where
  "lc_all s = lc_inflight s @ lc_served s @ lc_dropped s"

definition lc_ids :: "lc_state \<Rightarrow> nat list" where
  "lc_ids s = map fst (lc_all s)"

inductive lc_step :: "duration \<Rightarrow> lc_state \<Rightarrow> lc_state \<Rightarrow> bool" for md where
  accept: "lc_phase s = Running \<Longrightarrow> i \<notin> set (lc_ids s) \<Longrightarrow>
    lc_step md s (s\<lparr>lc_inflight := lc_inflight s @ [(i, lc_clock s)]\<rparr>)"
| complete: "lc_phase s \<noteq> Stopped \<Longrightarrow> q \<in> set (lc_inflight s) \<Longrightarrow>
    lc_step md s (s\<lparr>lc_inflight := remove1 q (lc_inflight s), lc_served := lc_served s @ [q]\<rparr>)"
| tick: "lc_phase s \<noteq> Stopped \<Longrightarrow> 0 < d \<Longrightarrow> lc_step md s (s\<lparr>lc_clock := lc_clock s + d\<rparr>)"
| signal: "lc_phase s = Running \<Longrightarrow>
    lc_step md s (s\<lparr>lc_phase := Draining, lc_signal_at := Some (lc_clock s)\<rparr>)"
| drained: "lc_phase s = Draining \<Longrightarrow> lc_inflight s = [] \<Longrightarrow>
    lc_step md s (s\<lparr>lc_phase := Stopped, lc_exit := Some 0\<rparr>)"
| deadline: "lc_phase s = Draining \<Longrightarrow> lc_signal_at s = Some t0 \<Longrightarrow> t0 + shutdown_timeout md \<le> lc_clock s \<Longrightarrow>
    lc_step md s (s\<lparr>lc_phase := Stopped, lc_inflight := [], lc_dropped := lc_dropped s @ lc_inflight s, lc_exit := Some 0\<rparr>)"
| listen_fails: "lc_phase s = Running \<Longrightarrow>
    lc_step md s (s\<lparr>lc_phase := Stopped, lc_dropped := lc_dropped s @ lc_inflight s, lc_inflight := [], lc_exit := Some 1\<rparr>)"

inductive lc_reach :: "duration \<Rightarrow> lc_state \<Rightarrow> bool" for md where
  init: "lc_reach md lc_init"
| step: "lc_reach md s \<Longrightarrow> lc_step md s s' \<Longrightarrow> lc_reach md s'"

inductive_cases lc_step_cases: "lc_step md s s'"


subsubsection \<open>What a step changes\<close>

lemma mset_remove1_move:
  "q \<in> set xs \<Longrightarrow> mset (remove1 q xs @ (ys @ [q]) @ zs) = mset (xs @ ys @ zs)"
  by simp

lemma lc_step_all:
  assumes "lc_step md s s'"
  shows "mset (lc_all s') = mset (lc_all s)
    \<or> (\<exists>i. lc_phase s = Running \<and> i \<notin> set (lc_ids s)
           \<and> mset (lc_all s') = add_mset (i, lc_clock s) (mset (lc_all s)))"
  using assms
proof cases
  case (accept i)
  then show ?thesis by (auto simp: lc_all_def)
next
  case (complete q)
  then show ?thesis by (simp add: lc_all_def)
qed (auto simp: lc_all_def)

lemma lc_step_clock: "lc_step md s s' \<Longrightarrow> lc_clock s \<le> lc_clock s'"
  by (induction rule: lc_step.induct) simp_all

lemma lc_step_signal:
  "lc_step md s s' \<Longrightarrow>
   lc_signal_at s' = lc_signal_at s \<or> (lc_phase s = Running \<and> lc_signal_at s' = Some (lc_clock s))"
  by (induction rule: lc_step.induct) simp_all

subsubsection \<open>The invariant\<close>

text \<open>Each request is in exactly one of the three lists; the phase and the
  signal, exit and drop bookkeeping agree; a request was accepted before the
  present time and before the signal; and requests are cut at a normal exit only
  once the shutdown context has expired.\<close>

definition lc_modes :: "lc_state \<Rightarrow> bool" where
  "lc_modes s \<longleftrightarrow>
     (lc_phase s = Running \<longrightarrow> lc_signal_at s = None \<and> lc_exit s = None \<and> lc_dropped s = [])
   \<and> (lc_phase s = Draining \<longrightarrow> (\<exists>t0. lc_signal_at s = Some t0 \<and> t0 \<le> lc_clock s)
        \<and> lc_exit s = None \<and> lc_dropped s = [])
   \<and> (lc_phase s = Stopped \<longrightarrow> lc_inflight s = [] \<and> lc_exit s \<noteq> None)"

definition lc_times :: "lc_state \<Rightarrow> bool" where
  "lc_times s \<longleftrightarrow>
     (\<forall>q \<in> set (lc_all s). snd q \<le> lc_clock s \<and> (\<forall>t0. lc_signal_at s = Some t0 \<longrightarrow> snd q \<le> t0))"

definition lc_grace :: "duration \<Rightarrow> lc_state \<Rightarrow> bool" where
  "lc_grace md s \<longleftrightarrow>
     (lc_dropped s \<noteq> [] \<and> lc_exit s = Some 0 \<longrightarrow>
        (\<exists>t0. lc_signal_at s = Some t0 \<and> t0 + shutdown_timeout md \<le> lc_clock s))"

definition lc_inv :: "duration \<Rightarrow> lc_state \<Rightarrow> bool" where
  "lc_inv md s \<longleftrightarrow> distinct (lc_ids s) \<and> lc_modes s \<and> lc_times s \<and> lc_grace md s"

lemma lc_ids_mset_eq:
  "mset (lc_all s') = mset (lc_all s) \<Longrightarrow> mset (lc_ids s') = mset (lc_ids s)"
  unfolding lc_ids_def mset_map by simp

lemma lc_ids_mset_add:
  "mset (lc_all s') = add_mset (i, c) (mset (lc_all s)) \<Longrightarrow> mset (lc_ids s') = add_mset i (mset (lc_ids s))"
  unfolding lc_ids_def mset_map by simp

lemma lc_step_distinct:
  assumes "lc_step md s s'" and "distinct (lc_ids s)"
  shows "distinct (lc_ids s')"
  using lc_step_all [OF assms(1)]
proof
  assume "mset (lc_all s') = mset (lc_all s)"
  from mset_eq_imp_distinct_iff [OF lc_ids_mset_eq [OF this]] assms(2) show ?thesis by simp
next
  assume "\<exists>i. lc_phase s = Running \<and> i \<notin> set (lc_ids s)
           \<and> mset (lc_all s') = add_mset (i, lc_clock s) (mset (lc_all s))"
  then obtain i where i: "i \<notin> set (lc_ids s)"
    and m: "mset (lc_ids s') = add_mset i (mset (lc_ids s))"
    using lc_ids_mset_add by blast
  then have "mset (lc_ids s') = mset (i # lc_ids s)" by simp
  from mset_eq_imp_distinct_iff [OF this] i assms(2) show ?thesis by simp
qed

lemma lc_step_modes: "lc_step md s s' \<Longrightarrow> lc_modes s \<Longrightarrow> lc_modes s'"
  by (induction rule: lc_step.induct) (auto simp: lc_modes_def)

lemma lc_step_times:
  assumes "lc_step md s s'" and "lc_modes s" and "lc_times s"
  shows "lc_times s'"
  unfolding lc_times_def
proof
  fix q assume q: "q \<in> set (lc_all s')"
  have c: "lc_clock s \<le> lc_clock s'" using assms(1) by (rule lc_step_clock)
  have old: "snd q \<le> lc_clock s \<and> (\<forall>t0. lc_signal_at s' = Some t0 \<longrightarrow> snd q \<le> t0)"
    if "q \<in> set (lc_all s)"
    using that assms(3) lc_step_signal [OF assms(1)] unfolding lc_times_def by auto
  from lc_step_all [OF assms(1)] show "snd q \<le> lc_clock s' \<and> (\<forall>t0. lc_signal_at s' = Some t0 \<longrightarrow> snd q \<le> t0)"
  proof
    assume "mset (lc_all s') = mset (lc_all s)"
    then have "q \<in> set (lc_all s)" using q by (metis set_mset_mset)
    with old c show ?thesis by auto
  next
    assume "\<exists>i. lc_phase s = Running \<and> i \<notin> set (lc_ids s)
           \<and> mset (lc_all s') = add_mset (i, lc_clock s) (mset (lc_all s))"
    then obtain i where r: "lc_phase s = Running"
      and m: "mset (lc_all s') = add_mset (i, lc_clock s) (mset (lc_all s))" by blast
    have "q = (i, lc_clock s) \<or> q \<in> set (lc_all s)"
      using q m by (metis insert_iff set_mset_add_mset_insert set_mset_mset)
    moreover have "lc_signal_at s = None" using r assms(2) by (simp add: lc_modes_def)
    ultimately show ?thesis using old c lc_step_signal [OF assms(1)] by auto
  qed
qed

lemma lc_step_grace:
  "lc_step md s s' \<Longrightarrow> lc_modes s \<Longrightarrow> lc_grace md s \<Longrightarrow> lc_grace md s'"
  by (induction rule: lc_step.induct) (auto simp: lc_grace_def lc_modes_def)

lemma lc_step_inv: "lc_step md s s' \<Longrightarrow> lc_inv md s \<Longrightarrow> lc_inv md s'"
  unfolding lc_inv_def
  using lc_step_distinct lc_step_modes lc_step_times lc_step_grace by blast

lemma lc_inv_init: "lc_inv md lc_init"
  by (simp add: lc_inv_def lc_init_def lc_ids_def lc_all_def lc_modes_def lc_times_def lc_grace_def)

lemma lc_reach_inv: "lc_reach md s \<Longrightarrow> lc_inv md s"
  by (induction rule: lc_reach.induct) (auto intro: lc_inv_init lc_step_inv)

subsubsection \<open>The abstract lifecycle\<close>

text \<open>The lifecycle the specification asks for (section 9): Running, then
  Draining once shutdown has begun, then Stopped; a fatal listener error stops a
  running server at once.\<close>

inductive abs_lifecycle :: "phase \<Rightarrow> phase \<Rightarrow> bool" where
  begin_drain: "abs_lifecycle Running Draining"
| finish_drain: "abs_lifecycle Draining Stopped"
| fatal: "abs_lifecycle Running Stopped"

lemma lc_step_refines_aux:
  "lc_step md s s' \<Longrightarrow>
   lc_phase s \<noteq> Stopped \<and> (lc_phase s' = lc_phase s \<or> abs_lifecycle (lc_phase s) (lc_phase s'))"
  by (induction rule: lc_step.induct) (auto intro: abs_lifecycle.intros)

lemma lc_deadline_run:
  assumes "lc_phase s = Draining" and "lc_signal_at s = Some t0"
  shows "\<exists>s'. (lc_step md)\<^sup>*\<^sup>* s s' \<and> lc_phase s' = Stopped \<and> lc_exit s' = Some 0
           \<and> lc_clock s' = max (lc_clock s) (t0 + shutdown_timeout md)
           \<and> lc_served s' = lc_served s \<and> lc_inflight s' = [] \<and> lc_dropped s' = lc_dropped s @ lc_inflight s"
proof (cases "t0 + shutdown_timeout md \<le> lc_clock s")
  case True
  let ?s' = "s\<lparr>lc_phase := Stopped, lc_inflight := [], lc_dropped := lc_dropped s @ lc_inflight s, lc_exit := Some 0\<rparr>"
  have "lc_step md s ?s'" using assms True by (blast intro: lc_step.deadline)
  with True show ?thesis by (intro exI [of _ ?s']) auto
next
  case False
  let ?d = "t0 + shutdown_timeout md - lc_clock s"
  let ?t = "s\<lparr>lc_clock := lc_clock s + ?d\<rparr>"
  have t: "lc_step md s ?t" using assms False by (intro lc_step.tick) simp_all
  let ?s' = "?t\<lparr>lc_phase := Stopped, lc_inflight := [], lc_dropped := lc_dropped ?t @ lc_inflight ?t, lc_exit := Some 0\<rparr>"
  have "lc_step md ?t ?s'" using assms by (intro lc_step.deadline [of _ t0]) simp_all
  with t have "(lc_step md)\<^sup>*\<^sup>* s ?s'" by (meson converse_rtranclp_into_rtranclp r_into_rtranclp)
  with False show ?thesis by (intro exI [of _ ?s']) simp
qed

lemma lc_reach_steps: "(lc_step md)\<^sup>*\<^sup>* s s' \<Longrightarrow> lc_reach md s \<Longrightarrow> lc_reach md s'"
  by (induction rule: rtranclp_induct) (auto intro: lc_reach.step)

subsection \<open>Properties\<close>

text \<open>C31: every reachable state of the lifecycle satisfies the invariant: each
  request is in flight, served or cut, never two of these; the phase agrees
  with the signal, the exit status and the cut requests; every request was
  accepted before the signal; and requests are cut at a normal exit only after
  the shutdown context has expired.\<close>

theorem lc_reachable_invariant: "lc_reach md s \<Longrightarrow> lc_inv md s"
  by (rule lc_reach_inv)

theorem lc_reachable_invariant_witness:
  "lc_inv (10 * second) (lc_init\<lparr>lc_inflight := [(1, 0)]\<rparr>)"
proof -
  have "lc_reach (10 * second) (lc_init\<lparr>lc_inflight := [(1, 0)]\<rparr>)"
    using lc_reach.step [OF lc_reach.init lc_step.accept [of lc_init 1]]
    by (simp add: lc_init_def lc_ids_def lc_all_def)
  then show ?thesis by (rule lc_reachable_invariant)
qed

text \<open>C32: with no overflow of the timeout, a request that shutdown cuts off was
  accepted before the signal and had at least \<open>maxDuration\<close> plus one second
  after the signal to finish.\<close>

theorem shutdown_grace:
  assumes "lc_reach md s" and "is_int64 md" and "md \<le> int64_max - second"
    and "q \<in> set (lc_dropped s)" and "lc_exit s = Some 0"
  shows "\<exists>t0. lc_signal_at s = Some t0 \<and> snd q \<le> t0 \<and> t0 + md + second \<le> lc_clock s"
proof -
  have inv: "lc_inv md s" using assms(1) by (rule lc_reach_inv)
  then obtain t0 where t0: "lc_signal_at s = Some t0" and g: "t0 + shutdown_timeout md \<le> lc_clock s"
    using assms(4,5) by (auto simp: lc_inv_def lc_grace_def)
  have "snd q \<le> t0" using inv t0 assms(4) by (auto simp: lc_inv_def lc_times_def lc_all_def)
  moreover have "shutdown_timeout md = md + second" using shutdown_timeout_cases [OF assms(2)] assms(3) by simp
  ultimately show ?thesis using t0 g by auto
qed

theorem shutdown_grace_witness:
  "lc_clock (lc_init\<lparr>lc_phase := Stopped, lc_clock := 11 * second, lc_dropped := [(1, 0)],
        lc_signal_at := Some 0, lc_exit := Some 0\<rparr>) \<ge> 0 + 10 * second + second"
proof -
  let ?s1 = "lc_init\<lparr>lc_inflight := [(1, 0)]\<rparr>"
  let ?s2 = "?s1\<lparr>lc_phase := Draining, lc_signal_at := Some 0\<rparr>"
  let ?s3 = "?s2\<lparr>lc_clock := 11 * second\<rparr>"
  let ?s4 = "?s3\<lparr>lc_phase := Stopped, lc_inflight := [], lc_dropped := [(1, 0)], lc_exit := Some 0\<rparr>"
  have r1: "lc_reach (10 * second) ?s1"
    using lc_reach.step [OF lc_reach.init lc_step.accept [of lc_init 1]]
    by (simp add: lc_init_def lc_ids_def lc_all_def)
  have r2: "lc_reach (10 * second) ?s2"
    using lc_reach.step [OF r1 lc_step.signal [of ?s1]] by (simp add: lc_init_def)
  have r3: "lc_reach (10 * second) ?s3"
    using lc_reach.step [OF r2 lc_step.tick [of ?s2 "11 * second"]] by (simp add: lc_init_def second_def)
  have t: "shutdown_timeout (10 * second) = 11 * second"
    using shutdown_timeout_cases [of "10 * second"]
    by (simp add: is_int64_def int64_min_def int64_max_def second_def)
  have r4: "lc_reach (10 * second) ?s4"
    using lc_reach.step [OF r3 lc_step.deadline [of ?s3 0]] t by (simp add: lc_init_def)
  have "is_int64 (10 * second)" "10 * second \<le> int64_max - second"
    by (simp_all add: is_int64_def int64_min_def int64_max_def second_def)
  from shutdown_grace [OF r4 this, of "(1, 0)"] show ?thesis by (simp add: lc_init_def)
qed

text \<open>C33: once shutdown has begun, the process reaches a normal exit by the
  time the shutdown context expires without any request in flight having to
  finish: from the draining state there is a run in which no further request
  completes, every request still in flight is cut, and the process exits with
  status 0 at the later of the present time and the expiry of the context.\<close>

theorem shutdown_completes:
  assumes "lc_reach md s" and "lc_phase s = Draining" and "lc_signal_at s = Some t0"
  shows "\<exists>s'. (lc_step md)\<^sup>*\<^sup>* s s' \<and> lc_reach md s' \<and> lc_phase s' = Stopped \<and> lc_exit s' = Some 0
           \<and> lc_clock s' = max (lc_clock s) (t0 + shutdown_timeout md)
           \<and> lc_served s' = lc_served s \<and> lc_inflight s' = [] \<and> lc_dropped s' = lc_dropped s @ lc_inflight s"
  using lc_deadline_run [OF assms(2,3), of md] lc_reach_steps [OF _ assms(1)] by blast

theorem shutdown_completes_witness:
  "\<exists>s' :: lc_state. lc_phase s' = Stopped \<and> lc_exit s' = Some 0 \<and> lc_clock s' = 11 * second
       \<and> lc_dropped s' = [(1, 0)] \<and> lc_served s' = []"
proof -
  let ?s1 = "lc_init\<lparr>lc_inflight := [(1, 0)]\<rparr>"
  let ?s2 = "?s1\<lparr>lc_phase := Draining, lc_signal_at := Some 0\<rparr>"
  have r1: "lc_reach (10 * second) ?s1"
    using lc_reach.step [OF lc_reach.init lc_step.accept [of lc_init 1]]
    by (simp add: lc_init_def lc_ids_def lc_all_def)
  have r2: "lc_reach (10 * second) ?s2"
    using lc_reach.step [OF r1 lc_step.signal [of ?s1]] by (simp add: lc_init_def)
  have t: "shutdown_timeout (10 * second) = 11 * second"
    using shutdown_timeout_cases [of "10 * second"]
    by (simp add: is_int64_def int64_min_def int64_max_def second_def)
  from shutdown_completes [OF r2, of 0] t show ?thesis by (simp add: lc_init_def second_def) blast
qed

text \<open>C34: the detailed lifecycle refines the abstract one: every step either
  keeps the phase or is a step of the abstract lifecycle, and nothing happens
  once the process has stopped.\<close>

theorem lc_refines_abstract:
  "lc_step md s s' \<Longrightarrow>
   lc_phase s \<noteq> Stopped \<and> (lc_phase s' = lc_phase s \<or> abs_lifecycle (lc_phase s) (lc_phase s'))"
  by (rule lc_step_refines_aux)

theorem lc_refines_abstract_witness:
  "abs_lifecycle (lc_phase lc_init) (lc_phase (lc_init\<lparr>lc_phase := Draining, lc_signal_at := Some 0\<rparr>))"
proof -
  have "lc_step (10 * second) lc_init (lc_init\<lparr>lc_phase := Draining, lc_signal_at := Some 0\<rparr>)"
    using lc_step.signal [of lc_init] by (simp add: lc_init_def)
  from lc_refines_abstract [OF this] show ?thesis by (simp add: lc_init_def)
qed

text \<open>C35: with \<open>-max-duration 2562047h47m16s\<close> the timeout wraps to a
  negative duration, the shutdown context is expired as soon as it is made, and
  a request in flight at the signal is cut off at once, with no grace period.\<close>

theorem shutdown_overflow_cuts_at_once:
  "lc_reach 9223372036000000000 (lc_init\<lparr>lc_phase := Stopped, lc_dropped := [(1, 0)],
      lc_signal_at := Some 0, lc_exit := Some 0\<rparr>)"
proof -
  let ?md = "9223372036000000000 :: int"
  let ?s1 = "lc_init\<lparr>lc_inflight := [(1, 0)]\<rparr>"
  let ?s2 = "?s1\<lparr>lc_phase := Draining, lc_signal_at := Some 0\<rparr>"
  have r1: "lc_reach ?md ?s1"
    using lc_reach.step [OF lc_reach.init lc_step.accept [of lc_init 1]]
    by (simp add: lc_init_def lc_ids_def lc_all_def)
  have r2: "lc_reach ?md ?s2"
    using lc_reach.step [OF r1 lc_step.signal [of ?s1]] by (simp add: lc_init_def)
  have "shutdown_timeout ?md < 0"
    using shutdown_timeout_cases [of ?md] by (simp add: is_int64_def int64_min_def int64_max_def second_def)
  then have "lc_step ?md ?s2 (?s2\<lparr>lc_phase := Stopped, lc_inflight := [], lc_dropped := [] @ [(1, 0)], lc_exit := Some 0\<rparr>)"
    using lc_step.deadline [of ?s2 0 ?md] by (simp add: lc_init_def)
  from lc_reach.step [OF r2 this] show ?thesis by (simp add: lc_init_def)
qed

end
