(* ===== verification/Banner.thy ===== *)
theory Banner
  imports ClientIP Startup "HOL-Library.Signed_Division"
begin

text \<open>
  The start-up banner: the ANSI colour helpers of \<open>src/app/utils/color/color.go\<close>
  and \<open>ShowInfo\<close> of \<open>src/app/utils/info/info.go\<close>, which clears the terminal
  and prints the application name and version, the time since \<open>main\<close> started
  in milliseconds, and the local and network URLs. \<open>global.APP_NAME\<close> and
  \<open>global.VERSION\<close> come from a package outside \<open>src/\<close> and are parameters; the
  clock readings are the two \<open>UnixNano\<close> values. Go's integer division truncates
  towards zero, which is \<open>sdiv\<close>.
\<close>

subsection \<open>Colours\<close>

definition esc :: char where "esc = CHR 0x1B"

definition ansi :: "string \<Rightarrow> string \<Rightarrow> string" where
  "ansi code text = esc # ''['' @ code @ ''m'' @ text @ esc # ''[0m''"

definition Bold :: "string \<Rightarrow> string" where "Bold text = ansi ''1'' text"
definition Faint :: "string \<Rightarrow> string" where "Faint text = ansi ''2'' text"
definition Cyan :: "string \<Rightarrow> string" where "Cyan text = ansi ''36'' text"
definition Green :: "string \<Rightarrow> string" where "Green text = ansi ''32'' text"

subsection \<open>ShowInfo\<close>

text \<open>\<open>difference := (endTime - startTime) / 1000 / 1000\<close>, with the
  subtraction in \<open>int64\<close>; a difference of 0 is shown as 1.\<close>

definition ready_ms :: "int64 \<Rightarrow> int64 \<Rightarrow> int" where
  "ready_ms start_time end_time =
     (let difference = int64_wrap (end_time - start_time) sdiv 1000 sdiv 1000
      in if difference = 0 then 1 else difference)"

text \<open>The arrow \<open>U+279C\<close> in UTF-8.\<close>

definition arrow :: string where "arrow = [CHR 0xE2, CHR 0x9E, CHR 0x9C]"

text \<open>What \<open>ShowInfo\<close> prints, one element per \<open>fmt\<close> call.\<close>

definition show_info_lines :: "string \<Rightarrow> string \<Rightarrow> int64 \<Rightarrow> int64 \<Rightarrow> string \<Rightarrow> string list" where
  "show_info_lines app_name version start_time end_time local_ip =
     [[esc] @ ''[H'' @ [esc] @ ''[2J'',
      ''  '' @ Bold (Green app_name) @ '' '' @ Green (''v'' @ version) @ ''  '' @ Faint ''ready in'' @ '' ''
        @ Bold (itoa (ready_ms start_time end_time)) @ '' ms\<newline>'',
      ''\<newline>'',
      ''  '' @ Green arrow @ ''  '' @ Bold ''Local:'' @ ''   '' @ Cyan (''http://127.0.0.1:'' @ itoa 8080 @ ''/'') @ ''\<newline>'',
      ''  '' @ Green arrow @ ''  '' @ Bold ''Network:'' @ '' '' @ Cyan (''http://'' @ local_ip @ '':'' @ itoa 8080 @ ''/'') @ ''\<newline>'',
      ''\<newline>'']"

text \<open>\<open>info.ShowInfo(startTime)\<close> as \<open>main\<close> calls it: the network address is
  \<open>GetLocalIp\<close> of the interface addresses.\<close>

definition show_info :: "string \<Rightarrow> string \<Rightarrow> int64 \<Rightarrow> int64 \<Rightarrow> string + net_addr list \<Rightarrow> string" where
  "show_info app_name version start_time end_time addrs =
     concat (show_info_lines app_name version start_time end_time (get_local_ip addrs))"

subsection \<open>Properties\<close>

lemma sdiv_pos: "0 \<le> (a::int) \<Longrightarrow> 0 < b \<Longrightarrow> a sdiv b = a div b"
  by (simp add: signed_divide_int_def sgn_if)

lemma ready_ms_exact:
  assumes "is_int64 (end_time - start_time)" and "start_time \<le> end_time"
  shows "ready_ms start_time end_time = max 1 ((end_time - start_time) div 1000000)"
proof -
  have w: "int64_wrap (end_time - start_time) = end_time - start_time" using assms(1) by (rule int64_wrap_id)
  have "(end_time - start_time) div 1000 div 1000 = (end_time - start_time) div 1000000"
    by (simp add: zdiv_zmult2_eq [symmetric])
  moreover have "0 \<le> (end_time - start_time) div 1000" using assms(2) by simp
  ultimately show ?thesis
    using assms(2) by (simp add: ready_ms_def w sdiv_pos Let_def)
qed

lemma sdiv_sdiv: "x sdiv 1000 sdiv 1000 = x sdiv (1000000::int)"
proof (cases "0 \<le> x")
  case True
  then show ?thesis by (simp add: sdiv_pos zdiv_zmult2_eq [symmetric])
next
  case False
  then have "x sdiv 1000 = - ((- x) div 1000)" by (simp add: signed_divide_int_def sgn_if)
  moreover have "x sdiv 1000000 = - ((- x) div 1000000)" using False by (simp add: signed_divide_int_def sgn_if)
  moreover have "(- ((- x) div 1000)) sdiv 1000 = - ((- x) div 1000 div 1000)"
    using False by (simp add: signed_divide_int_def sgn_if)
  ultimately show ?thesis by (simp add: zdiv_zmult2_eq [symmetric])
qed

text \<open>C37: the banner shows the time since start in whole milliseconds,
  truncated towards zero, with 0 shown as 1. When the clock has not gone back
  this is the floor of the milliseconds and at least 1. When the wall clock
  stepped back between the two readings, the time shown is negative.\<close>

theorem ready_ms_value:
  assumes "is_int64 (end_time - start_time)"
  shows "ready_ms start_time end_time
           = (if (end_time - start_time) sdiv 1000000 = 0 then 1 else (end_time - start_time) sdiv 1000000)
    \<and> (start_time \<le> end_time \<longrightarrow> ready_ms start_time end_time = max 1 ((end_time - start_time) div 1000000))
    \<and> (end_time - start_time \<le> -1000000 \<longrightarrow> ready_ms start_time end_time < 0)"
proof (intro conjI impI)
  have w: "int64_wrap (end_time - start_time) = end_time - start_time" using assms by (rule int64_wrap_id)
  show v: "ready_ms start_time end_time
           = (if (end_time - start_time) sdiv 1000000 = 0 then 1 else (end_time - start_time) sdiv 1000000)"
    by (simp add: ready_ms_def w sdiv_sdiv Let_def)
  show "start_time \<le> end_time \<Longrightarrow> ready_ms start_time end_time = max 1 ((end_time - start_time) div 1000000)"
    using assms by (rule ready_ms_exact)
  assume n: "end_time - start_time \<le> -1000000"
  then have "(end_time - start_time) sdiv 1000000 = - ((start_time - end_time) div 1000000)"
    by (simp add: signed_divide_int_def sgn_if)
  moreover have "1 \<le> (start_time - end_time) div 1000000" using n by simp
  ultimately show "ready_ms start_time end_time < 0" using v by simp
qed

theorem ready_ms_value_witness: "ready_ms 0 2500000 = 2 \<and> ready_ms 5000000 0 < 0"
proof -
  have "is_int64 (2500000 - 0)" "is_int64 (0 - 5000000)" by (simp_all add: is_int64_def int64_min_def int64_max_def)
  from ready_ms_value [OF this(1)] ready_ms_value [OF this(2)] show ?thesis by simp
qed

end
