(* ===== verification/ServerLog.thy ===== *)
theory ServerLog
  imports Json
begin

text \<open>
  The log lines of \<open>main\<close> (\<open>src/cmd/httpbin/main.go\<close>, lines 76-87): a
  \<open>log.Logger\<close> on standard error without prefix or flags, and the
  \<open>serverLog\<close> helper that writes \<open>time=%q msg=%q\<close>, the wall-clock time
  in the layout \<open>2006-01-02T15:04:05.9999\<close> and the message, both quoted as
  \<open>strconv.Quote\<close> does. The clock reading is the broken-down local time that
  \<open>time.Now()\<close> gives. Bytes from 0x80 up are written as they are, which is
  what \<open>Quote\<close> does with printable UTF-8; the escapes it writes for invalid
  UTF-8 and non-printable runes are not modelled. A reader of the format,
  written from the grammar of Go's quoted strings, shows that every line reads
  back.
\<close>

subsection \<open>log.New(os.Stderr, "", 0)\<close>

text \<open>\<open>Logger.Output\<close>: the text, then a line feed unless it ends in one.\<close>

definition log_output :: "string \<Rightarrow> string" where
  "log_output s = (if s \<noteq> [] \<and> last s = CHR 0x0A then s else s @ [CHR 0x0A])"

subsection \<open>strconv.Quote\<close>

text \<open>The short escapes of \<open>appendEscapedRune\<close>, byte and letter.\<close>

definition short_escapes :: "(char \<times> char) list" where
  "short_escapes = [(CHR 0x07, CHR ''a''), (CHR 0x08, CHR ''b''), (CHR 0x0C, CHR ''f''),
     (CHR 0x0A, CHR ''n''), (CHR 0x0D, CHR ''r''), (CHR 0x09, CHR ''t''), (CHR 0x0B, CHR ''v'')]"

definition quote_char :: "char \<Rightarrow> string" where
  "quote_char c =
     (let n = (of_char c :: nat) in
      if c = CHR 0x22 \<or> c = CHR 0x5C then [CHR 0x5C, c]
      else if 0x20 \<le> n \<and> n < 0x7F then [c]
      else case map_of short_escapes c of
             Some e \<Rightarrow> [CHR 0x5C, e]
           | None \<Rightarrow> if n < 0x20 \<or> n = 0x7F
                     then [CHR 0x5C, CHR ''x'', hex_digit (n div 16), hex_digit (n mod 16)] else [c])"

definition go_quote :: "string \<Rightarrow> string" where
  "go_quote s = CHR 0x22 # concat (map quote_char s) @ [CHR 0x22]"

subsection \<open>time.Time.Format("2006-01-02T15:04:05.9999")\<close>

record clock_reading =
  cl_year :: int
  cl_month :: nat
  cl_day :: nat
  cl_hour :: nat
  cl_min :: nat
  cl_sec :: nat
  cl_nsec :: nat

text \<open>\<open>appendInt(b, x, width)\<close>: the sign, zeros up to the width, the digits.\<close>

definition append_int :: "int \<Rightarrow> nat \<Rightarrow> string" where
  "append_int x w =
     (let ds = nat_to_string (nat \<bar>x\<bar>) in
      (if x < 0 then ''-'' else []) @ replicate (w - length ds) CHR ''0'' @ ds)"

text \<open>\<open>appendNano\<close> for \<open>.9999\<close>: four digits of the fraction with the
  trailing zeros cut, and no dot when nothing is left.\<close>

definition append_nano :: "nat \<Rightarrow> string" where
  "append_nano ns =
     (let d = rev (dropWhile (\<lambda>c. c = CHR ''0'') (rev (take 4 (append_int (int ns) 9)))) in
      if ns = 0 \<or> d = [] then [] else CHR ''.'' # d)"

definition format_time :: "clock_reading \<Rightarrow> string" where
  "format_time t =
     append_int (cl_year t) 4 @ ''-'' @ append_int (int (cl_month t)) 2 @ ''-'' @ append_int (int (cl_day t)) 2
     @ ''T'' @ append_int (int (cl_hour t)) 2 @ '':'' @ append_int (int (cl_min t)) 2
     @ '':'' @ append_int (int (cl_sec t)) 2 @ append_nano (cl_nsec t)"

subsection \<open>serverLog\<close>

text \<open>\<open>logger.Printf(logFmt, time.Now().Format(dateFmt), msg)\<close> with
  \<open>logFmt = "time=%q msg=%q"\<close>.\<close>

definition server_log_text :: "clock_reading \<Rightarrow> string \<Rightarrow> string" where
  "server_log_text t msg = ''time='' @ go_quote (format_time t) @ '' msg='' @ go_quote msg"

definition server_log :: "clock_reading \<Rightarrow> string \<Rightarrow> string" where
  "server_log t msg = log_output (server_log_text t msg)"

text \<open>The messages of the shutdown goroutine and of the end of \<open>main\<close>
  (lines 119, 129 and 144), in the order they are written: the signal's name,
  the error of \<open>Shutdown\<close> if it returned one, and the end.\<close>

definition shutdown_messages :: "string \<Rightarrow> string option \<Rightarrow> string list" where
  "shutdown_messages sig err =
     [''shutdown started by signal: '' @ sig]
     @ (case err of None \<Rightarrow> [] | Some e \<Rightarrow> [''shutdown error: '' @ e]) @ [''shutdown finished'']"

definition write_log :: "(clock_reading \<times> string) list \<Rightarrow> string" where
  "write_log es = concat (map (\<lambda>(t, m). server_log t m) es)"

subsection \<open>Reading a line back\<close>

text \<open>The body of a double-quoted Go string up to its closing quote, and what
  follows it: the escapes \<open>Quote\<close> writes, a byte for any other byte, and no
  raw line feed.\<close>

fun unquote :: "string \<Rightarrow> (string \<times> string) option" where
  "unquote [] = None"
| "unquote (c # cs) =
     (if c = CHR 0x22 then Some ([], cs)
      else if c = CHR 0x0A then None
      else if c \<noteq> CHR 0x5C then map_option (apfst (Cons c)) (unquote cs)
      else case cs of
        [] \<Rightarrow> None
      | d # ds \<Rightarrow>
          if d = CHR 0x22 \<or> d = CHR 0x5C then map_option (apfst (Cons d)) (unquote ds)
          else case map_of (map prod.swap short_escapes) d of
            Some v \<Rightarrow> map_option (apfst (Cons v)) (unquote ds)
          | None \<Rightarrow>
              if d \<noteq> CHR ''x'' then None
              else case ds of
                h1 # h2 # rest \<Rightarrow>
                  (case (unhex h1, unhex h2) of
                     (Some a, Some b) \<Rightarrow> map_option (apfst (Cons (char_of (16 * a + b)))) (unquote rest)
                   | _ \<Rightarrow> None)
              | _ \<Rightarrow> None)"

definition read_field :: "string \<Rightarrow> string \<Rightarrow> (string \<times> string) option" where
  "read_field key s = (if take (length key + 1) s = key @ [CHR 0x22] then unquote (drop (length key + 1) s) else None)"

definition read_log_line :: "string \<Rightarrow> (string \<times> string) option" where
  "read_log_line l =
     (case read_field ''time='' l of
        None \<Rightarrow> None
      | Some (t, r1) \<Rightarrow> (case read_field '' msg='' r1 of Some (m, []) \<Rightarrow> Some (t, m) | _ \<Rightarrow> None))"

subsection \<open>Properties\<close>

lemma short_escape_inverse:
  "map_of short_escapes c = Some e \<Longrightarrow>
   e \<noteq> CHR 0x22 \<and> e \<noteq> CHR 0x5C \<and> map_of (map prod.swap short_escapes) e = Some c"
  by (auto simp: short_escapes_def split: if_splits)

lemma x_not_short_escape: "map_of (map prod.swap short_escapes) (CHR ''x'') = None"
  by (simp add: short_escapes_def)

text \<open>One quoted byte reads back as that byte.\<close>

lemma unquote_quote_char:
  "unquote (quote_char c @ rest) = map_option (apfst (Cons c)) (unquote rest)"
proof -
  let ?n = "of_char c :: nat"
  consider "c = CHR 0x22 \<or> c = CHR 0x5C"
    | "\<not> (c = CHR 0x22 \<or> c = CHR 0x5C)" "0x20 \<le> ?n \<and> ?n < 0x7F"
    | e where "\<not> (c = CHR 0x22 \<or> c = CHR 0x5C)" "\<not> (0x20 \<le> ?n \<and> ?n < 0x7F)" "map_of short_escapes c = Some e"
    | "\<not> (c = CHR 0x22 \<or> c = CHR 0x5C)" "\<not> (0x20 \<le> ?n \<and> ?n < 0x7F)" "map_of short_escapes c = None"
        "?n < 0x20 \<or> ?n = 0x7F"
    | "\<not> (c = CHR 0x22 \<or> c = CHR 0x5C)" "\<not> (0x20 \<le> ?n \<and> ?n < 0x7F)" "map_of short_escapes c = None"
        "\<not> (?n < 0x20 \<or> ?n = 0x7F)"
    by (cases "map_of short_escapes c") blast+
  then show ?thesis
  proof cases
    case 1
    then show ?thesis by (auto simp: quote_char_def)
  next
    case 2
    then have "c \<noteq> CHR 0x0A" by (auto simp: char_eq_via_nat [of c])
    then show ?thesis using 2 by (simp add: quote_char_def Let_def)
  next
    case (3 e)
    then show ?thesis using short_escape_inverse [OF 3(3)] by (simp add: quote_char_def Let_def)
  next
    case 4
    have "?n div 16 < 16" using of_char_lt_256 [of c] by linarith
    then have "unhex (hex_digit (?n div 16)) = Some (?n div 16)" "unhex (hex_digit (?n mod 16)) = Some (?n mod 16)"
      by (simp_all add: unhex_hex_digit)
    moreover have "char_of (16 * (?n div 16) + ?n mod 16) = c" by simp
    ultimately show ?thesis using 4 by (simp add: quote_char_def Let_def x_not_short_escape)
  next
    case 5
    then have "c \<noteq> CHR 0x0A" by (auto simp: char_eq_via_nat [of c])
    then show ?thesis using 5 by (simp add: quote_char_def Let_def)
  qed
qed

lemma unquote_quoted: "unquote (concat (map quote_char s) @ CHR 0x22 # rest) = Some (s, rest)"
  by (induction s) (simp_all add: unquote_quote_char)

lemma lf_notin_quote_char: "CHR 0x0A \<notin> set (quote_char c)"
proof -
  have "(of_char c :: nat) div 16 < 16" using of_char_lt_256 [of c] by linarith
  then show ?thesis
    using lf_notin_hex_digit [of "of_char c div 16"] lf_notin_hex_digit [of "of_char c mod 16"]
      short_escape_inverse [of c]
    by (auto simp: quote_char_def Let_def char_eq_via_nat [of c] short_escapes_def split: option.splits if_splits)
qed

lemma lf_notin_go_quote: "CHR 0x0A \<notin> set (go_quote s)"
  by (auto simp: go_quote_def lf_notin_quote_char)

text \<open>A \<open>serverLog\<close> line is the quoted fields and one line feed.\<close>

lemma server_log_line: "server_log t msg = server_log_text t msg @ [CHR 0x0A]"
  by (simp add: server_log_def log_output_def server_log_text_def go_quote_def)

lemma lf_notin_server_log_text: "CHR 0x0A \<notin> set (server_log_text t msg)"
  by (simp add: server_log_text_def lf_notin_go_quote)

lemma read_server_log: "read_log_line (server_log_text t msg) = Some (format_time t, msg)"
  by (simp add: read_log_line_def read_field_def server_log_text_def go_quote_def unquote_quoted)

lemma write_log_lines:
  "write_log es = concat (map (\<lambda>x. x @ [CHR 0x0A]) (map (\<lambda>(t, m). server_log_text t m) es))"
  by (induction es) (auto simp: write_log_def server_log_line)

lemma split_write_log:
  "split_on CHR 0x0A (write_log es) = map (\<lambda>(t, m). server_log_text t m) es @ [[]]"
  unfolding write_log_lines by (rule split_on_lines) (auto simp: lf_notin_server_log_text)

text \<open>C40: what \<open>serverLog\<close> writes is one line per message, and each line
  reads back: cut at its line feeds, the log of any sequence of messages is the
  sequence of lines, and reading each line gives the formatted time and the
  message, in order, whatever bytes the messages hold.\<close>

theorem server_log_readable:
  "split_on CHR 0x0A (write_log es) = map (\<lambda>(t, m). server_log_text t m) es @ [[]]
   \<and> map read_log_line (butlast (split_on CHR 0x0A (write_log es)))
     = map (\<lambda>(t, m). Some (format_time t, m)) es"
  by (simp add: split_write_log comp_def case_prod_beta read_server_log)

text \<open>The shutdown log in particular reads back as the signal line, the error
  line if \<open>Shutdown\<close> failed, and the final line.\<close>

lemma shutdown_log_readable:
  "length ts = length (shutdown_messages sig err) \<Longrightarrow>
   map (map_option snd \<circ> read_log_line) (butlast (split_on CHR 0x0A (write_log (zip ts (shutdown_messages sig err)))))
     = map Some (shutdown_messages sig err)"
proof -
  assume l: "length ts = length (shutdown_messages sig err)"
  have "map (\<lambda>x. Some (snd x)) (zip ts (shutdown_messages sig err))
      = map Some (map snd (zip ts (shutdown_messages sig err)))" by simp
  then show ?thesis using l by (simp add: split_write_log comp_def case_prod_beta read_server_log)
qed

end
