(* ===== verification/Spec2Isabelle.thy ===== *)
theory Spec2Isabelle
  imports ClientIP Config Routing Endpoints Shutdown Banner ServerLog
begin

text \<open>
  \<^bold>\<open>A verification development for httpbin (Go).\<close>

  \<^bold>\<open>The program.\<close> \<open>src/cmd/httpbin/main.go\<close> reads the flags and the
  environment, builds an \<open>HTTPBin\<close> with \<open>app.New\<close> and its options
  (\<open>src/app/app.go\<close>), prints the start-up banner (\<open>src/app/utils/info\<close>,
  \<open>src/app/utils/color\<close>), serves \<open>HTTPBin.Handler()\<close> and shuts down
  gracefully on a signal. \<open>Handler()\<close> registers 63 patterns on an
  \<open>http.ServeMux\<close> and wraps it in four middlewares. The echo handlers report
  the client address that \<open>GetClientIP\<close> (\<open>src/app/utils/ip/ip.go\<close>)
  derives from the platform and proxy headers. The endpoint handlers and the
  middleware bodies are not in this repository's \<open>src/\<close>.

  \<^bold>\<open>Theories, in import order.\<close>
  \<^item> \<open>Prelude\<close>: the type names (\<open>int64\<close> as \<open>int\<close> with the
    two's-complement wrap \<open>int64_wrap\<close>, \<open>duration\<close> in nanoseconds,
    \<open>multimap\<close>), and lemmas on association lists and \<open>takeWhile\<close>.
  \<^item> \<open>GoLib\<close>: the library functions that \<open>ip.go\<close> calls:
    \<open>textproto.CanonicalMIMEHeaderKey\<close>, \<open>Header.Get\<close>/\<open>Set\<close>,
    \<open>strings.TrimSpace\<close> (with the Unicode white space), and \<open>SplitN(..)[0]\<close>.
    The \<open>TrimSpace\<close> loops are \<open>function\<close>s with a length measure.
  \<^item> \<open>Strconv\<close>: \<open>ParseUint\<close>/\<open>ParseInt(s, 10, 64)\<close> with syntax and range
    errors as \<open>Inl\<close> values, \<open>Atoi\<close> with its fast path, and \<open>Itoa\<close>.
    Proved: the round trip \<open>ParseInt (Itoa i) = i\<close> on all of \<open>int64\<close> (C12),
    the fast path equal to the general path (C13), results always in range (C36).
  \<^item> \<open>Http\<close>: request and response records. A response is a status, a
    header map, and a list of writes stamped with their flush time, so that
    streaming and timing can be observed. Also \<open>http.Error\<close>,
    \<open>NotFound\<close> and \<open>Redirect\<close>.
  \<^item> \<open>ClientIP\<close>: \<open>GetClientIP\<close> and \<open>GetLocalIp\<close>, with IP addresses as
    \<open>8 word\<close> lists. Proved: each precedence case (C1, C2), the unit-test table
    of \<open>ip_test.go\<close> as a lemma, the finding that a blank first
    \<open>X-Forwarded-For\<close> entry gives an empty address for every such header (C5),
    and the local address lookup (C6).
  \<^item> \<open>Config\<close>: \<open>HTTPBin\<close>, \<open>DefaultParams\<close>, the option functions,
    \<open>New\<close>. Proved (C7): the last option of each kind wins, otherwise the
    default.
  \<^item> \<open>Routing\<close>: the route table as data, and the legacy \<open>ServeMux\<close>.
    \<open>Handle\<close> panics on an empty or duplicate pattern. The entries ending in
    a slash are kept sorted by decreasing length. \<open>match\<close> tries the exact
    pattern, then the subtree prefixes. A missing trailing slash gives a 301
    redirect. Proved: registration keeps the mux well-formed (C8); \<open>match\<close>
    is the documented longest-match rule (C9); the finding that \<open>/range\<close>, \<open>/etag\<close> and \<open>/base64\<close> redirect (C11).
  \<^item> \<open>Json\<close>: \<open>encoding/json\<close> as the envelopes use it (escaped HTML,
    sorted map keys). A strict reader of JSON string literals, written from
    the grammar of RFC 8259 (it refuses raw control bytes and stops at the
    first unescaped quote), shows that the escaping is lossless; C23 uses it
    to show that the \<open>/get\<close> origin reads back as \<open>GetClientIP\<close>. The writer never emits a raw line
    feed, so that a stream of values one per line can be cut at line feeds.
  \<^item> \<open>Envelopes\<close>: every response struct of \<open>app.go\<close> (lines 22-94) as a
    record with its JSON object, the fields in order under their \<open>json\<close> tags.
  \<^item> \<open>Base64\<close>: \<open>encoding/base64\<close>'s standard encoding and its decoder,
    and \<open>Request.BasicAuth\<close> of \<open>net/http\<close> (case-insensitive \<open>Basic\<close>
    prefix, split at the first colon): decoding undoes encoding, and the
    credentials a client encodes are read back.
  \<^item> \<open>Conditional\<close>: the \<open>If-None-Match\<close> condition of \<open>net/http\<close>
    (\<open>checkIfNoneMatch\<close>, \<open>scanETag\<close>, weak comparison), its scanning loop a
    \<open>function\<close> whose termination is proved with a length measure.
  \<^item> \<open>Handlers\<close> (from the specification): the \<open>/get\<close> envelope, the echo
    endpoints \<open>/ip\<close>, \<open>/user-agent\<close>, \<open>/headers\<close> and \<open>/hostname\<close>,
    \<open>/basic-auth\<close> and \<open>/hidden-basic-auth\<close>, \<open>/stream\<close>, \<open>/etag\<close>, the
    status echo, the redirect family, \<open>/delay\<close> and \<open>/drip\<close>, with their
    schedule lemmas. Proved (C27): the user a client encodes in its
    \<open>Authorization\<close> header is the user of \<open>/basic-auth\<close>'s
    \<open>authResponse\<close> body, and reads back from it exactly.
  \<^item> \<open>Middleware\<close>: the \<open>methods\<close> wrapper, \<open>limitRequestSize\<close>,
    \<open>preflight\<close>, \<open>autohead\<close> and \<open>observe\<close>, composed as in \<open>app.go\<close>
    lines 219-229. The endpoints are a parameter
    \<open>ep :: endpoint \<Rightarrow> handler\<close>: every middleware property (C14-C16, C18) holds
    for any endpoints, and \<open>serves_modelled\<close> plugs in the modelled handlers.
  \<^item> \<open>Endpoints\<close>: whole-stack properties. A client follows
    \<open>/redirect/n\<close> through n 302 hops to \<open>/get\<close> (C19). A client that
    follows redirects until a response is not one, written with
    \<open>partial_function (option)\<close> so that a redirect cycle is \<open>None\<close>, returns
    from \<open>/redirect/\<close> followed by any text, with a final status that is not
    a redirect: \<open>/get\<close> after a chain, or the 400 or 404 of a malformed
    path (C10, termination). \<open>/stream/n\<close> writes 1 to 100
    JSON records, one per line, with ids in order (C3). \<open>/etag\<close> answers 304
    to a matching \<open>If-None-Match\<close> and 200 with the tag otherwise (C4). \<open>/delay\<close> is bounded
    by \<open>MaxDuration\<close> (C20). The status echo (C21) and its errors (C38). The byte count and
    schedule of \<open>/drip\<close> (C22). The \<open>/get\<close> envelope and its origin (C23).
    \<open>/drip\<close> answers 400 to every invalid parameter, before any delay (C24).
    \<open>/basic-auth/u/p\<close>: 401 with a challenge without credentials, 200 with
    the encoded ones and 401 with other ones; the finding that a user with a
    colon never matches (C29). \<open>/hidden-basic-auth\<close> answers 404 instead of
    401 and never sends a challenge (C17). C17 and C29 take a clean path
    (non-empty user, no \<open>.\<close> or \<open>..\<close> segment), as the router model does.
  \<^item> \<open>Startup\<close>: the environment overrides and exit paths of \<open>main\<close>
    (C25, C26); the options handed to \<open>New\<close>, the listen address and the
    failed lookup of the real host name (C28); the shutdown timeout (C30).
    The finding that the timeout overflows (C30).
  \<^item> \<open>Shutdown\<close>: the signal goroutine, \<open>server.Shutdown\<close> and the exit,
    as an \<open>inductive\<close> step relation over requests accepted, served and cut.
    Proved: the invariant of the reachable states by rule induction (C31);
    the grace period (C32); from every reachable draining state, the deadline
    is reached with exit code 0, the in-flight requests cut and nothing else
    changed (C33); refinement of the specification's Running, Draining, Stopped
    machine (C34); the overflow run that cuts requests at once (C35).
  \<^item> \<open>Banner\<close>: \<open>ShowInfo\<close> and the colour helpers, with Go's truncating
    division as \<open>sdiv\<close>. Proved: the milliseconds shown, which are negative
    when the wall clock steps back (C37, a finding).
  \<^item> \<open>ServerLog\<close>: the logger of \<open>main\<close> (lines 76-87): \<open>log.New\<close> without
    prefix or flags, \<open>serverLog\<close>'s \<open>time=%q msg=%q\<close> with
    \<open>strconv.Quote\<close> and the \<open>2006-01-02T15:04:05.9999\<close> layout of
    \<open>time.Format\<close>, and the messages of the shutdown. A reader written from
    Go's quoted-string grammar shows that every log reads back line by line,
    in order (C40).
  \<^item> This theory: what start-up configures is what \<open>/hostname\<close> reports
    through the whole handler (C39).

  \<^bold>\<open>Bounds and widths.\<close> Go's \<open>int64\<close> and \<open>time.Duration\<close> are \<open>int\<close>,
  with \<open>int64_wrap\<close> written out wherever the code can overflow (the shutdown
  timeout, the banner's clock difference). \<open>ParseUint\<close> checks against
  \<open>2^64\<close> and \<open>ParseInt\<close> against \<open>2^63\<close>, as Go does. No model uses
  fuel. Every recursion is structural, or a \<open>function\<close> with a length
  measure (the \<open>TrimSpace\<close> loops and the \<open>If-None-Match\<close> loop
  \<open>inm_loop\<close>); the JSON string reader is structural. \<open>/stream\<close> clamps its count to
  1-100 as the handler does.
  \<open>follow\<close> takes the number of hops as its argument. The redirect client
  \<open>client_follow\<close> may not return, so it is a \<open>partial_function (option)\<close>,
  and C10 proves that it returns.

  \<^bold>\<open>Not modelled.\<close>
  \<^item> \<open>ServeMux\<close>'s path cleaning (\<open>cleanPath\<close>): Go answers a path
    with an empty, \<open>.\<close> or \<open>..\<close> segment with a 301 to its clean form. The
    router model (\<open>mux_handler\<close>, written from the \<open>net/http\<close>
    documentation since that code is not under \<open>src/\<close>) takes every path
    to be clean; C17 and C29 state this as hypotheses.
  \<^item> \<open>flag.Parse\<close>: its result is the \<open>flags\<close> record.
  \<^item> \<open>time.ParseDuration\<close> is a parameter of the loader, because its
    fractional part is computed in \<open>float64\<close>.
  \<^item> Sockets and the HTTP wire format. \<open>time.Now()\<close>: its broken-down
    reading is an input of the log model. \<open>strconv.Quote\<close>'s escapes of
    invalid UTF-8 and of non-printable runes above 0x7F.
  \<^item> The date conditions (\<open>If-Modified-Since\<close>, \<open>If-Unmodified-Since\<close>),
    \<open>If-Match\<close> and \<open>Range\<close> handling of \<open>http.ServeContent\<close> behind
    \<open>/etag\<close>: the specification names only the \<open>If-None-Match\<close> comparison.
  \<^item> The real-time scheduling of goroutines: time is an explicit clock, and
    \<open>Shutdown\<close>'s polling is one step.
  \<^item> The 29 endpoint handlers other than the fifteen above (cookies,
    digest and bearer authentication, compression, images, byte streams, ...).
    Their code is not in
    \<open>src/\<close>, and the composition leaves them as a parameter.
  \<^item> \<open>encoding/json\<close>'s replacement of invalid UTF-8.
\<close>

subsection \<open>Across start-up and serving\<close>

text \<open>C39: what \<open>main\<close> configures is what \<open>GET /hostname\<close> reports through
  the whole handler: the real host name when \<open>-use-real-hostname\<close> is given or
  \<open>USE_REAL_HOSTNAME\<close> is \<open>1\<close> or \<open>true\<close>, and the placeholder \<open>httpbin\<close>
  otherwise.\<close>

theorem hostname_from_startup:
  assumes "load_flags pd e fl = Inr fl'" and "startup pd e fl host = Inr (hi, addr)"
    and "serves_modelled hi ep" and "req_method r = ''GET''"
    and "int (length (req_body r)) \<le> MaxBodySize hi" and "req_path r = ''/hostname''"
  shows "resp_status (resp_of hi ep r) = 200
    \<and> resp_body (resp_of hi ep r)
        = json_encode (JObject [(''hostname'', JString (if flag_use_real_hostname fl' then the host else ''httpbin''))])
    \<and> (flag_use_real_hostname fl' \<longleftrightarrow>
         flag_use_real_hostname fl \<or> getenv e ''USE_REAL_HOSTNAME'' \<in> {''1'', ''true''})"
proof -
  have hn: "hostname hi = (if flag_use_real_hostname fl' then the host else ''httpbin'')"
    using startup_configures_aux [OF assms(1,2)] by (simp add: default_hostname_def)
  have "resp_of hi ep r = add_headers (cors_headers r) (hostname_handler hi r)"
    using handle_through_stack [of r "''/hostname''" Hostname hi ep] assms(3-6) route_hostname
    by (simp add: serves_modelled_def)
  then have "resp_status (resp_of hi ep r) = 200
      \<and> resp_body (resp_of hi ep r) = json_encode (JObject [(''hostname'', JString (hostname hi))])"
    by (simp add: hostname_handler_def json_response_def hostname_response_json_def resp_body_def
        del: json_encode.simps)
  moreover have "flag_use_real_hostname fl' \<longleftrightarrow>
         flag_use_real_hostname fl \<or> getenv e ''USE_REAL_HOSTNAME'' \<in> {''1'', ''true''}"
    using assms(1) unfolding load_flags_Inr by blast
  ultimately show ?thesis using hn by simp
qed

theorem hostname_from_startup_witness:
  "resp_status (resp_of (new_httpbin [WithMaxBodySize 100, WithMaxDuration (5 * second),
      WithObserver (StdLogObserver ''stderr'')])
     (modelled_endpoints (new_httpbin [WithMaxBodySize 100, WithMaxDuration (5 * second),
      WithObserver (StdLogObserver ''stderr'')]))
     ((test_req [])\<lparr>req_path := ''/hostname''\<rparr>)) = 200"
proof -
  let ?hi = "new_httpbin [WithMaxBodySize 100, WithMaxDuration (5 * second), WithObserver (StdLogObserver ''stderr'')]"
  have l: "load_flags (\<lambda>_. Inl ''x'') [] example_flags = Inr example_flags"
    by (simp add: load_flags_def env_override_def getenv_def example_flags_def flag_defaults)
  have s: "startup (\<lambda>_. Inl ''x'') [] example_flags None = Inr (?hi, listen_addr 9090)"
    unfolding startup_def l by (simp add: startup_options_def example_flags_def)
  have "req_method ((test_req [])\<lparr>req_path := ''/hostname''\<rparr>) = ''GET''"
    "int (length (req_body ((test_req [])\<lparr>req_path := ''/hostname''\<rparr>))) \<le> MaxBodySize ?hi"
    "req_path ((test_req [])\<lparr>req_path := ''/hostname''\<rparr>) = ''/hostname''"
    by (simp_all add: test_req_def new_httpbin_def new_defaults_def)
  from hostname_from_startup [OF l s serves_modelled_endpoints this] show ?thesis by (rule conjunct1)
qed

end
